(* ===== verification/Prelude.thy ===== *)
theory Prelude
  imports Main "HOL-Library.Sublist"
begin

text \<open>
  Shared vocabulary of the development. Python exceptions are values of
  \<open>py_exc\<close>; a Python statement sequence that may raise is a function
  \<open>('s, 'a) pyio\<close> from a state to a result (\<open>Inl\<close> the exception that escaped,
  \<open>Inr\<close> the returned value) and the state reached, which is how the
  \<open>try\<close>/\<open>except\<close> and the uncaught exceptions of \<open>src/loader.py\<close> are modelled.
  The collection \<open>pyio_simps\<close> holds the rules that run such a computation on a
  concrete state.
\<close>

named_theorems pyio_simps "rules that evaluate the exception-and-state monad"
named_theorems raises_intros "rules that bound the exceptions a computation raises, block by block"

section \<open>Python exceptions\<close>

text \<open>
  The exceptions the loader can raise: \<open>subprocess.CalledProcessError\<close> (the
  argument vector and the exit status), the \<open>OSError\<close>s of \<open>subprocess\<close> for a
  missing or non-directory working directory, \<open>KeyError\<close> of a dictionary index,
  \<open>TypeError\<close> of a call with missing arguments or of a value of the wrong type,
  and the network error of \<open>requests.get\<close>.
\<close>

datatype py_exc =
    CalledProcessError "string list" int
  | FileNotFoundError string
  | NotADirectoryError string
  | KeyError string
  | TypeError string
  | ConnectionError

fun is_called_process_error :: "py_exc \<Rightarrow> bool" where
  "is_called_process_error (CalledProcessError _ _) = True"
| "is_called_process_error _ = False"

section \<open>The exception-and-state monad\<close>

type_synonym ('s, 'a) pyio = "'s \<Rightarrow> (py_exc + 'a) \<times> 's"

definition py_return :: "'a \<Rightarrow> ('s, 'a) pyio" where
  "py_return a = (\<lambda>s. (Inr a, s))"

definition py_raise :: "py_exc \<Rightarrow> ('s, 'a) pyio" where
  "py_raise e = (\<lambda>s. (Inl e, s))"

definition py_bind :: "('s, 'a) pyio \<Rightarrow> ('a \<Rightarrow> ('s, 'b) pyio) \<Rightarrow> ('s, 'b) pyio" where
  "py_bind m f = (\<lambda>s. case m s of (Inl e, s') \<Rightarrow> (Inl e, s') | (Inr a, s') \<Rightarrow> f a s')"

definition py_then :: "('s, 'a) pyio \<Rightarrow> ('s, 'b) pyio \<Rightarrow> ('s, 'b) pyio" where
  "py_then m n = py_bind m (\<lambda>_. n)"

text \<open>
  \<open>try: m  except E as e: h e\<close>: the handler runs, from the state the failing
  body left behind, on the exceptions the predicate selects; others propagate.
\<close>

definition py_try :: "('s, 'a) pyio \<Rightarrow> (py_exc \<Rightarrow> bool) \<Rightarrow> (py_exc \<Rightarrow> ('s, 'a) pyio) \<Rightarrow> ('s, 'a) pyio" where
  "py_try m sel h = (\<lambda>s. case m s of
      (Inl e, s') \<Rightarrow> (if sel e then h e s' else (Inl e, s'))
    | (Inr a, s') \<Rightarrow> (Inr a, s'))"

text \<open>An action that only changes the state and cannot raise.\<close>

definition py_modify :: "('s \<Rightarrow> 's) \<Rightarrow> ('s, unit) pyio" where
  "py_modify f = (\<lambda>s. (Inr (), f s))"

subsection \<open>Evaluation rules\<close>

lemma py_return_apply [pyio_simps]: "py_return a s = (Inr a, s)"
  by (simp add: py_return_def)

lemma py_raise_apply [pyio_simps]: "py_raise e s = (Inl e, s)"
  by (simp add: py_raise_def)

lemma py_modify_apply [pyio_simps]: "py_modify f s = (Inr (), f s)"
  by (simp add: py_modify_def)

lemma py_bind_Inr [pyio_simps]: "m s = (Inr a, s') \<Longrightarrow> py_bind m f s = f a s'"
  by (simp add: py_bind_def)

lemma py_bind_Inl [pyio_simps]: "m s = (Inl e, s') \<Longrightarrow> py_bind m f s = (Inl e, s')"
  by (simp add: py_bind_def)

lemma py_then_Inr [pyio_simps]: "m s = (Inr a, s') \<Longrightarrow> py_then m n s = n s'"
  by (simp add: py_then_def py_bind_def)

lemma py_then_Inl [pyio_simps]: "m s = (Inl e, s') \<Longrightarrow> py_then m n s = (Inl e, s')"
  by (simp add: py_then_def py_bind_def)

lemma py_try_Inr [pyio_simps]: "m s = (Inr a, s') \<Longrightarrow> py_try m sel h s = (Inr a, s')"
  by (simp add: py_try_def)

lemma py_try_Inl [pyio_simps]:
  "m s = (Inl e, s') \<Longrightarrow> py_try m sel h s = (if sel e then h e s' else (Inl e, s'))"
  by (simp add: py_try_def)

lemma py_bind_return_left [simp]: "py_bind (py_return a) f = f a"
  by (simp add: py_bind_def py_return_def)

lemma py_bind_raise [simp]: "py_bind (py_raise e) f = py_raise e"
  by (simp add: py_bind_def py_raise_def)

lemma py_bind_return_right [simp]: "py_bind m py_return = m"
  by (rule ext) (simp add: py_bind_def py_return_def split: prod.splits sum.splits)

lemma py_bind_assoc:
  "py_bind (py_bind m f) g = py_bind m (\<lambda>a. py_bind (f a) g)"
  by (rule ext) (simp add: py_bind_def split: prod.splits sum.splits)

lemma py_then_assoc:
  "py_then (py_then m n) k = py_then m (py_then n k)"
  by (simp add: py_then_def py_bind_assoc)

text \<open>
  The general shape of a sequential composition, used when the first
  computation is not a concrete one: case analysis on its outcome.
\<close>

lemma py_bind_cases:
  obtains (raised) e s' where "m s = (Inl e, s')" "py_bind m f s = (Inl e, s')"
  | (returned) a s' where "m s = (Inr a, s')" "py_bind m f s = f a s'"
  by (cases "m s" rule: prod.exhaust; cases "fst (m s)") (auto simp: py_bind_def)

lemma py_then_cases:
  obtains (raised) e s' where "m s = (Inl e, s')" "py_then m n s = (Inl e, s')"
  | (returned) a s' where "m s = (Inr a, s')" "py_then m n s = n s'"
  by (cases "m s" rule: prod.exhaust; cases "fst (m s)") (auto simp: py_then_def py_bind_def)

section \<open>Lists\<close>

text \<open>
  The projection of an interleaved log onto one of its writers, used for the
  per-child ordering of the console output.
\<close>

definition proj :: "'k \<Rightarrow> ('k \<times> 'v) list \<Rightarrow> 'v list" where
  "proj k xs = map snd (filter (\<lambda>(k', _). k' = k) xs)"

lemma proj_Nil [simp]: "proj k [] = []"
  by (simp add: proj_def)

lemma proj_append [simp]: "proj k (xs @ ys) = proj k xs @ proj k ys"
  by (simp add: proj_def)

lemma proj_Cons_same [simp]: "proj k ((k, v) # xs) = v # proj k xs"
  by (simp add: proj_def)

lemma proj_Cons_other [simp]: "k' \<noteq> k \<Longrightarrow> proj k ((k', v) # xs) = proj k xs"
  by (simp add: proj_def)


text \<open>Looking a key up in an association list filtered by its keys.\<close>

lemma map_of_filter_key [simp]:
  "map_of (filter (\<lambda>(k, v). P k) xs) x = (if P x then map_of xs x else None)"
  by (induction xs) auto


subsection \<open>Frame conditions\<close>

text \<open>
  \<open>frames R m\<close>: every run of \<open>m\<close> relates its initial and final state by
  \<open>R\<close>. For a reflexive and transitive \<open>R\<close> the property composes along
  \<open>py_bind\<close>, \<open>py_then\<close> and \<open>py_try\<close>.
\<close>

definition frames :: "('s \<Rightarrow> 's \<Rightarrow> bool) \<Rightarrow> ('s, 'a) pyio \<Rightarrow> bool" where
  "frames R m \<longleftrightarrow> (\<forall>s. R s (snd (m s)))"

lemma framesD: "frames R m \<Longrightarrow> m s = (r, s') \<Longrightarrow> R s s'"
  by (metis frames_def snd_conv)

lemma frames_return [simp]: "reflp R \<Longrightarrow> frames R (py_return a)"
  and frames_raise [simp]: "reflp R \<Longrightarrow> frames R (py_raise e)"
  by (simp_all add: frames_def py_return_def py_raise_def reflpD)

definition py_lift :: "py_exc + 'a \<Rightarrow> ('s, 'a) pyio" where
  "py_lift r = (\<lambda>s. (r, s))"

lemma frames_lift [simp]: "reflp R \<Longrightarrow> frames R (py_lift r)"
  by (simp add: frames_def py_lift_def reflpD)

lemma frames_modify [simp]: "frames R (py_modify f) \<longleftrightarrow> (\<forall>s. R s (f s))"
  by (simp add: frames_def py_modify_def)

lemma frames_bind [simp]:
  assumes "transp R" "frames R m" "\<And>a. frames R (f a)"
  shows "frames R (py_bind m f)"
  unfolding frames_def
proof
  fix s
  obtain r s' where m: "m s = (r, s')" by fastforce
  with assms(2) have R: "R s s'" by (rule framesD)
  show "R s (snd (py_bind m f s))"
  proof (cases r)
    case (Inl e)
    with m R show ?thesis by (simp add: py_bind_def)
  next
    case (Inr a)
    with m have "snd (py_bind m f s) = snd (f a s')" by (simp add: py_bind_def)
    with R assms(1,3) show ?thesis by (metis frames_def transpD)
  qed
qed

lemma frames_then [simp]: "transp R \<Longrightarrow> frames R m \<Longrightarrow> frames R n \<Longrightarrow> frames R (py_then m n)"
  by (simp add: py_then_def)

lemma frames_try [simp]:
  assumes "transp R" "frames R m" "\<And>e. frames R (h e)"
  shows "frames R (py_try m sel h)"
  unfolding frames_def
proof
  fix s
  obtain r s' where m: "m s = (r, s')" by fastforce
  with assms(2) have R: "R s s'" by (rule framesD)
  show "R s (snd (py_try m sel h s))"
  proof (cases r)
    case (Inl e)
    with m R assms(1,3) show ?thesis by (auto simp: py_try_def frames_def dest: transpD)
  next
    case (Inr a)
    with m R show ?thesis by (simp add: py_try_def)
  qed
qed

lemma frames_if: "frames R m \<Longrightarrow> frames R n \<Longrightarrow> frames R (if c then m else n)"
  by simp

lemma frames_if_state:
  "frames R m \<Longrightarrow> frames R n \<Longrightarrow> frames R (\<lambda>s. if c s then m s else n s)"
  by (simp add: frames_def)

lemma frames_mono: "frames R m \<Longrightarrow> (\<And>s s'. R s s' \<Longrightarrow> Q s s') \<Longrightarrow> frames Q m"
  by (simp add: frames_def)

text \<open>A bind on a value that cannot fail changes nothing before it: only the values it may return matter.\<close>

lemma frames_bind_lift:
  assumes "reflp R" "\<And>a. r = Inr a \<Longrightarrow> frames R (f a)"
  shows "frames R (py_bind (py_lift r) f)"
  using assms by (cases r) (auto simp: frames_def py_bind_def py_lift_def reflpD)

subsection \<open>The exceptions a computation raises\<close>

text \<open>
  \<open>raises_only P m\<close>: every exception that escapes \<open>m\<close> satisfies \<open>P\<close>.
  The rules of \<open>raises_intros\<close> take a computation apart along its blocks;
  an exception caught by \<open>py_try\<close> need not satisfy \<open>P\<close>.
\<close>

definition raises_only :: "(py_exc \<Rightarrow> bool) \<Rightarrow> ('s, 'a) pyio \<Rightarrow> bool" where
  "raises_only P m \<longleftrightarrow> (\<forall>s e. fst (m s) = Inl e \<longrightarrow> P e)"

lemma raises_onlyD: "raises_only P m \<Longrightarrow> m s = (Inl e, s') \<Longrightarrow> P e"
  by (metis fst_conv raises_only_def)

lemma raises_only_return [raises_intros]: "raises_only P (py_return a)"
  and raises_only_modify [raises_intros]: "raises_only P (py_modify f)"
  by (simp_all add: raises_only_def py_return_def py_modify_def)

lemma raises_only_raise [raises_intros]: "P e \<Longrightarrow> raises_only P (py_raise e)"
  by (simp add: raises_only_def py_raise_def)

lemma raises_only_lift [raises_intros]: "(\<And>e. r = Inl e \<Longrightarrow> P e) \<Longrightarrow> raises_only P (py_lift r)"
  by (simp add: raises_only_def py_lift_def)

lemma raises_only_if [raises_intros]:
  "raises_only P m \<Longrightarrow> raises_only P n \<Longrightarrow> raises_only P (if c then m else n)"
  by simp

lemma raises_only_if_state [raises_intros]:
  "raises_only P m \<Longrightarrow> raises_only P n \<Longrightarrow> raises_only P (\<lambda>s. if c s then m s else n s)"
  by (simp add: raises_only_def)

lemma raises_only_bind [raises_intros]:
  assumes "raises_only P m" "\<And>a. raises_only P (f a)"
  shows "raises_only P (py_bind m f)"
  unfolding raises_only_def
proof (intro allI impI)
  fix s e
  assume e: "fst (py_bind m f s) = Inl e"
  obtain r s' where m: "m s = (r, s')" by fastforce
  show "P e"
  proof (cases r)
    case (Inl e')
    with m e assms(1) show ?thesis by (auto simp: py_bind_def dest: raises_onlyD)
  next
    case (Inr a)
    with m e assms(2) show ?thesis by (simp add: py_bind_def raises_only_def)
  qed
qed

lemma raises_only_then [raises_intros]:
  "raises_only P m \<Longrightarrow> raises_only P n \<Longrightarrow> raises_only P (py_then m n)"
  unfolding py_then_def by (rule raises_only_bind)

lemma raises_only_try [raises_intros]:
  assumes "raises_only (\<lambda>e. sel e \<or> P e) m" "\<And>e. raises_only P (h e)"
  shows "raises_only P (py_try m sel h)"
  unfolding raises_only_def
proof (intro allI impI)
  fix s e
  assume e: "fst (py_try m sel h s) = Inl e"
  obtain r s' where m: "m s = (r, s')" by fastforce
  show "P e"
  proof (cases r)
    case (Inl e')
    show ?thesis
    proof (cases "sel e'")
      case True
      with Inl m e assms(2) show ?thesis by (simp add: py_try_def raises_only_def)
    next
      case False
      with Inl m e have "m s = (Inl e, s')" "\<not> sel e" by (simp_all add: py_try_def)
      with assms(1) show ?thesis by (blast dest: raises_onlyD)
    qed
  next
    case (Inr a)
    with m e show ?thesis by (simp add: py_try_def)
  qed
qed

lemma raises_only_mono: "raises_only P m \<Longrightarrow> (\<And>e. P e \<Longrightarrow> Q e) \<Longrightarrow> raises_only Q m"
  by (simp add: raises_only_def)

lemma proj_map_Pair [simp]: "proj k (map (Pair k') xs) = (if k = k' then xs else [])"
  by (induction xs) auto

lemma length_filter_update:
  "i < length xs \<Longrightarrow>
     length (filter P (xs[i := y])) + (if P (xs ! i) then 1 else 0) = length (filter P xs) + (if P y then 1 else 0)"
proof (induction xs arbitrary: i)
  case (Cons x xs)
  then show ?case by (cases i) auto
qed simp

lemma sum_list_update_nat:
  "i < length xs \<Longrightarrow> sum_list (xs[i := y]) + xs ! i = sum_list xs + (y :: nat)"
proof (induction xs arbitrary: i)
  case (Cons x xs)
  then show ?case by (cases i) auto
qed simp

end
