(* ===== verification/Py_Str.thy ===== *)
theory Py_Str
  imports Prelude
begin

text \<open>
  The string operations of the Python runtime and libraries that
  \<open>src/loader.py\<close> relies on, as executable functions on \<open>string\<close>
  (characters are the code points 0--255): the substring test \<open>in\<close> (line 51),
  \<open>str.rstrip\<close> (line 89), \<open>os.path.join\<close> (lines 40 and 70), the line reading of a
  text-mode pipe (line 88), the markup rendering of \<open>rich.print\<close> (every
  \<open>rprint\<close>), and \<open>str\<close> of numbers and lists in f-strings and exception
  messages. Each comes with the lemmas that characterise it.
\<close>

section \<open>Substring test\<close>

fun starts_with :: "string \<Rightarrow> string \<Rightarrow> bool" where
  "starts_with [] ys = True"
| "starts_with (x # xs) [] = False"
| "starts_with (x # xs) (y # ys) = (x = y \<and> starts_with xs ys)"

text \<open>\<open>needle in haystack\<close> for two \<open>str\<close>s.\<close>

fun py_contains :: "string \<Rightarrow> string \<Rightarrow> bool" where
  "py_contains n [] = (n = [])"
| "py_contains n (c # cs) = (starts_with n (c # cs) \<or> py_contains n cs)"

lemma starts_with_prefix [simp]: "starts_with xs ys \<longleftrightarrow> prefix xs ys"
  by (induction xs ys rule: starts_with.induct) auto

lemma py_contains_sublist: "py_contains n h \<longleftrightarrow> sublist n h"
  by (induction h) (auto simp: sublist_Cons_right)

text \<open>
  An occurrence of a text without the separator \<open>c\<close> lies on one side of it;
  hence a line-free text occurs in a sequence of newline-terminated lines only
  inside one of the lines.
\<close>

lemma sublist_sep:
  assumes "sublist x (ys @ c # zs)" "c \<notin> set x"
  shows "sublist x ys \<or> sublist x zs"
proof -
  from assms(1) consider "sublist x ys" | "sublist x (c # zs)"
    | xs1 xs2 where "x = xs1 @ xs2" "suffix xs1 ys" "prefix xs2 (c # zs)"
    by (auto simp: sublist_append)
  then show ?thesis
  proof cases
    case 2
    then consider "prefix x (c # zs)" | "sublist x zs"
      by (auto simp: sublist_Cons_right)
    then show ?thesis
    proof cases
      case 1
      with assms(2) have "x = []" by (cases x) auto
      then show ?thesis by simp
    qed simp
  next
    case (3 xs1 xs2)
    with assms(2) have "xs2 = []" by (cases xs2) auto
    with 3 show ?thesis by (auto simp: suffix_def)
  qed simp
qed

lemma sublist_lines:
  assumes "CHR 0x0A \<notin> set x"
  shows "sublist x (concat (map (\<lambda>n. n @ ''\<newline>'') ns)) \<longleftrightarrow> x = [] \<or> (\<exists>n\<in>set ns. sublist x n)"
proof (induction ns)
  case Nil
  then show ?case by simp
next
  case (Cons n ns)
  let ?R = "concat (map (\<lambda>n. n @ ''\<newline>'') ns)"
  have eq: "concat (map (\<lambda>n. n @ ''\<newline>'') (n # ns)) = n @ CHR 0x0A # ?R" by simp
  have "sublist x (n @ CHR 0x0A # ?R) \<longleftrightarrow> sublist x n \<or> sublist x ?R"
  proof
    assume "sublist x (n @ CHR 0x0A # ?R)"
    then show "sublist x n \<or> sublist x ?R" by (rule sublist_sep [OF _ assms])
  next
    assume "sublist x n \<or> sublist x ?R"
    then show "sublist x (n @ CHR 0x0A # ?R)"
    proof
      assume "sublist x n"
      then show ?thesis by (metis sublist_append)
    next
      assume "sublist x ?R"
      then have "sublist x (CHR 0x0A # ?R)" by (simp add: sublist_Cons_right)
      then show ?thesis by (metis sublist_append)
    qed
  qed
  with Cons.IH show ?case unfolding eq by auto
qed

section \<open>Whitespace and \<open>rstrip\<close>\<close>

text \<open>\<open>str.isspace\<close> on the code points 0--255.\<close>

definition is_space :: "char \<Rightarrow> bool" where
  "is_space c \<longleftrightarrow> (of_char c :: nat) \<in> {9, 10, 11, 12, 13, 28, 29, 30, 31, 32, 133, 160}"

definition rstrip :: "string \<Rightarrow> string" where
  "rstrip s = rev (dropWhile is_space (rev s))"

section \<open>\<open>os.path.join\<close> (posixpath, two arguments)\<close>

definition os_path_join :: "string \<Rightarrow> string \<Rightarrow> string" where
  "os_path_join a b =
     (if starts_with ''/'' b then b
      else if a = [] \<or> last a = CHR ''/'' then a @ b
      else a @ ''/'' @ b)"

section \<open>Reading a text-mode pipe line by line\<close>

text \<open>
  \<open>Popen(..., text=True)\<close> decodes the pipe with universal newlines:
  \<open>\r\n\<close> and a lone \<open>\r\<close> are read as \<open>\n\<close>. \<open>readline\<close> then returns the
  text up to and including the next \<open>\n\<close>, the rest at end of file, and
  \<open>''\<close> once the stream is exhausted, which ends \<open>iter(readline, '')\<close>.
\<close>

definition drop_lf :: "string \<Rightarrow> string" where
  "drop_lf cs = (case cs of d # ds \<Rightarrow> if d = CHR 0x0A then ds else cs | [] \<Rightarrow> [])"

lemma length_drop_lf: "length (drop_lf cs) \<le> length cs"
  by (simp add: drop_lf_def split: list.splits)

function translate_newlines :: "string \<Rightarrow> string" where
  "translate_newlines [] = []"
| "translate_newlines (c # cs) =
     (if c = CHR 0x0D then CHR 0x0A # translate_newlines (drop_lf cs)
      else c # translate_newlines cs)"
  by pat_completeness auto
termination
  by (relation "measure length") (auto simp: le_imp_less_Suc length_drop_lf)

definition readline :: "string \<Rightarrow> string \<times> string" where
  "readline s =
     (let l = takeWhile (\<lambda>c. c \<noteq> CHR 0x0A) s; r = dropWhile (\<lambda>c. c \<noteq> CHR 0x0A) s
      in case r of [] \<Rightarrow> (l, []) | nl # rest \<Rightarrow> (l @ [nl], rest))"

lemma readline_shorter: "s \<noteq> [] \<Longrightarrow> length (snd (readline s)) < length s"
proof -
  assume "s \<noteq> []"
  have len: "length (dropWhile (\<lambda>c. c \<noteq> CHR 0x0A) s) \<le> length s"
    by (rule length_dropWhile_le)
  show ?thesis
  proof (cases "dropWhile (\<lambda>c. c \<noteq> CHR 0x0A) s")
    case Nil
    show ?thesis unfolding readline_def Let_def Nil using \<open>s \<noteq> []\<close> by simp
  next
    case (Cons nl rest)
    with len show ?thesis by (simp add: readline_def Let_def)
  qed
qed

text \<open>The lines \<open>iter(process.stdout.readline, '')\<close> yields, in order.\<close>

function read_lines :: "string \<Rightarrow> string list" where
  "read_lines s = (if s = [] then [] else fst (readline s) # read_lines (snd (readline s)))"
  by pat_completeness auto
termination
  by (relation "measure length") (auto intro: readline_shorter)

declare read_lines.simps [simp del]

definition pipe_lines :: "string \<Rightarrow> string list" where
  "pipe_lines out = read_lines (translate_newlines out)"

section \<open>Markup of \<open>rich.print\<close>\<close>

text \<open>
  \<open>rich\<close> reads \<open>[style]\<close> as a markup tag when the bracket is followed by a
  lower-case letter, \<open>#\<close>, \<open>/\<close> or \<open>@\<close> and closed by the next \<open>]\<close> before any
  other \<open>[\<close> (the pattern \<open>\[([a-z#/@][^[]*?)]\<close>); a tag is not printed, other
  text is. Printing to a pipe drops the styles themselves.
  Backslash escapes of brackets do not occur in the loader's messages and are
  not modelled. Nor is \<open>MarkupError\<close>: \<open>rich\<close> raises it for a closing tag
  (\<open>[/]\<close> or \<open>[/name]\<close>) that closes no open tag, where \<open>render_markup\<close>
  drops the tag. The loader's own labels always close what they open; the
  theorems about tags taken from the configuration are stated for opening tags.
\<close>

definition tag_start :: "char \<Rightarrow> bool" where
  "tag_start c \<longleftrightarrow> ((97::nat) \<le> of_char c \<and> of_char c \<le> (122::nat)) \<or> c = CHR ''#'' \<or> c = CHR ''/'' \<or> c = CHR ''@''"

definition markup_tag :: "string \<Rightarrow> string option" where
  "markup_tag s =
     (case s of
        [] \<Rightarrow> None
      | c # cs \<Rightarrow>
          if tag_start c then
            (case dropWhile (\<lambda>x. x \<noteq> CHR '']'' \<and> x \<noteq> CHR ''['') cs of
               x # r \<Rightarrow> if x = CHR '']'' then Some r else None
             | [] \<Rightarrow> None)
          else None)"

lemma markup_tag_shorter: "markup_tag s = Some r \<Longrightarrow> length r < length s"
proof -
  assume tag: "markup_tag s = Some r"
  then obtain c cs where s: "s = c # cs" by (cases s) (auto simp: markup_tag_def)
  let ?d = "dropWhile (\<lambda>x. x \<noteq> CHR '']'' \<and> x \<noteq> CHR ''['') cs"
  have "length ?d \<le> length cs" by (rule length_dropWhile_le)
  moreover from tag s obtain x where "?d = x # r"
    by (auto simp: markup_tag_def split: if_splits list.splits)
  ultimately show ?thesis using s by (metis Suc_le_eq length_Cons less_Suc_eq)
qed

function render_markup :: "string \<Rightarrow> string" where
  "render_markup [] = []"
| "render_markup (c # cs) =
     (if c = CHR ''['' then
        (case markup_tag cs of Some r \<Rightarrow> render_markup r | None \<Rightarrow> c # render_markup cs)
      else c # render_markup cs)"
  by pat_completeness auto
termination
  by (relation "measure length") (auto dest: markup_tag_shorter)

section \<open>\<open>str\<close> of numbers, strings and lists\<close>

definition hex_digit :: "nat \<Rightarrow> char" where
  "hex_digit n = ''0123456789abcdef'' ! n"

fun show_nat :: "nat \<Rightarrow> string" where
  "show_nat n = (if n < 10 then [hex_digit n] else show_nat (n div 10) @ [hex_digit (n mod 10)])"

declare show_nat.simps [simp del]

definition show_int :: "int \<Rightarrow> string" where
  "show_int i = (if i < 0 then CHR ''-'' # show_nat (nat (- i)) else show_nat (nat i))"

text \<open>
  \<open>repr\<close> of a \<open>str\<close>: single quotes unless the text holds a single quote and
  no double quote; backslash, the quote, and the control characters escaped.
\<close>

definition repr_char :: "char \<Rightarrow> char \<Rightarrow> string" where
  "repr_char q c =
     (if c = CHR 0x5C then [CHR 0x5C, CHR 0x5C]
      else if c = q then [CHR 0x5C, q]
      else if c = CHR 0x0A then [CHR 0x5C, CHR ''n'']
      else if c = CHR 0x0D then [CHR 0x5C, CHR ''r'']
      else if c = CHR 0x09 then [CHR 0x5C, CHR ''t'']
      else if of_char c < (32::nat) \<or> ((127::nat) \<le> of_char c \<and> of_char c \<le> (160::nat)) \<or> of_char c = (173::nat)
      then [CHR 0x5C, CHR ''x'', hex_digit (of_char c div 16), hex_digit (of_char c mod 16)]
      else [c])"

definition repr_str :: "string \<Rightarrow> string" where
  "repr_str s =
     (let q = (if CHR 0x27 \<in> set s \<and> CHR 0x22 \<notin> set s then CHR 0x22 else CHR 0x27)
      in q # concat (map (repr_char q) s) @ [q])"

text \<open>\<open>sep.join(xs)\<close>.\<close>

fun py_join :: "string \<Rightarrow> string list \<Rightarrow> string" where
  "py_join sep [] = []"
| "py_join sep [x] = x"
| "py_join sep (x # y # ys) = x @ sep @ py_join sep (y # ys)"

text \<open>\<open>str\<close> (= \<open>repr\<close>) of a list of \<open>str\<close>.\<close>

definition repr_str_list :: "string list \<Rightarrow> string" where
  "repr_str_list xs = CHR ''['' # py_join '', '' (map repr_str xs) @ '']''"


section \<open>Properties of line reading and \<open>rstrip\<close>\<close>

lemma readline_cases:
  obtains (eof) "dropWhile (\<lambda>c. c \<noteq> CHR 0x0A) s = []" "readline s = (s, [])"
    "CHR 0x0A \<notin> set s"
  | (line) rest where "readline s = (takeWhile (\<lambda>c. c \<noteq> CHR 0x0A) s @ [CHR 0x0A], rest)"
    "s = takeWhile (\<lambda>c. c \<noteq> CHR 0x0A) s @ CHR 0x0A # rest"
proof (cases "dropWhile (\<lambda>c. c \<noteq> CHR 0x0A) s")
  case Nil
  have "takeWhile (\<lambda>c. c \<noteq> CHR 0x0A) s @ [] = s"
    using takeWhile_dropWhile_id [of "\<lambda>c. c \<noteq> CHR 0x0A" s] unfolding Nil .
  then have r: "readline s = (s, [])" unfolding readline_def Let_def Nil by simp
  from Nil have "CHR 0x0A \<notin> set s" by (auto simp: dropWhile_eq_Nil_conv)
  with Nil r show ?thesis by (rule eof)
next
  case (Cons nl rest)
  then have c: "s = takeWhile (\<lambda>c. c \<noteq> CHR 0x0A) s @ nl # rest \<and> \<not> nl \<noteq> CHR 0x0A"
    unfolding dropWhile_eq_Cons_conv .
  then have nl: "nl = CHR 0x0A" by blast
  from c have s: "s = takeWhile (\<lambda>c. c \<noteq> CHR 0x0A) s @ CHR 0x0A # rest" unfolding nl by blast
  have "readline s = (takeWhile (\<lambda>c. c \<noteq> CHR 0x0A) s @ [CHR 0x0A], rest)"
    unfolding readline_def Let_def Cons nl by simp
  from this s show ?thesis by (rule line)
qed

lemma read_lines_Nil [simp]: "read_lines [] = []"
  by (simp add: read_lines.simps)

lemma readline_append: "fst (readline s) @ snd (readline s) = s"
  by (cases s rule: readline_cases) simp_all

lemma readline_line:
  assumes "s \<noteq> []"
  shows "fst (readline s) \<noteq> [] \<and> CHR 0x0A \<notin> set (butlast (fst (readline s)))
       \<and> (snd (readline s) \<noteq> [] \<longrightarrow> last (fst (readline s)) = CHR 0x0A)"
proof (cases s rule: readline_cases)
  case eof
  with assms show ?thesis by (auto dest: in_set_butlastD)
next
  case (line rest)
  then show ?thesis by (auto dest: set_takeWhileD)
qed

lemma read_lines_concat: "concat (read_lines s) = s"
proof (induction s rule: read_lines.induct)
  case (1 s)
  then show ?case
    by (cases "s = []") (simp_all add: read_lines.simps [of s] readline_append)
qed

lemma translate_newlines_no_cr: "CHR 0x0D \<notin> set (translate_newlines s)"
  by (induction s rule: translate_newlines.induct) auto

lemma read_lines_lines:
  "i < length (read_lines s) \<Longrightarrow> read_lines s ! i \<noteq> [] \<and> CHR 0x0A \<notin> set (butlast (read_lines s ! i))
     \<and> (Suc i < length (read_lines s) \<longrightarrow> last (read_lines s ! i) = CHR 0x0A)"
proof (induction s arbitrary: i rule: read_lines.induct)
  case (1 s)
  show ?case
  proof (cases "s = []")
    case True with "1.prems" show ?thesis by (simp add: read_lines.simps [of s])
  next
    case False
    note rl = read_lines.simps [of s]
    show ?thesis
    proof (cases i)
      case 0
      have "snd (readline s) \<noteq> []" if "Suc 0 < length (read_lines s)"
        using that False rl by (auto simp: read_lines.simps [of "snd (readline s)"] split: if_splits)
      with 0 False readline_line [OF False] show ?thesis by (auto simp: rl)
    next
      case (Suc j)
      with "1.prems" False have "j < length (read_lines (snd (readline s)))" by (simp add: rl)
      with "1.IH" [OF False] Suc False show ?thesis by (simp add: rl)
    qed
  qed
qed

lemma pipe_lines_lines:
  "ln \<in> set (pipe_lines out) \<Longrightarrow> CHR 0x0A \<notin> set (butlast ln) \<and> CHR 0x0D \<notin> set ln"
proof -
  assume "ln \<in> set (pipe_lines out)"
  then obtain i where i: "i < length (read_lines (translate_newlines out))" and ln: "ln = read_lines (translate_newlines out) ! i"
    by (auto simp: pipe_lines_def in_set_conv_nth)
  from read_lines_lines [OF i] ln have "CHR 0x0A \<notin> set (butlast ln)" by simp
  moreover have "set ln \<subseteq> set (concat (read_lines (translate_newlines out)))"
    using nth_mem [OF i] ln by auto
  then have "set ln \<subseteq> set (translate_newlines out)" by (simp only: read_lines_concat)
  ultimately show ?thesis using translate_newlines_no_cr by blast
qed

lemma rstrip_split: "s = rstrip s @ rev (takeWhile is_space (rev s))"
proof -
  have "rev (rev s) = rev (takeWhile is_space (rev s) @ dropWhile is_space (rev s))" by simp
  then show ?thesis unfolding rstrip_def by (simp only: rev_rev_ident rev_append)
qed

lemma rstrip_butlast:
  assumes "s \<noteq> []" "is_space (last s)"
  shows "prefix (rstrip s) (butlast s)"
proof -
  from assms obtain xs x where s: "s = xs @ [x]" and x: "is_space x" by (cases s rule: rev_exhaust) auto
  then have "takeWhile is_space (rev s) \<noteq> []" by simp
  then obtain t c where t: "rev (takeWhile is_space (rev s)) = t @ [c]"
    by (cases "rev (takeWhile is_space (rev s))" rule: rev_exhaust) auto
  from rstrip_split [of s] t have "s = (rstrip s @ t) @ [c]" by simp
  then have "butlast s = rstrip s @ t" by (metis butlast_snoc)
  then show ?thesis by simp
qed

lemma is_space_lf [simp]: "is_space (CHR 0x0A)"
  by (simp add: is_space_def)

text \<open>
  C15: Reading a child's output line by line loses nothing: the lines the relay
  loop gets concatenate to the decoded output, and decoding is the identity on
  output without carriage returns.
\<close>

theorem pipe_lines_roundtrip:
  "concat (pipe_lines out) = translate_newlines out \<and> (CHR 0x0D \<notin> set out \<longrightarrow> translate_newlines out = out)"
proof
  show "concat (pipe_lines out) = translate_newlines out" by (simp add: pipe_lines_def read_lines_concat)
  show "CHR 0x0D \<notin> set out \<longrightarrow> translate_newlines out = out"
    by (induction out rule: translate_newlines.induct) auto
qed

text \<open>
  C16: The text the runner prints for a line, \<open>line.rstrip()\<close>, contains no
  line end and no carriage return: each relayed line becomes exactly one console
  line, ended by the newline \<open>print\<close> adds.
\<close>

theorem relay_text_no_newline:
  assumes "ln \<in> set (pipe_lines out)"
  shows "CHR 0x0A \<notin> set (rstrip ln) \<and> CHR 0x0D \<notin> set (rstrip ln)"
proof -
  from pipe_lines_lines [OF assms] have nl: "CHR 0x0A \<notin> set (butlast ln)" and cr: "CHR 0x0D \<notin> set ln" by blast+
  have sub: "set (rstrip ln) \<subseteq> set ln" using rstrip_split [of ln] by (metis set_append Un_upper1)
  have "CHR 0x0A \<notin> set (rstrip ln)"
  proof (cases "ln \<noteq> [] \<and> last ln = CHR 0x0A")
    case True
    then have "prefix (rstrip ln) (butlast ln)" by (intro rstrip_butlast) simp_all
    with nl show ?thesis by (blast dest: set_mono_prefix)
  next
    case False
    have "CHR 0x0A \<notin> set ln"
    proof (cases ln rule: rev_exhaust)
      case (snoc xs x)
      with False nl show ?thesis by simp
    qed simp
    with sub show ?thesis by blast
  qed
  with cr sub show ?thesis by blast
qed

theorem pipe_lines_roundtrip_witness:
  "concat (pipe_lines (''ok'' @ [CHR 0x0D, CHR 0x0A] @ ''done'')) = ''ok'' @ [CHR 0x0A] @ ''done''
   \<and> CHR 0x0D \<notin> set ''a\<newline>b'' \<and> concat (pipe_lines ''a\<newline>b'') = ''a\<newline>b''"
proof -
  have t: "translate_newlines (''ok'' @ [CHR 0x0D, CHR 0x0A] @ ''done'') = ''ok'' @ [CHR 0x0A] @ ''done''"
    by (simp add: drop_lf_def)
  from pipe_lines_roundtrip [of "''ok'' @ [CHR 0x0D, CHR 0x0A] @ ''done''"] pipe_lines_roundtrip [of "''a\<newline>b''"] t
  show ?thesis by simp
qed

theorem relay_text_no_newline_witness:
  "''hello\<newline>'' \<in> set (pipe_lines (''hello'' @ [CHR 0x0D, CHR 0x0A] @ ''world''))
   \<and> rstrip ''hello\<newline>'' = ''hello'' \<and> CHR 0x0A \<notin> set (rstrip ''hello\<newline>'')"
proof -
  have m: "''hello\<newline>'' \<in> set (pipe_lines (''hello'' @ [CHR 0x0D, CHR 0x0A] @ ''world''))"
    by (simp add: pipe_lines_def drop_lf_def read_lines.simps readline_def)
  have r: "rstrip ''hello\<newline>'' = ''hello''" by (simp add: rstrip_def is_space_def)
  from relay_text_no_newline [OF m] m r show ?thesis by simp
qed

lemma render_markup_plain: "CHR ''['' \<notin> set t \<Longrightarrow> render_markup t = t"
  by (induction t rule: render_markup.induct) auto

lemma render_markup_append_plain: "CHR ''['' \<notin> set p \<Longrightarrow> render_markup (p @ t) = p @ render_markup t"
  by (induction p) auto

text \<open>A bracketed word that starts like a style (a lower-case letter, \<open>#\<close>, \<open>/\<close> or \<open>@\<close>) is consumed as markup.\<close>

lemma render_markup_style:
  assumes "tag_start c" "CHR ''['' \<notin> set w" "CHR '']'' \<notin> set w"
  shows "render_markup (CHR ''['' # c # w @ CHR '']'' # t) = render_markup t"
proof -
  have "dropWhile (\<lambda>x. x \<noteq> CHR '']'' \<and> x \<noteq> CHR ''['') (w @ CHR '']'' # t) = CHR '']'' # t"
    using assms(2,3) by (subst dropWhile_append2) auto
  with assms(1) have "markup_tag (c # w @ CHR '']'' # t) = Some t" by (simp add: markup_tag_def)
  then show ?thesis by simp
qed

lemma hex_digit_digit: "n < 10 \<Longrightarrow> hex_digit n \<noteq> CHR ''[''"
  by (simp add: hex_digit_def numeral_eq_Suc less_Suc_eq) (elim disjE; simp)

lemma show_nat_no_bracket: "CHR ''['' \<notin> set (show_nat n)"
proof (induction n rule: show_nat.induct)
  case (1 n)
  have "hex_digit (n mod 10) \<noteq> CHR ''[''" by (rule hex_digit_digit) simp
  with 1 hex_digit_digit [of n] show ?case by (auto simp: show_nat.simps [of n])
qed

end
