(* ===== verification/Config.thy ===== *)
theory Config
  imports Py_Str
begin

text \<open>
  The static configuration of \<open>src/loader.py\<close>: the list \<open>bot_info\<close> of
  dictionaries (lines 11--20), the console labels of class \<open>CLI\<close> (lines 23--27)
  and the environment given to the children (lines 7--8). A dictionary is an
  association list from its keys to Python values; the loader reads it with
  \<open>d[k]\<close>, \<open>d.get(k, default)\<close> and \<open>k in d\<close>, and passes it to \<open>runfile\<close> as
  keyword arguments.
\<close>

section \<open>Python values and dictionaries\<close>

text \<open>The values a configuration entry holds: strings and lists of strings.\<close>

datatype pyval = PStr string | PList "string list"

type_synonym pydict = "(string \<times> pyval) list"

text \<open>\<open>d[k]\<close>: \<open>KeyError\<close> when the key is absent.\<close>

definition dict_index :: "pydict \<Rightarrow> string \<Rightarrow> py_exc + pyval" where
  "dict_index d k = (case map_of d k of None \<Rightarrow> Inl (KeyError k) | Some v \<Rightarrow> Inr v)"

text \<open>\<open>d.get(k, default)\<close> and \<open>k in d\<close>.\<close>

definition dict_get :: "pydict \<Rightarrow> string \<Rightarrow> pyval \<Rightarrow> pyval" where
  "dict_get d k v = (case map_of d k of None \<Rightarrow> v | Some x \<Rightarrow> x)"

definition dict_has :: "pydict \<Rightarrow> string \<Rightarrow> bool" where
  "dict_has d k \<longleftrightarrow> map_of d k \<noteq> None"

text \<open>\<open>str(v)\<close>, as an f-string formats a value.\<close>

fun py_str :: "pyval \<Rightarrow> string" where
  "py_str (PStr s) = s"
| "py_str (PList xs) = repr_str_list xs"

text \<open>
  \<open>os.fspath(v)\<close>, which \<open>os.path.join\<close> applies to its first argument and
  \<open>subprocess\<close> to every element of an argument vector: a list raises
  \<open>TypeError\<close>.
\<close>

fun as_path :: "pyval \<Rightarrow> py_exc + string" where
  "as_path (PStr s) = Inr s"
| "as_path (PList xs) = Inl (TypeError ''expected str, bytes or os.PathLike object, not list'')"

lemma as_path_eq_Inr [simp]: "as_path v = Inr s \<longleftrightarrow> v = PStr s"
  by (cases v) auto

lemma as_path_eq_Inl [simp]: "as_path v = Inl e \<longleftrightarrow> (\<exists>xs. v = PList xs) \<and> e = TypeError ''expected str, bytes or os.PathLike object, not list''"
  by (cases v) auto

text \<open>
  The other two messages a list raises where a path is needed: \<open>os.stat\<close>,
  which \<open>os.path.exists\<close> calls and whose \<open>TypeError\<close> it does not catch, and
  \<open>os.path.join\<close> on a later argument, whose \<open>TypeError\<close> is re-raised by
  \<open>genericpath._check_arg_types\<close>.
\<close>

fun stat_path :: "pyval \<Rightarrow> py_exc + string" where
  "stat_path (PStr s) = Inr s"
| "stat_path (PList xs) = Inl (TypeError ''stat: path should be string, bytes, os.PathLike or integer, not list'')"

fun join_arg :: "pyval \<Rightarrow> py_exc + string" where
  "join_arg (PStr s) = Inr s"
| "join_arg (PList xs) = Inl (TypeError (''join() argument must be str, bytes, or os.PathLike object, not '' @ CHR 0x27 # ''list'' @ [CHR 0x27]))"

fun is_pstr :: "pyval \<Rightarrow> bool" where
  "is_pstr (PStr s) = True"
| "is_pstr (PList xs) = False"

lemma stat_path_eq_Inr [simp]: "stat_path v = Inr s \<longleftrightarrow> v = PStr s"
  and join_arg_eq_Inr [simp]: "join_arg v = Inr s \<longleftrightarrow> v = PStr s"
  by (cases v; auto)+

lemma stat_path_eq_Inl [simp]:
  "stat_path v = Inl e \<longleftrightarrow> (\<exists>xs. v = PList xs) \<and> e = TypeError ''stat: path should be string, bytes, os.PathLike or integer, not list''"
  by (cases v) auto

lemma join_arg_eq_Inl [simp]:
  "join_arg v = Inl e \<longleftrightarrow> (\<exists>xs. v = PList xs) \<and> e = TypeError (''join() argument must be str, bytes, or os.PathLike object, not '' @ CHR 0x27 # ''list'' @ [CHR 0x27])"
  by (cases v) auto

lemma list_all_is_pstr_map [simp]: "list_all is_pstr (map PStr xs)"
  by (induction xs) auto

text \<open>\<open>*args\<close> unpacks any iterable: a \<open>str\<close> into its characters.\<close>

fun star_args :: "pyval \<Rightarrow> string list" where
  "star_args (PStr s) = map (\<lambda>c. [c]) s"
| "star_args (PList xs) = xs"

section \<open>The configuration\<close>

definition bot_info :: "pydict list" where
  "bot_info =
     [[(''dir'', PStr ''Taiga''),
       (''start'', PStr ''main.py''),
       (''args'', PList [''-e'', ''.env.prod'']),
       (''tag'', PStr ''[Taiga]''),
       (''github'', PStr ''https://github.com/jadenlabs/Taiga''),
       (''github_branch'', PStr ''master'')]]"

text \<open>The labels of class \<open>CLI\<close>, in \<open>rich\<close> markup.\<close>

definition cli_loader :: string where "cli_loader = ''[black][Loader][/]''"
definition cli_info :: string where "cli_info = ''[green][INFO][/]''"
definition cli_debug :: string where "cli_debug = ''[green][DEBUG][/]''"
definition cli_warning :: string where "cli_warning = ''[yellow][WARNING][/]''"

lemmas cli_defs = cli_loader_def cli_info_def cli_debug_def cli_warning_def

text \<open>
  \<open>env = os.environ.copy(); env["FORCE_COLOR"] = "1"\<close>: computed once at
  import, from the supervisor's environment.
\<close>

type_synonym environ = "string \<Rightarrow> string option"

definition child_env :: "environ \<Rightarrow> environ" where
  "child_env environ = environ(''FORCE_COLOR'' \<mapsto> ''1'')"


text \<open>The labels render to their text: \<open>rich\<close> drops the colour tags.\<close>

lemma render_markup_labels:
  "render_markup (cli_loader @ cli_info @ t) = ''[Loader][INFO]'' @ render_markup t"
  "render_markup (cli_loader @ cli_warning @ t) = ''[Loader][WARNING]'' @ render_markup t"
  by (simp_all add: cli_defs markup_tag_def tag_start_def)

end
