(* ===== verification/World.thy ===== *)
theory World
  imports Config
begin

text \<open>
  The part of the outside world the loader reads and changes: the working
  directories and their git metadata, the remote repositories, the network,
  the supervisor's standard output, the log of the subprocesses it started and
  the uncaught exceptions reported on standard error. Paths are the strings the
  loader passes, relative to the supervisor's working directory, and are not
  normalised.
\<close>

section \<open>Working directories\<close>

text \<open>
  A git checkout: its remotes in the order they were added (name and URL),
  the checked-out branch, and the commit at \<open>HEAD\<close> (\<open>None\<close> for a freshly
  initialised repository with no commit). Commits are numbers.
\<close>

record repo =
  remotes :: "(string \<times> string) list"
  branch :: string
  head :: "nat option"

text \<open>
  A directory: its \<open>.git\<close> metadata when it has one, whether tracked files
  carry local modifications, and whether untracked files or directories are
  present.
\<close>

record wdir =
  git :: "repo option"
  modified :: bool
  untracked :: bool

datatype node = File | Dir wdir

section \<open>The world\<close>

text \<open>
  Who wrote a chunk of the console: the main thread, the runner thread started
  for the \<open>i\<close>-th configuration entry, or a git child of the main thread, whose
  standard output is inherited.
\<close>

datatype src = Main | Runner nat | GitChild

text \<open>
  \<open>server u b\<close> is the tip of branch \<open>b\<close> of the remote repository at URL
  \<open>u\<close>; \<open>online\<close> whether the network is reachable; \<open>public_ip\<close> what
  \<open>https://api.ipify.org\<close> answers; \<open>os_environ\<close> the supervisor's own
  environment (\<open>os.environ\<close>); \<open>programs cwd argv env\<close> the merged output and
  exit status of a child started with that working directory, argument vector
  and environment; \<open>pull_rebase u b d\<close> what \<open>git pull --rebase\<close> from the
  remote at \<open>u\<close> and branch \<open>b\<close> does to the directory \<open>d\<close> (exit status, output
  and the directory left), an external outcome: it depends on the commit
  histories, which the model does not represent, and may stop halfway with
  conflicts.
\<close>

record world =
  fs :: "string \<Rightarrow> node option"
  server :: "string \<Rightarrow> string \<Rightarrow> nat option"
  online :: bool
  public_ip :: string
  os_environ :: environ
  programs :: "string \<Rightarrow> string list \<Rightarrow> environ \<Rightarrow> string \<times> int"
  pull_rebase :: "string \<Rightarrow> string \<Rightarrow> wdir \<Rightarrow> int \<times> string \<times> wdir"
  stdout :: "(src \<times> string) list"
  stderr :: "(src \<times> py_exc) list"
  procs :: "(string option \<times> string list) list"

text \<open>
  A world with no files, no reachable remote, children that print nothing and
  exit with status 0, and empty logs; examples update the fields they need.
\<close>

definition empty_world :: world where
  "empty_world =
     \<lparr>fs = Map.empty, server = (\<lambda>_ _. None), online = False, public_ip = [], os_environ = Map.empty,
      programs = (\<lambda>_ _ _. ([], 0)), pull_rebase = (\<lambda>_ _ d. (1, [], d)), stdout = [], stderr = [], procs = []\<rparr>"

section \<open>Console output\<close>

text \<open>
  \<open>rich.print\<close> renders its markup, appends a newline and writes the line in
  one write to \<open>sys.stdout\<close>.
\<close>

definition rprint :: "src \<Rightarrow> string \<Rightarrow> world \<Rightarrow> world" where
  "rprint who text w = w\<lparr>stdout := stdout w @ [(who, render_markup text @ ''\<newline>'')]\<rparr>"

text \<open>
  \<open>rich.print(a, b, ...)\<close> renders each argument and joins them with a space.
\<close>

definition rprint_args :: "src \<Rightarrow> string list \<Rightarrow> world \<Rightarrow> world" where
  "rprint_args who texts w = w\<lparr>stdout := stdout w @ [(who, py_join '' '' (map render_markup texts) @ ''\<newline>'')]\<rparr>"

text \<open>
  The built-in \<open>print\<close> writes its argument and then the line end, in two
  separate writes; other threads may write in between.
\<close>

definition write_out :: "src \<Rightarrow> string \<Rightarrow> world \<Rightarrow> world" where
  "write_out who text w = w\<lparr>stdout := stdout w @ [(who, text)]\<rparr>"

definition py_rprint :: "src \<Rightarrow> string \<Rightarrow> (world, unit) pyio" where
  "py_rprint who text = py_modify (rprint who text)"

section \<open>The environment of a world\<close>

text \<open>
  The remote repositories, the network, the public address, the supervisor's
  environment variables, the children's behaviour and the outcome of a pull
  belong to the environment: no step of the loader changes them.
  \<open>keeps_env m\<close> says that an action leaves them as they were.
\<close>

definition env_of ::
  "world \<Rightarrow> (string \<Rightarrow> string \<Rightarrow> nat option) \<times> bool \<times> string \<times> environ \<times> (string \<Rightarrow> string list \<Rightarrow> environ \<Rightarrow> string \<times> int)
     \<times> (string \<Rightarrow> string \<Rightarrow> wdir \<Rightarrow> int \<times> string \<times> wdir)" where
  "env_of w = (server w, online w, public_ip w, os_environ w, programs w, pull_rebase w)"

definition keeps_env :: "(world, 'a) pyio \<Rightarrow> bool" where
  "keeps_env m \<longleftrightarrow> (\<forall>w. env_of (snd (m w)) = env_of w)"

lemma rprint_fs [simp]: "fs (rprint who t w) = fs w"
  and rprint_procs [simp]: "procs (rprint who t w) = procs w"
  and rprint_stdout [simp]: "stdout (rprint who t w) = stdout w @ [(who, render_markup t @ ''\<newline>'')]"
  and rprint_server [simp]: "server (rprint who t w) = server w"
  and rprint_online [simp]: "online (rprint who t w) = online w"
  and rprint_programs [simp]: "programs (rprint who t w) = programs w"
  and rprint_os_environ [simp]: "os_environ (rprint who t w) = os_environ w"
  and rprint_pull_rebase [simp]: "pull_rebase (rprint who t w) = pull_rebase w"
  by (simp_all add: rprint_def)

lemma write_out_fs [simp]: "fs (write_out who t w) = fs w"
  and write_out_stdout [simp]: "stdout (write_out who t w) = stdout w @ [(who, t)]"
  and write_out_procs [simp]: "procs (write_out who t w) = procs w"
  by (simp_all add: write_out_def)

lemma keeps_envD: "keeps_env m \<Longrightarrow> m w = (r, w') \<Longrightarrow> env_of w' = env_of w"
  by (metis keeps_env_def snd_conv)

lemma keeps_env_return [simp]: "keeps_env (py_return a)"
  and keeps_env_rprint [simp]: "keeps_env (py_rprint who t)"
  by (simp_all add: keeps_env_def py_return_def py_rprint_def py_modify_def rprint_def env_of_def)

lemma keeps_env_bind [simp]:
  assumes "keeps_env m" "\<And>a. keeps_env (f a)"
  shows "keeps_env (py_bind m f)"
  unfolding keeps_env_def
proof
  fix w
  obtain r w' where m: "m w = (r, w')" by fastforce
  with assms(1) have "env_of w' = env_of w" by (rule keeps_envD)
  with m assms(2) show "env_of (snd (py_bind m f w)) = env_of w"
    by (cases r) (simp_all add: py_bind_def keeps_env_def)
qed

lemma keeps_env_then [simp]: "keeps_env m \<Longrightarrow> keeps_env n \<Longrightarrow> keeps_env (py_then m n)"
  by (simp add: py_then_def)

lemma keeps_env_try [simp]:
  assumes "keeps_env m" "\<And>e. keeps_env (h e)"
  shows "keeps_env (py_try m sel h)"
  unfolding keeps_env_def
proof
  fix w
  obtain r w' where m: "m w = (r, w')" by fastforce
  with assms(1) have "env_of w' = env_of w" by (rule keeps_envD)
  with m assms(2) show "env_of (snd (py_try m sel h w)) = env_of w"
    by (cases r) (simp_all add: py_try_def keeps_env_def)
qed

lemma keeps_env_if [simp]: "keeps_env m \<Longrightarrow> keeps_env n \<Longrightarrow> keeps_env (if c then m else n)"
  by simp


section \<open>Writes of the main thread\<close>

text \<open>
  \<open>main_writes w w'\<close>: \<open>w'\<close> has the environment and the standard error of
  \<open>w\<close>, and its console extends that of \<open>w\<close> by chunks none of which a runner
  wrote. \<open>main_effect w w'\<close> allows in addition reports of the main thread on
  standard error.
\<close>

fun is_runner :: "src \<Rightarrow> bool" where
  "is_runner (Runner i) = True"
| "is_runner _ = False"

definition main_writes :: "world \<Rightarrow> world \<Rightarrow> bool" where
  "main_writes w w' \<longleftrightarrow> env_of w' = env_of w \<and> (\<exists>xs. stdout w' = stdout w @ xs \<and> (\<forall>x\<in>set xs. \<not> is_runner (fst x)))
     \<and> stderr w' = stderr w"

definition main_effect :: "world \<Rightarrow> world \<Rightarrow> bool" where
  "main_effect w w' \<longleftrightarrow> env_of w' = env_of w \<and> (\<exists>xs. stdout w' = stdout w @ xs \<and> (\<forall>x\<in>set xs. \<not> is_runner (fst x)))
     \<and> (\<exists>ys. stderr w' = stderr w @ ys \<and> (\<forall>y\<in>set ys. fst y = Main))"

lemma reflp_main_writes [simp]: "reflp main_writes"
  by (rule reflpI) (auto simp: main_writes_def)

lemma transp_main_writes [simp]: "transp main_writes"
  by (rule transpI) (fastforce simp: main_writes_def)

lemma main_writes_rprint [simp]: "main_writes w (rprint Main t w)"
  by (auto simp: main_writes_def rprint_def env_of_def)

lemma rprint_stderr [simp]: "stderr (rprint who t w) = stderr w"
  and write_out_stderr [simp]: "stderr (write_out who t w) = stderr w"
  by (simp_all add: rprint_def write_out_def)

lemma frames_rprint_Main [simp]: "frames main_writes (py_rprint Main t)"
  by (simp add: py_rprint_def)

lemma raises_only_rprint [raises_intros]: "raises_only P (py_rprint who t)"
  by (simp add: py_rprint_def raises_only_modify)

lemma proj_not_runner: "\<forall>x\<in>set xs. \<not> is_runner (fst x) \<Longrightarrow> proj (Runner j) xs = []"
  by (induction xs) (auto simp: proj_def)

lemma main_writes_effect: "main_writes w w' \<Longrightarrow> main_effect w w'"
  unfolding main_writes_def main_effect_def by auto

lemma main_effect_refl [simp]: "main_effect w w"
  by (auto simp: main_effect_def)

lemma main_effect_env: "main_effect w w' \<Longrightarrow> env_of w' = env_of w"
  by (simp add: main_effect_def)

lemma main_effect_proj:
  assumes "main_effect w w'"
  shows "proj (Runner j) (stdout w') = proj (Runner j) (stdout w)"
    and "proj (Runner j) (stderr w') = proj (Runner j) (stderr w)"
proof -
  from assms obtain xs ys where o: "stdout w' = stdout w @ xs" and x: "\<forall>x\<in>set xs. \<not> is_runner (fst x)"
    and e: "stderr w' = stderr w @ ys" and y: "\<forall>y\<in>set ys. fst y = Main"
    unfolding main_effect_def by blast
  from x have "proj (Runner j) xs = []" by (rule proj_not_runner)
  with o show "proj (Runner j) (stdout w') = proj (Runner j) (stdout w)" by simp
  from y have "\<forall>y\<in>set ys. \<not> is_runner (fst y)" by simp
  then have "proj (Runner j) ys = []" by (rule proj_not_runner)
  with e show "proj (Runner j) (stderr w') = proj (Runner j) (stderr w)" by simp
qed


lemma fold_rprint_stdout:
  "stdout (fold (\<lambda>kw. rprint who (f kw)) kws w) = stdout w @ map (\<lambda>kw. (who, render_markup (f kw) @ ''\<newline>'')) kws"
  by (induction kws arbitrary: w) simp_all


section \<open>The processes started\<close>

text \<open>\<open>procs_within P w w'\<close>: from \<open>w\<close> to \<open>w'\<close> only processes satisfying \<open>P\<close> were started.\<close>

definition procs_within :: "(string option \<times> string list \<Rightarrow> bool) \<Rightarrow> world \<Rightarrow> world \<Rightarrow> bool" where
  "procs_within P w w' \<longleftrightarrow> (\<exists>xs. procs w' = procs w @ xs \<and> (\<forall>p\<in>set xs. P p))"

lemma reflp_procs_within [simp]: "reflp (procs_within P)"
  by (rule reflpI) (auto simp: procs_within_def)

lemma transp_procs_within [simp]: "transp (procs_within P)"
  by (rule transpI) (fastforce simp: procs_within_def)

lemma procs_within_same [simp]: "procs w' = procs w \<Longrightarrow> procs_within P w w'"
  by (auto simp: procs_within_def)

lemma procs_within_mono: "procs_within P w w' \<Longrightarrow> (\<And>p. P p \<Longrightarrow> Q p) \<Longrightarrow> procs_within Q w w'"
  by (auto simp: procs_within_def)

lemma procs_within_set:
  "procs_within P w w' \<Longrightarrow> p \<in> set (procs w') \<Longrightarrow> p \<in> set (procs w) \<or> P p"
  by (auto simp: procs_within_def)

lemma frames_rprint_procs [simp]: "frames (procs_within P) (py_rprint who t)"
  by (simp add: py_rprint_def)

lemma fold_rprint_procs: "procs (fold (\<lambda>kw. rprint who (f kw)) kws w) = procs w"
  by (induction kws arbitrary: w) simp_all

end
