(* ===== verification/Git.thy ===== *)
theory Git
  imports World
begin

text \<open>
  The git commands the synchronizer runs and \<open>subprocess.run\<close>, which runs
  them. Git is an external program: its behaviour is modelled from the spec
  (section 6, "VCS commands invoked") and git's documented behaviour, at the
  level of detail the loader observes: exit status, captured output, and the
  effect on the directory, its remotes, branch and \<open>HEAD\<close>. The outcome of
  \<open>git pull --rebase\<close> depends on the histories of both repositories, which
  the model does not hold: it is the world's oracle \<open>pull_rebase\<close>, asked
  only when the remote exists and the network is up. Messages git writes
  to an inherited standard output are represented by a one-line summary per
  command, not git's exact text.
\<close>

section \<open>Commands\<close>

datatype git_cmd =
    Clone string string string   \<comment> \<open>\<open>git clone --branch b url dir\<close>\<close>
  | Init                         \<comment> \<open>\<open>git init\<close>\<close>
  | Remote_add string string     \<comment> \<open>\<open>git remote add name url\<close>\<close>
  | Remote_list                  \<comment> \<open>\<open>git remote\<close>\<close>
  | Reset_hard                   \<comment> \<open>\<open>git reset --hard\<close>\<close>
  | Clean_fd                     \<comment> \<open>\<open>git clean -fd\<close>\<close>
  | Checkout_B string            \<comment> \<open>\<open>git checkout -B b\<close>\<close>
  | Pull_rebase string string    \<comment> \<open>\<open>git pull --rebase remote b\<close>\<close>

text \<open>The argument vector of a command, and the command an argument vector names.\<close>

fun git_argv :: "git_cmd \<Rightarrow> string list" where
  "git_argv (Clone b u d) = [''git'', ''clone'', ''--branch'', b, u, d]"
| "git_argv Init = [''git'', ''init'']"
| "git_argv (Remote_add n u) = [''git'', ''remote'', ''add'', n, u]"
| "git_argv Remote_list = [''git'', ''remote'']"
| "git_argv Reset_hard = [''git'', ''reset'', ''--hard'']"
| "git_argv Clean_fd = [''git'', ''clean'', ''-fd'']"
| "git_argv (Checkout_B b) = [''git'', ''checkout'', ''-B'', b]"
| "git_argv (Pull_rebase r b) = [''git'', ''pull'', ''--rebase'', r, b]"

fun parse_git :: "string list \<Rightarrow> git_cmd option" where
  "parse_git [g, c] =
     (if g = ''git'' \<and> c = ''init'' then Some Init
      else if g = ''git'' \<and> c = ''remote'' then Some Remote_list else None)"
| "parse_git [g, c, f] =
     (if g = ''git'' \<and> c = ''reset'' \<and> f = ''--hard'' then Some Reset_hard
      else if g = ''git'' \<and> c = ''clean'' \<and> f = ''-fd'' then Some Clean_fd else None)"
| "parse_git [g, c, f, b] =
     (if g = ''git'' \<and> c = ''checkout'' \<and> f = ''-B'' then Some (Checkout_B b) else None)"
| "parse_git [g, c, f, x, y] =
     (if g = ''git'' \<and> c = ''remote'' \<and> f = ''add'' then Some (Remote_add x y)
      else if g = ''git'' \<and> c = ''pull'' \<and> f = ''--rebase'' then Some (Pull_rebase x y) else None)"
| "parse_git [g, c, f, b, u, d] =
     (if g = ''git'' \<and> c = ''clone'' \<and> f = ''--branch'' then Some (Clone b u d) else None)"
| "parse_git _ = None"

section \<open>Effect of a command\<close>

text \<open>The names of the configured remotes, one per line, as \<open>git remote\<close> prints them.\<close>

definition remote_names :: "repo \<Rightarrow> string" where
  "remote_names r = concat (map (\<lambda>(n, _). n @ ''\<newline>'') (remotes r))"

lemma remote_names_lines: "remote_names r = concat (map (\<lambda>n. n @ ''\<newline>'') (map fst (remotes r)))"
  by (simp add: remote_names_def case_prod_unfold comp_def)

text \<open>
  When no remote other than \<open>origin\<close> has \<open>origin\<close> in its name, the text
  \<open>origin\<close> occurs in the output of \<open>git remote\<close> exactly when the remote
  \<open>origin\<close> exists.
\<close>

definition origin_names_ok :: "repo \<Rightarrow> bool" where
  "origin_names_ok r \<longleftrightarrow> (\<forall>n\<in>fst ` set (remotes r). py_contains ''origin'' n \<longrightarrow> n = ''origin'')"

lemma remote_names_origin:
  assumes "origin_names_ok r"
  shows "py_contains ''origin'' (remote_names r) \<longleftrightarrow> ''origin'' \<in> fst ` set (remotes r)"
proof -
  have "py_contains ''origin'' (remote_names r) \<longleftrightarrow> (\<exists>n\<in>set (map fst (remotes r)). sublist ''origin'' n)"
    unfolding remote_names_lines py_contains_sublist by (subst sublist_lines) simp_all
  also have "\<dots> \<longleftrightarrow> ''origin'' \<in> fst ` set (remotes r)"
    using assms by (force simp: py_contains_sublist origin_names_ok_def)
  finally show ?thesis .
qed

definition fresh_repo :: repo where
  "fresh_repo = \<lparr>remotes = [], branch = ''master'', head = None\<rparr>"

text \<open>
  A command run inside a directory: exit status, standard output and the new
  directory. Every command but \<open>git init\<close> needs a repository (status 128
  otherwise); \<open>git remote add\<close> refuses an existing name (status 3);
  \<open>git pull --rebase\<close> needs the named remote and the network (status 1
  otherwise); what it then does, a fast-forward, a replay of local commits or a
  rebase stopped with conflicts, is the world's \<open>pull_rebase\<close>. The world is
  read for the network, the remote repositories and that outcome only.
\<close>

fun git_in :: "world \<Rightarrow> git_cmd \<Rightarrow> wdir \<Rightarrow> int \<times> string \<times> wdir" where
  "git_in w Init d =
     (case git d of
        None \<Rightarrow> (0, ''Initialized empty Git repository\<newline>'',
                 d\<lparr>git := Some fresh_repo, modified := False, untracked := untracked d \<or> modified d\<rparr>)
      | Some r \<Rightarrow> (0, ''Reinitialized existing Git repository\<newline>'', d))"
| "git_in w c d =
     (case git d of
        None \<Rightarrow> (128, [], d)
      | Some r \<Rightarrow>
          (case c of
             Remote_add n u \<Rightarrow>
               if n \<in> fst ` set (remotes r) then (3, [], d)
               else (0, [], d\<lparr>git := Some (r\<lparr>remotes := remotes r @ [(n, u)]\<rparr>)\<rparr>)
           | Remote_list \<Rightarrow> (0, remote_names r, d)
           | Reset_hard \<Rightarrow>
               (0, case head r of None \<Rightarrow> [] | Some h \<Rightarrow> ''HEAD is now at '' @ show_nat h @ ''\<newline>'',
                d\<lparr>modified := False\<rparr>)
           | Clean_fd \<Rightarrow> (0, if untracked d then ''Removing untracked files\<newline>'' else [], d\<lparr>untracked := False\<rparr>)
           | Checkout_B b \<Rightarrow> (0, [], d\<lparr>git := Some (r\<lparr>branch := b\<rparr>)\<rparr>)
           | Pull_rebase rm b \<Rightarrow>
               (case map_of (remotes r) rm of
                  None \<Rightarrow> (1, [], d)
                | Some u \<Rightarrow> if online w then pull_rebase w u b d else (1, [], d))
           | _ \<Rightarrow> (128, [], d)))"

text \<open>
  \<open>git clone\<close>: the destination must be absent or an empty directory, the
  network up and the branch present on the remote; the new checkout has the
  single remote \<open>origin\<close>, the branch checked out at the remote tip, and no
  local changes.
\<close>

definition empty_wdir :: wdir where
  "empty_wdir = \<lparr>git = None, modified = False, untracked = False\<rparr>"

definition git_clone :: "string \<Rightarrow> string \<Rightarrow> string \<Rightarrow> world \<Rightarrow> int \<times> string \<times> world" where
  "git_clone b u d w =
     (if fs w d \<noteq> None \<and> fs w d \<noteq> Some (Dir empty_wdir) then (128, [], w)
      else case (if online w then server w u b else None) of
        None \<Rightarrow> (128, [], w)
      | Some tip \<Rightarrow>
          (0, [], w\<lparr>fs := (fs w)(d \<mapsto> Dir \<lparr>git = Some \<lparr>remotes = [(''origin'', u)], branch = b, head = Some tip\<rparr>,
                                            modified = False, untracked = False\<rparr>)\<rparr>))"

definition cwd_path :: "string option \<Rightarrow> string" where
  "cwd_path cwd = (case cwd of None \<Rightarrow> ''.'' | Some d \<Rightarrow> d)"

definition git_exec :: "string option \<Rightarrow> git_cmd \<Rightarrow> world \<Rightarrow> int \<times> string \<times> world" where
  "git_exec cwd c w =
     (case c of
        Clone b u d \<Rightarrow> git_clone b u (case cwd of None \<Rightarrow> d | Some p \<Rightarrow> os_path_join p d) w
      | _ \<Rightarrow>
          (case fs w (cwd_path cwd) of
             Some (Dir d) \<Rightarrow>
               (let (rc, out, d') = git_in w c d in (rc, out, w\<lparr>fs := (fs w)(cwd_path cwd \<mapsto> Dir d')\<rparr>))
           | _ \<Rightarrow> (128, [], w)))"

section \<open>\<open>subprocess.run\<close>\<close>

text \<open>
  \<open>subprocess.run(argv, cwd=cwd, capture_output=capture, check=check)\<close> for
  the git argument vectors: a working directory that does not exist or is not a
  directory raises before the child starts; an argument vector git does not
  accept exits with status 129. The started child is logged. Without
  \<open>capture_output\<close> the child's standard output is the supervisor's; with it,
  the output is returned. \<open>check=True\<close> turns a nonzero status into
  \<open>CalledProcessError\<close>.
\<close>

definition cwd_error :: "string option \<Rightarrow> world \<Rightarrow> py_exc option" where
  "cwd_error cwd w =
     (case cwd of
        None \<Rightarrow> None
      | Some d \<Rightarrow> (case fs w d of None \<Rightarrow> Some (FileNotFoundError d)
                   | Some File \<Rightarrow> Some (NotADirectoryError d) | Some (Dir _) \<Rightarrow> None))"

definition git_child :: "string list \<Rightarrow> string option \<Rightarrow> world \<Rightarrow> int \<times> string \<times> world" where
  "git_child argv cwd w = (case parse_git argv of None \<Rightarrow> (129, [], w) | Some c \<Rightarrow> git_exec cwd c w)"

definition subprocess_run ::
  "string list \<Rightarrow> string option \<Rightarrow> bool \<Rightarrow> bool \<Rightarrow> (world, int \<times> string) pyio" where
  "subprocess_run argv cwd capture check w =
     (case cwd_error cwd w of
        Some e \<Rightarrow> (Inl e, w)
      | None \<Rightarrow>
          (case git_child argv cwd w of
             (rc, out, w') \<Rightarrow>
               (let w'' = w'\<lparr>procs := procs w @ [(cwd, argv)],
                            stdout := stdout w' @ (if capture \<or> out = [] then [] else [(GitChild, out)])\<rparr>
                in if check \<and> rc \<noteq> 0 then (Inl (CalledProcessError argv rc), w'')
                   else (Inr (rc, if capture then out else []), w''))))"

section \<open>Properties of \<open>subprocess.run\<close>\<close>

lemma env_of_git_child: "env_of (snd (snd (git_child argv cwd w))) = env_of w"
  by (auto simp: git_child_def git_exec_def git_clone_def env_of_def
      split: git_cmd.splits option.splits node.splits prod.splits)

lemma keeps_env_subprocess_run [simp]: "keeps_env (subprocess_run argv cwd cap chk)"
  unfolding keeps_env_def
proof
  fix w
  obtain rc out w' where g: "git_child argv cwd w = (rc, out, w')" by (cases "git_child argv cwd w") auto
  with env_of_git_child [of argv cwd w] have "env_of w' = env_of w" by simp
  with g show "env_of (snd (subprocess_run argv cwd cap chk w)) = env_of w"
    by (auto simp: subprocess_run_def env_of_def Let_def split: option.splits)
qed

text \<open>A git command other than \<open>clone\<close> run in an existing directory.\<close>

lemma subprocess_run_in_dir:
  assumes "fs w d = Some (Dir x)" "parse_git argv = Some c" "\<forall>b u e. c \<noteq> Clone b u e"
    "git_in w c x = (rc, out, x')"
  shows "subprocess_run argv (Some d) cap chk w =
    (if chk \<and> rc \<noteq> 0 then Inl (CalledProcessError argv rc) else Inr (rc, if cap then out else []),
     w\<lparr>fs := (fs w)(d \<mapsto> Dir x'), procs := procs w @ [(Some d, argv)],
       stdout := stdout w @ (if cap \<or> out = [] then [] else [(GitChild, out)])\<rparr>)"
  using assms
  by (cases c) (simp_all add: subprocess_run_def cwd_error_def git_child_def git_exec_def cwd_path_def Let_def)

lemma remote_names_upd [simp]:
  "remote_names (r\<lparr>branch := b\<rparr>) = remote_names r" "remote_names (r\<lparr>head := h\<rparr>) = remote_names r"
  by (simp_all add: remote_names_def)

lemma origin_in_remote_names:
  "''origin'' \<in> fst ` set (remotes r) \<Longrightarrow> py_contains ''origin'' (remote_names r)"
  unfolding remote_names_lines py_contains_sublist by (subst sublist_lines) force+

lemma not_contains_no_origin:
  "\<not> py_contains ''origin'' (remote_names r) \<Longrightarrow> ''origin'' \<notin> fst ` set (remotes r)"
  using origin_in_remote_names by blast


lemma git_child_stdout: "stdout (snd (snd (git_child argv cwd w))) = stdout w"
  and git_child_stderr: "stderr (snd (snd (git_child argv cwd w))) = stderr w"
  by (auto simp: git_child_def git_exec_def git_clone_def
      split: git_cmd.splits option.splits node.splits prod.splits)

lemma frames_subprocess_run [simp]: "frames main_writes (subprocess_run argv cwd cap chk)"
  unfolding frames_def
proof
  fix w
  obtain rc out w' where g: "git_child argv cwd w = (rc, out, w')" by (cases "git_child argv cwd w") auto
  with env_of_git_child [of argv cwd w] git_child_stdout [of argv cwd w] git_child_stderr [of argv cwd w]
  have "env_of w' = env_of w" "stdout w' = stdout w" "stderr w' = stderr w" by simp_all
  with g show "main_writes w (snd (subprocess_run argv cwd cap chk w))"
    by (auto simp: subprocess_run_def main_writes_def env_of_def Let_def split: option.splits)
qed


lemma subprocess_run_procs:
  "cwd_error cwd w = None \<Longrightarrow> procs (snd (subprocess_run argv cwd cap chk w)) = procs w @ [(cwd, argv)]"
  by (simp add: subprocess_run_def Let_def split: prod.splits)

lemma frames_subprocess_run_procs:
  "P (cwd, argv) \<Longrightarrow> frames (procs_within P) (subprocess_run argv cwd cap chk)"
  unfolding frames_def
proof
  fix w
  assume "P (cwd, argv)"
  then show "procs_within P w (snd (subprocess_run argv cwd cap chk w))"
  proof (cases "cwd_error cwd w")
    case None
    with \<open>P (cwd, argv)\<close> show ?thesis by (auto simp: subprocess_run_procs procs_within_def)
  next
    case (Some e)
    then show ?thesis by (simp add: subprocess_run_def)
  qed
qed

lemma raises_only_subprocess_run [raises_intros]:
  assumes "\<And>rc. chk \<Longrightarrow> rc \<noteq> 0 \<Longrightarrow> P (CalledProcessError argv rc)"
    "\<And>d. cwd = Some d \<Longrightarrow> P (FileNotFoundError d)" "\<And>d. cwd = Some d \<Longrightarrow> P (NotADirectoryError d)"
  shows "raises_only P (subprocess_run argv cwd cap chk)"
  using assms
  by (auto simp: raises_only_def subprocess_run_def cwd_error_def Let_def
      split: option.splits prod.splits node.splits if_splits)

text \<open>
  \<open>subprocess.run\<close> with an argument vector built from configuration values:
  \<open>Popen\<close> converts every argument with \<open>os.fsencode\<close> before it starts the
  child, so a list among them raises \<open>TypeError\<close> and no process is started.
\<close>

definition fsencode_msg :: string where
  "fsencode_msg = ''expected str, bytes or os.PathLike object, not list''"

definition run_args :: "pyval list \<Rightarrow> string option \<Rightarrow> bool \<Rightarrow> bool \<Rightarrow> (world, int \<times> string) pyio" where
  "run_args args cwd cap chk =
     (if list_all is_pstr args then subprocess_run (map py_str args) cwd cap chk
      else py_raise (TypeError fsencode_msg))"

lemma run_args_str [simp]:
  "list_all is_pstr args \<Longrightarrow> run_args args cwd cap chk = subprocess_run (map py_str args) cwd cap chk"
  by (simp add: run_args_def)

lemma keeps_env_run_args [simp]: "keeps_env (run_args args cwd cap chk)"
  and frames_run_args [simp]: "frames main_writes (run_args args cwd cap chk)"
  using keeps_env_subprocess_run [of "map py_str args" cwd cap chk] frames_subprocess_run [of "map py_str args" cwd cap chk]
  by (simp_all add: run_args_def keeps_env_def frames_def py_raise_def reflpD)

lemma frames_run_args_procs:
  "(list_all is_pstr args \<Longrightarrow> P (cwd, map py_str args)) \<Longrightarrow> frames (procs_within P) (run_args args cwd cap chk)"
  using frames_subprocess_run_procs [of P cwd "map py_str args" cap chk]
  by (cases "list_all is_pstr args") (simp_all add: run_args_def frames_def py_raise_def)

lemma raises_only_run_args [raises_intros]:
  assumes "\<And>rc. list_all is_pstr args \<Longrightarrow> chk \<Longrightarrow> rc \<noteq> 0 \<Longrightarrow> P (CalledProcessError (map py_str args) rc)"
    "\<And>d. list_all is_pstr args \<Longrightarrow> cwd = Some d \<Longrightarrow> P (FileNotFoundError d)"
    "\<And>d. list_all is_pstr args \<Longrightarrow> cwd = Some d \<Longrightarrow> P (NotADirectoryError d)"
    "\<not> list_all is_pstr args \<Longrightarrow> P (TypeError fsencode_msg)"
  shows "raises_only P (run_args args cwd cap chk)"
  using assms by (auto simp: run_args_def intro: raises_only_subprocess_run raises_only_raise)

lemma cwd_error_rprint [simp]: "cwd_error c (rprint who t w) = cwd_error c w"
  by (simp add: cwd_error_def split: option.splits)

end
