(* ===== verification/Sync.thy ===== *)
theory Sync
  imports Git
begin

text \<open>
  The repository synchronizer, \<open>github(dir, github, github_branch)\<close> of
  \<open>src/loader.py\<close> (lines 30--66), run by the main thread before it starts the
  runner of an entry. Its four blocks are four definitions: the clone of a
  missing directory (lines 31--38), attaching a repository and its \<open>origin\<close>
  remote (lines 40--54), discarding local state and checking out the branch
  (lines 56--59), and the best-effort pull (lines 60--66). The URL and the
  branch are the configuration's values: a list among them is formatted into
  the messages and raises \<open>TypeError\<close> at the first git command that takes it.
  The theorems: the clone and its failure, the effect of each block on an
  existing directory, the substring test for \<open>origin\<close>, the exceptions that
  escape (proved block by block with \<open>raises_only\<close>), the exact sequence of
  git commands on an existing directory, and that \<open>git remote add\<close> never
  fails.
\<close>

section \<open>Messages\<close>

definition sq :: "string \<Rightarrow> string" where
  "sq s = CHR 0x27 # s @ [CHR 0x27]"

text \<open>\<open>str(e)\<close> of a \<open>CalledProcessError\<close> with a nonnegative status.\<close>

definition called_process_error_str :: "string list \<Rightarrow> int \<Rightarrow> string" where
  "called_process_error_str argv rc =
     ''Command '' @ sq (repr_str_list argv) @ '' returned non-zero exit status '' @ show_int rc @ ''.''"

fun exc_str :: "py_exc \<Rightarrow> string" where
  "exc_str (CalledProcessError argv rc) = called_process_error_str argv rc"
| "exc_str (FileNotFoundError p) = ''[Errno 2] No such file or directory: '' @ sq p"
| "exc_str (NotADirectoryError p) = ''[Errno 20] Not a directory: '' @ sq p"
| "exc_str (KeyError k) = sq k"
| "exc_str (TypeError m) = m"
| "exc_str ConnectionError = ''Connection error''"

section \<open>The synchronizer\<close>

text \<open>\<open>os.path.exists(dir)\<close> and \<open>os.path.isdir(os.path.join(dir, ".git"))\<close>.\<close>

definition path_exists :: "world \<Rightarrow> string \<Rightarrow> bool" where
  "path_exists w p \<longleftrightarrow> fs w p \<noteq> None"

definition git_dir_isdir :: "world \<Rightarrow> string \<Rightarrow> bool" where
  "git_dir_isdir w d = (case fs w d of Some (Dir x) \<Rightarrow> git x \<noteq> None | _ \<Rightarrow> False)"

text \<open>Lines 31--38: a missing directory is cloned, and nothing else is done.\<close>

definition github_clone :: "string \<Rightarrow> pyval \<Rightarrow> pyval \<Rightarrow> (world, unit) pyio" where
  "github_clone dir url b =
     py_then (py_rprint Main (cli_loader @ cli_warning @ '' Directory '' @ sq dir @ '' not found, cloning from '' @ py_str url))
       (py_then (run_args [PStr ''git'', PStr ''clone'', PStr ''--branch'', b, url, PStr dir] None False True)
         (py_return ()))"

text \<open>
  Lines 40--54: a directory without \<open>.git\<close> is initialised and gets the remote
  \<open>origin\<close>; in a repository, \<open>origin\<close> is added when the text \<open>origin\<close> does not
  occur in the output of \<open>git remote\<close>, whose exit status is not checked.
\<close>

definition github_attach :: "string \<Rightarrow> pyval \<Rightarrow> world \<Rightarrow> (py_exc + unit) \<times> world" where
  "github_attach dir url w =
     (if \<not> git_dir_isdir w dir then
        py_then (py_rprint Main (cli_loader @ cli_warning @ '' No Git repo found in '' @ dir @ '', initializing one''))
          (py_then (subprocess_run [''git'', ''init''] (Some dir) False True)
            (py_then (run_args [PStr ''git'', PStr ''remote'', PStr ''add'', PStr ''origin'', url] (Some dir) False True)
              (py_return ()))) w
      else
        py_bind (subprocess_run [''git'', ''remote''] (Some dir) True False)
          (\<lambda>result.
             if \<not> py_contains ''origin'' (snd result) then
               py_then (run_args [PStr ''git'', PStr ''remote'', PStr ''add'', PStr ''origin'', url] (Some dir) False True)
                 (py_return ())
             else py_return ()) w)"

text \<open>Lines 56--59: hard reset, removal of untracked files, branch checkout.\<close>

definition github_reset :: "string \<Rightarrow> pyval \<Rightarrow> (world, unit) pyio" where
  "github_reset dir b =
     py_then (subprocess_run [''git'', ''reset'', ''--hard''] (Some dir) False True)
       (py_then (subprocess_run [''git'', ''clean'', ''-fd''] (Some dir) False True)
         (py_then (run_args [PStr ''git'', PStr ''checkout'', PStr ''-B'', b] (Some dir) False True)
           (py_return ())))"

text \<open>Lines 60--66: the pull; only \<open>CalledProcessError\<close> is caught and reported.\<close>

definition github_pull :: "string \<Rightarrow> pyval \<Rightarrow> pyval \<Rightarrow> (world, unit) pyio" where
  "github_pull dir url b =
     py_try
       (py_then (run_args [PStr ''git'', PStr ''pull'', PStr ''--rebase'', PStr ''origin'', b] (Some dir) False True)
         (py_rprint Main (cli_loader @ cli_info @ '' Pulled latest from '' @ py_str url)))
       is_called_process_error
       (\<lambda>e. py_rprint Main (cli_loader @ cli_warning @ '' Failed to pull: '' @ exc_str e))"

definition github :: "string \<Rightarrow> pyval \<Rightarrow> pyval \<Rightarrow> (world, unit) pyio" where
  "github dir url b w =
     (if \<not> path_exists w dir then github_clone dir url b w
      else py_then (github_attach dir url) (py_then (github_reset dir b) (github_pull dir url b)) w)"

section \<open>Effect on the directory\<close>

text \<open>
  What each block does to an existing directory, as functions of the
  directory: they structure the proofs below.
\<close>

definition attach_repo :: "string \<Rightarrow> wdir \<Rightarrow> repo" where
  "attach_repo url x =
     (case git x of
        None \<Rightarrow> fresh_repo\<lparr>remotes := [(''origin'', url)]\<rparr>
      | Some r \<Rightarrow> if py_contains ''origin'' (remote_names r) then r
                  else r\<lparr>remotes := remotes r @ [(''origin'', url)]\<rparr>)"

definition attach_effect :: "string \<Rightarrow> wdir \<Rightarrow> wdir" where
  "attach_effect url x =
     (case git x of
        None \<Rightarrow> x\<lparr>git := Some (attach_repo url x), modified := False, untracked := untracked x \<or> modified x\<rparr>
      | Some r \<Rightarrow> x\<lparr>git := Some (attach_repo url x)\<rparr>)"

text \<open>The git commands the attach block runs in an existing directory, in order.\<close>

definition attach_cmds :: "string \<Rightarrow> wdir \<Rightarrow> string list list" where
  "attach_cmds url x =
     (case git x of
        None \<Rightarrow> [[''git'', ''init''], [''git'', ''remote'', ''add'', ''origin'', url]]
      | Some r \<Rightarrow> [''git'', ''remote''] #
                  (if py_contains ''origin'' (remote_names r) then [] else [[''git'', ''remote'', ''add'', ''origin'', url]]))"

definition reset_effect :: "string \<Rightarrow> repo \<Rightarrow> wdir" where
  "reset_effect b r = \<lparr>git = Some (r\<lparr>branch := b\<rparr>), modified = False, untracked = False\<rparr>"

definition cloned_wdir :: "string \<Rightarrow> string \<Rightarrow> nat \<Rightarrow> wdir" where
  "cloned_wdir url b tip =
     \<lparr>git = Some \<lparr>remotes = [(''origin'', url)], branch = b, head = Some tip\<rparr>, modified = False, untracked = False\<rparr>"

text \<open>Concrete inputs for the witnesses below.\<close>

abbreviation ex_url :: string where "ex_url \<equiv> ''https://github.com/jadenlabs/Taiga''"

abbreviation ex_online :: world where
  "ex_online \<equiv> empty_world\<lparr>online := True, server := (\<lambda>u b. if u = ex_url \<and> b = ''master'' then Some 7 else None)\<rparr>"

abbreviation ex_dirty :: wdir where
  "ex_dirty \<equiv> \<lparr>git = None, modified = False, untracked = True\<rparr>"

abbreviation ex_origin2 :: wdir where
  "ex_origin2 \<equiv> \<lparr>git = Some \<lparr>remotes = [(''origin2'', ''https://example.org/fork'')], branch = ''dev'', head = Some 3\<rparr>,
                 modified = True, untracked = False\<rparr>"

lemmas github_eval = github_def path_exists_def git_dir_isdir_def github_attach_def github_reset_def github_pull_def
  github_clone_def subprocess_run_def cwd_error_def git_child_def git_exec_def git_clone_def cwd_path_def
  py_rprint_def rprint_def py_then_def py_bind_def py_try_def py_return_def py_modify_def

section \<open>Each block on an existing directory\<close>

lemma git_attach_effect: "git (attach_effect url x) = Some (attach_repo url x)"
  by (simp add: attach_effect_def split: option.splits)

lemma keeps_env_github_attach [simp]: "keeps_env (github_attach dir url)"
proof -
  have "keeps_env (py_then (py_rprint Main (cli_loader @ cli_warning @ '' No Git repo found in '' @ dir @ '', initializing one''))
          (py_then (subprocess_run [''git'', ''init''] (Some dir) False True)
            (py_then (run_args [PStr ''git'', PStr ''remote'', PStr ''add'', PStr ''origin'', url] (Some dir) False True)
              (py_return ()))))"
       "keeps_env (py_bind (subprocess_run [''git'', ''remote''] (Some dir) True False)
          (\<lambda>result.
             if \<not> py_contains ''origin'' (snd result) then
               py_then (run_args [PStr ''git'', PStr ''remote'', PStr ''add'', PStr ''origin'', url] (Some dir) False True)
                 (py_return ())
             else py_return ()))"
    by simp_all
  then show ?thesis unfolding keeps_env_def github_attach_def by simp
qed

lemma keeps_env_github_reset [simp]: "keeps_env (github_reset dir b)"
  and keeps_env_github_pull [simp]: "keeps_env (github_pull dir url b)"
  and keeps_env_github_clone [simp]: "keeps_env (github_clone dir url b)"
  by (simp_all add: github_reset_def github_pull_def github_clone_def)

lemma keeps_env_github [simp]: "keeps_env (github dir url b)"
  using keeps_env_github_clone [of dir url b]
    keeps_env_then [OF keeps_env_github_attach keeps_env_then [OF keeps_env_github_reset keeps_env_github_pull]]
  unfolding keeps_env_def github_def by simp

lemma frames_github_attach [simp]: "frames main_writes (github_attach dir url)"
proof -
  have "frames main_writes (py_then (py_rprint Main (cli_loader @ cli_warning @ '' No Git repo found in '' @ dir @ '', initializing one''))
          (py_then (subprocess_run [''git'', ''init''] (Some dir) False True)
            (py_then (run_args [PStr ''git'', PStr ''remote'', PStr ''add'', PStr ''origin'', url] (Some dir) False True)
              (py_return ()))))"
       "frames main_writes (py_bind (subprocess_run [''git'', ''remote''] (Some dir) True False)
          (\<lambda>result.
             if \<not> py_contains ''origin'' (snd result) then
               py_then (run_args [PStr ''git'', PStr ''remote'', PStr ''add'', PStr ''origin'', url] (Some dir) False True)
                 (py_return ())
             else py_return ()))"
    by simp_all
  then show ?thesis unfolding frames_def github_attach_def by simp
qed

lemma frames_github [simp]: "frames main_writes (github dir url b)"
proof -
  have "frames main_writes (github_clone dir url b)"
    "frames main_writes (py_then (github_attach dir url) (py_then (github_reset dir b) (github_pull dir url b)))"
    by (simp_all add: github_clone_def github_reset_def github_pull_def)
  then show ?thesis unfolding frames_def github_def by simp
qed

lemma frames_github_procs:
  "frames (procs_within (\<lambda>(c, a). take 1 a = [''git''] \<and> (c = None \<or> c = Some dir))) (github dir url b)"
  unfolding github_def [abs_def] github_attach_def [abs_def] github_clone_def github_reset_def github_pull_def
  by (intro frames_if_state frames_if frames_then frames_bind frames_try frames_return frames_rprint_procs
      frames_subprocess_run_procs frames_run_args_procs) (simp_all split: if_splits)

lemma raises_only_github:
  "raises_only (\<lambda>e. (\<exists>argv rc. e = CalledProcessError argv rc \<and> rc \<noteq> 0 \<and>
        argv \<in> {[''git'', ''clone'', ''--branch'', py_str b, py_str url, dir], [''git'', ''init''],
                 [''git'', ''remote'', ''add'', ''origin'', py_str url],
                 [''git'', ''reset'', ''--hard''], [''git'', ''clean'', ''-fd''], [''git'', ''checkout'', ''-B'', py_str b]})
      \<or> e = FileNotFoundError dir \<or> e = NotADirectoryError dir
      \<or> e = TypeError fsencode_msg \<and> \<not> (is_pstr url \<and> is_pstr b)) (github dir url b)"
  unfolding github_def [abs_def] github_attach_def [abs_def] github_clone_def github_reset_def github_pull_def
  by (intro raises_intros) auto

lemma github_attach_dir:
  assumes "fs w dir = Some (Dir x)"
  shows "fst (github_attach dir (PStr url) w) = Inr () \<and> fs (snd (github_attach dir (PStr url) w)) = (fs w)(dir \<mapsto> Dir (attach_effect url x))"
proof (cases "git x")
  case None
  with assms show ?thesis
    by (cases x) (simp add: github_attach_def git_dir_isdir_def attach_effect_def attach_repo_def
        subprocess_run_in_dir py_rprint_def py_then_def py_bind_def py_modify_def py_return_def fresh_repo_def)
next
  case (Some r)
  show ?thesis
  proof (cases "py_contains ''origin'' (remote_names r)")
    case True
    with assms Some show ?thesis
      by (cases x) (simp add: github_attach_def git_dir_isdir_def attach_effect_def attach_repo_def subprocess_run_in_dir
          py_bind_def py_return_def)
  next
    case False
    then have "''origin'' \<notin> fst ` set (remotes r)" by (rule not_contains_no_origin)
    with assms Some False show ?thesis
      by (cases x) (simp add: github_attach_def git_dir_isdir_def attach_effect_def attach_repo_def subprocess_run_in_dir
          py_then_def py_bind_def py_return_def)
  qed
qed

lemma github_reset_dir:
  assumes "fs w dir = Some (Dir x)" "git x = Some r"
  shows "fst (github_reset dir (PStr b) w) = Inr () \<and> fs (snd (github_reset dir (PStr b) w)) = (fs w)(dir \<mapsto> Dir (reset_effect b r))"
  using assms
  by (cases x) (simp add: github_reset_def reset_effect_def subprocess_run_in_dir py_then_def py_bind_def py_return_def)

lemma github_pull_dir:
  assumes "fs w dir = Some (Dir x)"
  shows "fst (github_pull dir url (PStr b) w) = Inr ()"
  using assms
  by (auto simp: github_pull_def subprocess_run_def cwd_error_def py_try_def py_then_def py_bind_def
      py_rprint_def py_modify_def Let_def split: prod.splits)

text \<open>
  A pull from a repository without the remote \<open>origin\<close> fails: the warning with
  \<open>str(e)\<close> is printed and the directory is left as it was.
\<close>

lemma github_pull_no_origin:
  assumes "fs w dir = Some (Dir x)" "git x = Some r" "map_of (remotes r) ''origin'' = None"
  shows "github_pull dir url (PStr b) w =
           (Inr (), w\<lparr>procs := procs w @ [(Some dir, [''git'', ''pull'', ''--rebase'', ''origin'', b])],
                     stdout := stdout w @ [(Main, render_markup (cli_loader @ cli_warning @ '' Failed to pull: ''
                                 @ exc_str (CalledProcessError [''git'', ''pull'', ''--rebase'', ''origin'', b] 1)) @ ''\<newline>'')]\<rparr>)"
proof -
  have g: "git_in w (Pull_rebase ''origin'' b) x = (1, [], x)" using assms(2,3) by (cases x) simp
  have u: "(fs w)(dir \<mapsto> Dir x) = fs w" using assms(1) by auto
  show ?thesis
    using subprocess_run_in_dir [OF assms(1) _ _ g, of "[''git'', ''pull'', ''--rebase'', ''origin'', b]" False True] assms(1)
    by (simp add: github_pull_def py_try_def py_then_def py_bind_def py_rprint_def py_modify_def rprint_def u)
qed

text \<open>The three blocks in sequence: an existing directory never makes the synchronizer raise.\<close>

lemma github_dir:
  assumes "fs w dir = Some (Dir x)"
  shows "fst (github dir (PStr url) (PStr b) w) = Inr ()"
proof -
  obtain w1 where a: "github_attach dir (PStr url) w = (Inr (), w1)" and fs1: "fs w1 = (fs w)(dir \<mapsto> Dir (attach_effect url x))"
    using github_attach_dir [OF assms, of url] by (cases "github_attach dir (PStr url) w") auto
  from fs1 have d1: "fs w1 dir = Some (Dir (attach_effect url x))" by simp
  obtain w2 where r: "github_reset dir (PStr b) w1 = (Inr (), w2)"
    and fs2: "fs w2 = (fs w)(dir \<mapsto> Dir (reset_effect b (attach_repo url x)))"
    using github_reset_dir [OF d1 git_attach_effect, of b] fs1 by (cases "github_reset dir (PStr b) w1") auto
  from fs2 have d2: "fs w2 dir = Some (Dir (reset_effect b (attach_repo url x)))" by simp
  obtain w3 where p: "github_pull dir (PStr url) (PStr b) w2 = (Inr (), w3)"
    using github_pull_dir [OF d2, of "PStr url" b] by (cases "github_pull dir (PStr url) (PStr b) w2") auto
  from a r p assms show ?thesis by (simp add: github_def path_exists_def py_then_def py_bind_def)
qed



lemma github_attach_procs:
  assumes "fs w dir = Some (Dir x)"
  shows "procs (snd (github_attach dir (PStr url) w)) = procs w @ map (Pair (Some dir)) (attach_cmds url x)"
proof (cases "git x")
  case None
  with assms show ?thesis
    by (cases x) (simp add: github_attach_def git_dir_isdir_def attach_cmds_def
        subprocess_run_in_dir py_rprint_def py_then_def py_bind_def py_modify_def py_return_def fresh_repo_def)
next
  case (Some r)
  show ?thesis
  proof (cases "py_contains ''origin'' (remote_names r)")
    case True
    with assms Some show ?thesis
      by (cases x) (simp add: github_attach_def git_dir_isdir_def attach_cmds_def subprocess_run_in_dir
          py_bind_def py_return_def)
  next
    case False
    then have "''origin'' \<notin> fst ` set (remotes r)" by (rule not_contains_no_origin)
    with assms Some False show ?thesis
      by (cases x) (simp add: github_attach_def git_dir_isdir_def attach_cmds_def subprocess_run_in_dir
          py_then_def py_bind_def py_return_def)
  qed
qed

lemma github_reset_procs:
  assumes "fs w dir = Some (Dir x)" "git x = Some r"
  shows "procs (snd (github_reset dir (PStr b) w)) =
           procs w @ map (Pair (Some dir)) [[''git'', ''reset'', ''--hard''], [''git'', ''clean'', ''-fd''], [''git'', ''checkout'', ''-B'', b]]"
  using assms
  by (cases x) (simp add: github_reset_def reset_effect_def subprocess_run_in_dir py_then_def py_bind_def py_return_def)

lemma github_pull_procs:
  assumes "fs w dir = Some (Dir x)"
  shows "procs (snd (github_pull dir url (PStr b) w)) = procs w @ [(Some dir, [''git'', ''pull'', ''--rebase'', ''origin'', b])]"
proof -
  obtain r w' where sr: "subprocess_run [''git'', ''pull'', ''--rebase'', ''origin'', b] (Some dir) False True w = (r, w')"
    by fastforce
  have "cwd_error (Some dir) w = None" using assms by (simp add: cwd_error_def)
  from subprocess_run_procs [OF this] sr have "procs w' = procs w @ [(Some dir, [''git'', ''pull'', ''--rebase'', ''origin'', b])]"
    by (metis snd_conv)
  with sr show ?thesis
    by (cases r) (simp_all add: github_pull_def py_try_def py_then_def py_bind_def py_rprint_def py_modify_def rprint_def)
qed

section \<open>Properties of the synchronizer\<close>

text \<open>
  C1: A missing directory is cloned from the configured URL at the configured
  branch, with one warning line and one \<open>git clone\<close>, and nothing else is run.
\<close>

theorem github_clone_fresh:
  assumes "fs w dir = None" "online w" "server w url b = Some tip"
  shows "github dir (PStr url) (PStr b) w =
           (Inr (), w\<lparr>fs := (fs w)(dir \<mapsto> Dir (cloned_wdir url b tip)),
                     stdout := stdout w @ [(Main, render_markup (cli_loader @ cli_warning @ '' Directory '' @ sq dir
                                                    @ '' not found, cloning from '' @ url) @ ''\<newline>'')],
                     procs := procs w @ [(None, [''git'', ''clone'', ''--branch'', b, url, dir])]\<rparr>)"
  using assms
  by (simp add: github_def path_exists_def github_clone_def subprocess_run_def cwd_error_def git_child_def
      git_exec_def git_clone_def py_then_def py_bind_def py_return_def py_rprint_def py_modify_def rprint_def
      cloned_wdir_def)

theorem github_clone_fresh_witness:
  "fs ex_online ''Taiga'' = None \<and> online ex_online \<and> server ex_online ex_url ''master'' = Some 7
   \<and> github ''Taiga'' (PStr ex_url) (PStr ''master'') ex_online =
        (Inr (), ex_online\<lparr>fs := [''Taiga'' \<mapsto> Dir (cloned_wdir ex_url ''master'' 7)],
           stdout := [(Main, ''[Loader][WARNING] Directory 'Taiga' not found, cloning from https://github.com/jadenlabs/Taiga\<newline>'')],
           procs := [(None, [''git'', ''clone'', ''--branch'', ''master'', ex_url, ''Taiga''])]\<rparr>)"
proof -
  have h: "fs ex_online ''Taiga'' = None" "online ex_online" "server ex_online ex_url ''master'' = Some 7"
    by (simp_all add: empty_world_def)
  from github_clone_fresh [OF h] h show ?thesis
    by (simp add: cli_defs sq_def markup_tag_def tag_start_def empty_world_def)
qed

text \<open>
  C2: When the clone of a missing directory fails, \<open>CalledProcessError\<close> escapes
  the synchronizer (it is fatal) and the file system is unchanged.
\<close>

theorem github_clone_fails:
  assumes "fs w dir = None" "(if online w then server w url b else None) = None"
  shows "fst (github dir (PStr url) (PStr b) w) = Inl (CalledProcessError [''git'', ''clone'', ''--branch'', b, url, dir] 128)
       \<and> fs (snd (github dir (PStr url) (PStr b) w)) = fs w
       \<and> procs (snd (github dir (PStr url) (PStr b) w)) = procs w @ [(None, [''git'', ''clone'', ''--branch'', b, url, dir])]"
  using assms
  by (auto simp: github_def path_exists_def github_clone_def subprocess_run_def cwd_error_def git_child_def
      git_exec_def git_clone_def py_then_def py_bind_def py_return_def py_rprint_def py_modify_def rprint_def)

theorem github_clone_fails_witness:
  "fs empty_world ''Taiga'' = None \<and> (if online empty_world then server empty_world ex_url ''master'' else None) = None
   \<and> fst (github ''Taiga'' (PStr ex_url) (PStr ''master'') empty_world)
         = Inl (CalledProcessError [''git'', ''clone'', ''--branch'', ''master'', ex_url, ''Taiga''] 128)"
proof -
  have h: "fs empty_world ''Taiga'' = None" "(if online empty_world then server empty_world ex_url ''master'' else None) = None"
    by (simp_all add: empty_world_def)
  from github_clone_fails [OF h] h show ?thesis by simp
qed

text \<open>
  C4: When the configured path is a regular file, the synchronizer raises
  \<open>NotADirectoryError\<close> before running any git command.
\<close>

theorem github_not_a_directory:
  assumes "fs w dir = Some File"
  shows "fst (github dir url b w) = Inl (NotADirectoryError dir)
       \<and> fs (snd (github dir url b w)) = fs w \<and> procs (snd (github dir url b w)) = procs w"
  using assms
  by (simp add: github_def path_exists_def github_attach_def git_dir_isdir_def subprocess_run_def cwd_error_def
      py_then_def py_bind_def py_rprint_def py_modify_def)

theorem github_not_a_directory_witness:
  "fs (empty_world\<lparr>fs := [''Taiga'' \<mapsto> File]\<rparr>) ''Taiga'' = Some File
   \<and> fst (github ''Taiga'' (PStr ex_url) (PStr ''master'') (empty_world\<lparr>fs := [''Taiga'' \<mapsto> File]\<rparr>)) = Inl (NotADirectoryError ''Taiga'')"
proof -
  have h: "fs (empty_world\<lparr>fs := [''Taiga'' \<mapsto> File]\<rparr>) ''Taiga'' = Some File" by simp
  from github_not_a_directory [OF h] h show ?thesis by simp
qed

text \<open>
  C3: The test for the remote \<open>origin\<close> is a substring test on the output of
  \<open>git remote\<close> (line 51). For every existing repository that has no remote
  named \<open>origin\<close> but a remote whose name contains the text \<open>origin\<close> (such as
  \<open>origin2\<close> or \<open>upstream-origin\<close>), the synchronizer returns normally without
  adding \<open>origin\<close>: the remotes are left as they were, and the pull from the
  missing \<open>origin\<close> fails and is reported as a warning.
\<close>

theorem github_origin_substring:
  assumes "fs w dir = Some (Dir x)" "git x = Some r" "''origin'' \<notin> fst ` set (remotes r)"
    "py_contains ''origin'' (remote_names r)"
  shows "fst (github dir (PStr url) (PStr b) w) = Inr ()
       \<and> (\<exists>x'. fs (snd (github dir (PStr url) (PStr b) w)) dir = Some (Dir x') \<and> map_option remotes (git x') = Some (remotes r))
       \<and> (Main, render_markup (cli_loader @ cli_warning @ '' Failed to pull: ''
             @ exc_str (CalledProcessError [''git'', ''pull'', ''--rebase'', ''origin'', b] 1)) @ ''\<newline>'')
           \<in> set (stdout (snd (github dir (PStr url) (PStr b) w)))"
proof -
  have ar: "attach_repo url x = r" using assms(2,4) by (simp add: attach_repo_def)
  obtain w1 where a: "github_attach dir (PStr url) w = (Inr (), w1)" and fs1: "fs w1 = (fs w)(dir \<mapsto> Dir (attach_effect url x))"
    using github_attach_dir [OF assms(1), of url] by (cases "github_attach dir (PStr url) w") auto
  from fs1 have d1: "fs w1 dir = Some (Dir (attach_effect url x))" by simp
  obtain w2 where rs: "github_reset dir (PStr b) w1 = (Inr (), w2)"
    and fs2: "fs w2 = (fs w)(dir \<mapsto> Dir (reset_effect b r))"
    using github_reset_dir [OF d1 git_attach_effect, of b] fs1 ar by (cases "github_reset dir (PStr b) w1") auto
  from fs2 have d2: "fs w2 dir = Some (Dir (reset_effect b r))" by simp
  have n: "map_of (remotes (r\<lparr>branch := b\<rparr>)) ''origin'' = None" using assms(3) by (simp add: map_of_eq_None_iff)
  note p = github_pull_no_origin [OF d2 _ n, of "PStr url"]
  from a rs p assms(1) fs2 show ?thesis
    by (simp add: github_def path_exists_def py_then_def py_bind_def reset_effect_def)
qed

theorem github_origin_substring_witness:
  "fs (ex_online\<lparr>fs := [''Taiga'' \<mapsto> Dir ex_origin2]\<rparr>) ''Taiga'' = Some (Dir ex_origin2)
   \<and> ''origin'' \<notin> fst ` set (remotes \<lparr>remotes = [(''origin2'', ''https://example.org/fork'')], branch = ''dev'', head = Some 3\<rparr>)
   \<and> py_contains ''origin'' (remote_names \<lparr>remotes = [(''origin2'', ''https://example.org/fork'')], branch = ''dev'', head = Some 3\<rparr>)
   \<and> fst (github ''Taiga'' (PStr ex_url) (PStr ''master'') (ex_online\<lparr>fs := [''Taiga'' \<mapsto> Dir ex_origin2]\<rparr>)) = Inr ()"
proof -
  have h: "fs (ex_online\<lparr>fs := [''Taiga'' \<mapsto> Dir ex_origin2]\<rparr>) ''Taiga'' = Some (Dir ex_origin2)"
    "git ex_origin2 = Some \<lparr>remotes = [(''origin2'', ''https://example.org/fork'')], branch = ''dev'', head = Some 3\<rparr>"
    "''origin'' \<notin> fst ` set (remotes \<lparr>remotes = [(''origin2'', ''https://example.org/fork'')], branch = ''dev'', head = Some 3\<rparr>)"
    "py_contains ''origin'' (remote_names \<lparr>remotes = [(''origin2'', ''https://example.org/fork'')], branch = ''dev'', head = Some 3\<rparr>)"
    by (simp_all add: remote_names_def)
  from github_origin_substring [OF h, of ex_url "''master''"] h show ?thesis by simp
qed


text \<open>
  C26: The exceptions of the synchronizer. An exception that leaves \<open>github\<close>
  is a \<open>CalledProcessError\<close> with a nonzero status of one of the six checked
  git commands (clone, init, remote add, reset, clean, checkout) or an
  \<open>OSError\<close> about the directory; a failed pull never escapes.
\<close>

theorem github_exceptions:
  "fst (github dir (PStr url) (PStr b) w) = Inl e \<Longrightarrow>
     (\<exists>argv rc. e = CalledProcessError argv rc \<and> rc \<noteq> 0 \<and>
        argv \<in> {[''git'', ''clone'', ''--branch'', b, url, dir], [''git'', ''init''], [''git'', ''remote'', ''add'', ''origin'', url],
                 [''git'', ''reset'', ''--hard''], [''git'', ''clean'', ''-fd''], [''git'', ''checkout'', ''-B'', b]})
   \<or> e = FileNotFoundError dir \<or> e = NotADirectoryError dir"
  using raises_only_github [where url = "PStr url" and b = "PStr b" and dir = dir]
  unfolding raises_only_def by (cases "github dir (PStr url) (PStr b) w") fastforce

theorem github_exceptions_witness:
  "fst (github ''bot'' (PStr ex_url) (PStr ''master'') (empty_world\<lparr>fs := [''bot'' \<mapsto> File]\<rparr>)) = Inl (NotADirectoryError ''bot'')
   \<and> NotADirectoryError ''bot'' \<noteq> FileNotFoundError ''bot''"
proof -
  have r: "fst (github ''bot'' (PStr ex_url) (PStr ''master'') (empty_world\<lparr>fs := [''bot'' \<mapsto> File]\<rparr>)) = Inl (NotADirectoryError ''bot'')"
    by (simp add: github_eval empty_world_def pyio_simps py_rprint_def)
  from github_exceptions [OF r] r show ?thesis by simp
qed


text \<open>
  C29: The order of the synchronization of an existing directory (spec 4.1,
  steps 2--6). \<open>github\<close> runs, all in the directory and in this order:
  \<open>git init\<close> and \<open>git remote add origin\<close> where there is no repository,
  otherwise \<open>git remote\<close> followed by \<open>git remote add origin\<close> only when
  \<open>origin\<close> does not occur in its output; then \<open>git reset --hard\<close>,
  \<open>git clean -fd\<close>, \<open>git checkout -B\<close> and \<open>git pull --rebase\<close>, and no
  other process.
\<close>

theorem github_dir_commands:
  assumes "fs w dir = Some (Dir x)"
  shows "procs (snd (github dir (PStr url) (PStr b) w)) =
           procs w @ map (Pair (Some dir)) (attach_cmds url x @
             [[''git'', ''reset'', ''--hard''], [''git'', ''clean'', ''-fd''], [''git'', ''checkout'', ''-B'', b],
              [''git'', ''pull'', ''--rebase'', ''origin'', b]])"
proof -
  obtain w1 where a: "github_attach dir (PStr url) w = (Inr (), w1)" and fs1: "fs w1 = (fs w)(dir \<mapsto> Dir (attach_effect url x))"
    using github_attach_dir [OF assms, of url] by (cases "github_attach dir (PStr url) w") auto
  from fs1 have d1: "fs w1 dir = Some (Dir (attach_effect url x))" by simp
  obtain w2 where r: "github_reset dir (PStr b) w1 = (Inr (), w2)"
    and fs2: "fs w2 = (fs w)(dir \<mapsto> Dir (reset_effect b (attach_repo url x)))"
    using github_reset_dir [OF d1 git_attach_effect, of b] fs1 by (cases "github_reset dir (PStr b) w1") auto
  from fs2 have d2: "fs w2 dir = Some (Dir \<lparr>git = Some ((attach_repo url x)\<lparr>branch := b\<rparr>), modified = False, untracked = False\<rparr>)"
    by (simp add: reset_effect_def)
  have p1: "procs w1 = procs w @ map (Pair (Some dir)) (attach_cmds url x)"
    using github_attach_procs [OF assms, of url] a by simp
  have p2: "procs w2 = procs w1 @ map (Pair (Some dir))
      [[''git'', ''reset'', ''--hard''], [''git'', ''clean'', ''-fd''], [''git'', ''checkout'', ''-B'', b]]"
    using github_reset_procs [OF d1 git_attach_effect, of b] r by simp
  have p3: "procs (snd (github_pull dir (PStr url) (PStr b) w2)) = procs w2 @ [(Some dir, [''git'', ''pull'', ''--rebase'', ''origin'', b])]"
    by (rule github_pull_procs [OF d2])
  from a r p1 p2 p3 assms show ?thesis
    by (cases "github_pull dir (PStr url) (PStr b) w2") (simp add: github_def path_exists_def py_then_def py_bind_def)
qed

theorem github_dir_commands_witness:
  "map snd (procs (snd (github ''Taiga'' (PStr ex_url) (PStr ''master'') (ex_online\<lparr>fs := [''Taiga'' \<mapsto> Dir ex_dirty]\<rparr>))))
     = [[''git'', ''init''], [''git'', ''remote'', ''add'', ''origin'', ex_url], [''git'', ''reset'', ''--hard''],
        [''git'', ''clean'', ''-fd''], [''git'', ''checkout'', ''-B'', ''master''], [''git'', ''pull'', ''--rebase'', ''origin'', ''master'']]"
proof -
  have d: "fs (ex_online\<lparr>fs := [''Taiga'' \<mapsto> Dir ex_dirty]\<rparr>) ''Taiga'' = Some (Dir ex_dirty)" by simp
  from github_dir_commands [OF d, of ex_url "''master''"] show ?thesis
    by (simp add: attach_cmds_def empty_world_def)
qed


end
