(* ===== verification/Runner.thy ===== *)
theory Runner
  imports Sync
begin

text \<open>
  The process runner, \<open>runfile(dir, start, tag, args=[], **kwargs)\<close> of
  \<open>src/loader.py\<close> (lines 69--92), which the main thread starts as
  \<open>threading.Thread(target=runfile, kwargs=kwargs)\<close> with a configuration
  dictionary. The binding of the dictionary to the parameters, the computation
  of the path, tag, argument vector and working directory (lines 69--83) are
  pure functions; the thread itself is a step function over a thread state,
  one step per write it makes to the console, so that the supervisor theory can
  interleave it with the other threads.
\<close>

section \<open>Binding \<open>runfile(**kwargs)\<close>\<close>

text \<open>
  Keys named like a parameter bind it; the others are collected in
  \<open>**kwargs\<close>. \<open>dir\<close>, \<open>start\<close> and \<open>tag\<close> are required, \<open>args\<close> defaults to
  the empty list.
\<close>

definition runfile_params :: "string list" where
  "runfile_params = [''dir'', ''start'', ''tag'', ''args'']"

definition missing_args_msg :: "string list \<Rightarrow> string" where
  "missing_args_msg ms =
     ''runfile() missing '' @ show_nat (length ms) @
     (if length ms = 1 then '' required positional argument: '' @ sq (hd ms)
      else if length ms = 2 then '' required positional arguments: '' @ sq (ms ! 0) @ '' and '' @ sq (ms ! 1)
      else '' required positional arguments: '' @ py_join '', '' (map sq (butlast ms)) @ '', and '' @ sq (last ms))"

definition bind_runfile :: "pydict \<Rightarrow> py_exc + (pyval \<times> pyval \<times> pyval \<times> pyval \<times> pydict)" where
  "bind_runfile kw =
     (let ms = filter (\<lambda>p. \<not> dict_has kw p) [''dir'', ''start'', ''tag'']
      in if ms \<noteq> [] then Inl (TypeError (missing_args_msg ms))
         else Inr (dict_get kw ''dir'' (PStr []), dict_get kw ''start'' (PStr []), dict_get kw ''tag'' (PStr []),
                   dict_get kw ''args'' (PList []),
                   filter (\<lambda>(k, _). k \<notin> set runfile_params) kw))"

section \<open>Lines 70--83: path, tag and the child's command line\<close>

text \<open>The interpreter running the loader (\<open>sys.executable\<close>).\<close>

definition sys_executable :: string where
  "sys_executable = ''python3''"

record launch =
  l_cwd :: string
  l_argv :: "string list"
  l_tag :: string
  l_path :: string

text \<open>
  \<open>full_path = os.path.join(dir, start)\<close> (a list raises \<open>TypeError\<close>);
  \<open>tag = kwargs.get("tag", f"[{dir}]")\<close>, looked up in the keys left over by
  the binding; the argument vector \<open>[sys.executable, "-O", "-u", start, *args]\<close>
  and the working directory \<open>dir or "."\<close>.
\<close>

definition runfile_setup :: "pydict \<Rightarrow> py_exc + launch" where
  "runfile_setup kw =
     (case bind_runfile kw of
        Inl e \<Rightarrow> Inl e
      | Inr (d, st, tg, a, extra) \<Rightarrow>
          (case as_path d of
             Inl e \<Rightarrow> Inl e
           | Inr dir \<Rightarrow>
               (case join_arg st of
                  Inl e \<Rightarrow> Inl e
                | Inr start \<Rightarrow>
                    Inr \<lparr>l_cwd = (if dir = [] then ''.'' else dir),
                         l_argv = [sys_executable, ''-O'', ''-u'', start] @ star_args a,
                         l_tag = py_str (dict_get extra ''tag'' (PStr (''['' @ py_str d @ '']''))),
                         l_path = os_path_join dir start\<rparr>)))"

section \<open>The runner thread\<close>

text \<open>
  A runner is about to run \<open>runfile(**kwargs)\<close>; relays the remaining lines
  of its child (the next write is the text of the first one); has written the
  text of a line and still owes its line end; or is done (returned, or ended by
  an exception that \<open>threading\<close> reports on standard error).
\<close>

datatype rstate =
    R_Start pydict
  | R_Relay string string "string list"
  | R_Newline string string "string list"
  | R_Done

definition opening_msg :: "launch \<Rightarrow> string" where
  "opening_msg l = cli_loader @ cli_info @ '' Opening file: `'' @ l_path l @ ''`''"

definition stopped_msg :: "string \<Rightarrow> string" where
  "stopped_msg fp = cli_loader @ cli_warning @ '' File '' @ fp @ '' stopped''"

text \<open>
  One step of runner \<open>i\<close>. The first step binds the arguments, prints the
  opening notice and starts the child (\<open>Popen\<close> raises for a missing or
  non-directory working directory; a missing script is the child's own error,
  which it prints and exits with). The child's merged output is read line by
  line; each line is printed as \<open>tag + " " + line.rstrip()\<close> by \<open>print\<close>, in
  two writes. At end of file the runner waits for the child, whose exit status
  is not looked at, and prints the stop notice. \<open>None\<close>: the thread is done.
\<close>

fun runner_step :: "nat \<Rightarrow> rstate \<Rightarrow> world \<Rightarrow> (rstate \<times> world) option" where
  "runner_step i (R_Start kw) w =
     Some (case runfile_setup kw of
             Inl e \<Rightarrow> (R_Done, w\<lparr>stderr := stderr w @ [(Runner i, e)]\<rparr>)
           | Inr l \<Rightarrow>
               (let w1 = rprint (Runner i) (opening_msg l) w
                in case cwd_error (Some (l_cwd l)) w1 of
                     Some e \<Rightarrow> (R_Done, w1\<lparr>stderr := stderr w1 @ [(Runner i, e)]\<rparr>)
                   | None \<Rightarrow>
                       (R_Relay (l_tag l) (l_path l) (pipe_lines (fst (programs w1 (l_cwd l) (l_argv l) (child_env (os_environ w1))))),
                        w1\<lparr>procs := procs w1 @ [(Some (l_cwd l), l_argv l)]\<rparr>)))"
| "runner_step i (R_Relay tg fp (ln # ls)) w =
     Some (R_Newline tg fp ls, write_out (Runner i) (tg @ '' '' @ rstrip ln) w)"
| "runner_step i (R_Relay tg fp []) w =
     Some (R_Done, rprint (Runner i) (stopped_msg fp) w)"
| "runner_step i (R_Newline tg fp ls) w =
     Some (R_Relay tg fp ls, write_out (Runner i) ''\<newline>'' w)"
| "runner_step i R_Done w = None"

section \<open>What a runner writes\<close>

text \<open>
  The writes a runner owes from a relaying state on, and the whole sequence
  of writes of a runner started with \<open>kw\<close>: the opening notice, the text and
  the line end of every line of its child's output in order, and the stop
  notice.
\<close>

definition relay_writes :: "string \<Rightarrow> string \<Rightarrow> string list \<Rightarrow> string list" where
  "relay_writes tg fp ls =
     concat (map (\<lambda>ln. [tg @ '' '' @ rstrip ln, ''\<newline>'']) ls) @ [render_markup (stopped_msg fp) @ ''\<newline>'']"

fun pending :: "rstate \<Rightarrow> string list" where
  "pending (R_Start kw) = []"
| "pending (R_Relay tg fp ls) = relay_writes tg fp ls"
| "pending (R_Newline tg fp ls) = ''\<newline>'' # relay_writes tg fp ls"
| "pending R_Done = []"

definition transcript :: "world \<Rightarrow> pydict \<Rightarrow> string list" where
  "transcript w kw =
     (case runfile_setup kw of
        Inl e \<Rightarrow> []
      | Inr l \<Rightarrow> (render_markup (opening_msg l) @ ''\<newline>'')
                  # relay_writes (l_tag l) (l_path l) (pipe_lines (fst (programs w (l_cwd l) (l_argv l) (child_env (os_environ w))))))"


text \<open>
  What a runner still owes: its whole transcript before it has started, its
  pending writes afterwards. The rank bounds the number of steps it has left;
  it depends on the world only through the children's behaviour.
\<close>

definition owed :: "world \<Rightarrow> rstate \<Rightarrow> string list" where
  "owed w st = (case st of R_Start kw \<Rightarrow> transcript w kw | _ \<Rightarrow> pending st)"

fun runner_rank :: "world \<Rightarrow> rstate \<Rightarrow> nat" where
  "runner_rank w (R_Start kw) = Suc (length (transcript w kw))"
| "runner_rank w st = length (pending st)"

lemma runfile_setup_TypeError: "runfile_setup kw = Inl e \<Longrightarrow> \<exists>m. e = TypeError m"
  by (auto simp: runfile_setup_def bind_runfile_def Let_def split: sum.splits if_splits)

lemma runner_step_None [simp]: "runner_step i st w = None \<longleftrightarrow> st = R_Done"
  by (cases "(i, st, w)" rule: runner_step.cases) simp_all

lemma runner_step_env:
  assumes "runner_step i st w = Some (st', w')"
  shows "env_of w' = env_of w"
  using assms
  by (cases "(i, st, w)" rule: runner_step.cases)
     (auto simp: Let_def env_of_def rprint_def write_out_def split: sum.splits option.splits)

text \<open>
  What one step of a runner does to the console and to standard error: it
  writes the next writes it owes and keeps standard error, or it ends the
  thread after a prefix of them with one exception reported.
\<close>

definition runner_outcome :: "nat \<Rightarrow> world \<Rightarrow> rstate \<Rightarrow> world \<Rightarrow> rstate \<Rightarrow> string list \<Rightarrow> bool" where
  "runner_outcome i w st w' st' xs \<longleftrightarrow>
     (xs @ owed w' st' = owed w st \<and> stderr w' = stderr w)
   \<or> (st' = R_Done \<and> prefix xs (owed w st) \<and> (\<exists>e. stderr w' = stderr w @ [(Runner i, e)]))"

lemma runner_step_outcome:
  assumes "runner_step i st w = Some (st', w')"
  shows "\<exists>xs. stdout w' = stdout w @ map (Pair (Runner i)) xs \<and> runner_outcome i w st w' st' xs"
proof (cases st)
  case (R_Start kw)
  show ?thesis
  proof (cases "runfile_setup kw")
    case (Inl e)
    with assms R_Start have "stdout w' = stdout w @ map (Pair (Runner i)) [] \<and> runner_outcome i w st w' st' []"
      by (auto simp: runner_outcome_def)
    then show ?thesis by blast
  next
    case (Inr l)
    let ?o = "render_markup (opening_msg l) @ ''\<newline>''"
    have env: "programs w' = programs w" "os_environ w' = os_environ w"
      using assms R_Start Inr by (auto simp: Let_def rprint_def split: option.splits)
    have "stdout w' = stdout w @ map (Pair (Runner i)) [?o] \<and> runner_outcome i w st w' st' [?o]"
      using assms R_Start Inr env
      by (auto simp: Let_def transcript_def owed_def rprint_def runner_outcome_def split: option.splits)
    then show ?thesis by blast
  qed
next
  case (R_Relay tg fp ls)
  show ?thesis
  proof (cases ls)
    case Nil
    with assms R_Relay have "stdout w' = stdout w @ map (Pair (Runner i)) [render_markup (stopped_msg fp) @ ''\<newline>'']
      \<and> runner_outcome i w st w' st' [render_markup (stopped_msg fp) @ ''\<newline>'']"
      by (auto simp: owed_def relay_writes_def runner_outcome_def)
    then show ?thesis by blast
  next
    case (Cons ln ls')
    with assms R_Relay have "stdout w' = stdout w @ map (Pair (Runner i)) [tg @ '' '' @ rstrip ln]
      \<and> runner_outcome i w st w' st' [tg @ '' '' @ rstrip ln]"
      by (auto simp: owed_def relay_writes_def runner_outcome_def)
    then show ?thesis by blast
  qed
next
  case (R_Newline tg fp ls)
  with assms have "stdout w' = stdout w @ map (Pair (Runner i)) [''\<newline>'']
    \<and> runner_outcome i w st w' st' [''\<newline>'']"
    by (auto simp: owed_def runner_outcome_def)
  then show ?thesis by blast
qed (use assms in simp)

lemma runner_outcome_prefix: "runner_outcome i w st w' st' xs \<Longrightarrow> prefix (xs @ owed w' st') (owed w st)"
  by (auto simp: runner_outcome_def owed_def)

lemma runner_step_writes:
  assumes "runner_step i st w = Some (st', w')"
  shows "\<exists>xs. stdout w' = stdout w @ map (Pair (Runner i)) xs \<and> prefix (xs @ owed w' st') (owed w st)"
  using runner_step_outcome [OF assms] runner_outcome_prefix by blast

lemma runner_step_rank:
  assumes "runner_step i st w = Some (st', w')"
  shows "runner_rank w' st' < runner_rank w st"
  using assms
proof (cases "(i, st, w)" rule: runner_step.cases)
  case (1 i kw w)
  then show ?thesis using assms 
    by (auto simp: Let_def transcript_def rprint_def split: sum.splits option.splits)
qed (auto simp: relay_writes_def)

lemma transcript_env:
  assumes "env_of w' = env_of w"
  shows "transcript w' = transcript w"
proof
  fix kw
  from assms have p: "programs w' = programs w" and e: "os_environ w' = os_environ w" by (simp_all add: env_of_def)
  show "transcript w' kw = transcript w kw" by (simp only: transcript_def p e)
qed

lemma owed_env: "env_of w' = env_of w \<Longrightarrow> owed w' st = owed w st"
  by (drule transcript_env) (cases st, simp_all add: owed_def)

lemma runner_rank_env: "env_of w' = env_of w \<Longrightarrow> runner_rank w' = runner_rank w"
  by (drule transcript_env) (rule ext, case_tac x, simp_all)

function runner_run :: "nat \<Rightarrow> rstate \<Rightarrow> world \<Rightarrow> world" where
  "runner_run i st w = (case runner_step i st w of None \<Rightarrow> w | Some (st', w') \<Rightarrow> runner_run i st' w')"
  by pat_completeness auto
termination
  by (relation "measure (\<lambda>(i, st, w). runner_rank w st)") (auto dest: runner_step_rank)

declare runner_run.simps [simp del]

text \<open>
  An example entry with a configured tag that differs from its directory, and a
  world where its directory exists and its child prints two lines (the first
  ended by CRLF) and fails.
\<close>

abbreviation ex_entry :: pydict where
  "ex_entry \<equiv> [(''dir'', PStr ''Bot''), (''start'', PStr ''main.py''), (''tag'', PStr ''[Custom]'')]"

definition ex_run_world :: world where
  "ex_run_world = empty_world\<lparr>fs := [''Bot'' \<mapsto> Dir empty_wdir],
     programs := (\<lambda>_ _ _. (''hello'' @ [CHR 0x0D, CHR 0x0A] @ ''world'', 1))\<rparr>"

lemma setup_ex_entry:
  "runfile_setup ex_entry =
     Inr \<lparr>l_cwd = ''Bot'', l_argv = [sys_executable, ''-O'', ''-u'', ''main.py''], l_tag = ''[Bot]'', l_path = ''Bot/main.py''\<rparr>"
  by (simp add: runfile_setup_def bind_runfile_def dict_get_def dict_has_def runfile_params_def os_path_join_def)

lemma runner_run_relay:
  "stdout (runner_run i (R_Relay tg fp ls) w) = stdout w @ map (Pair (Runner i)) (relay_writes tg fp ls)"
proof (induction ls arbitrary: w)
  case Nil
  then show ?case by (simp add: runner_run.simps[of i "R_Relay tg fp []"] runner_run.simps[of i R_Done] relay_writes_def)
next
  case (Cons ln ls)
  then show ?case
    by (simp add: runner_run.simps[of i "R_Relay tg fp (ln # ls)"] runner_run.simps[of i "R_Newline tg fp ls"] relay_writes_def)
qed

section \<open>Properties of the runner\<close>

text \<open>
  C5: The tag a runner prefixes its child's lines with is always
  \<open>"[" + str(dir) + "]"\<close>: the configured \<open>tag\<close> is bound to the named
  parameter, so \<open>kwargs.get("tag", ...)\<close> never finds it and the
  configured value is ignored.
\<close>

lemma runfile_tag_ignored:
  "runfile_setup kw = Inr l \<Longrightarrow> l_tag l = ''['' @ py_str (dict_get kw ''dir'' (PStr [])) @ '']''"
  by (auto simp: runfile_setup_def bind_runfile_def Let_def dict_get_def runfile_params_def
      split: if_splits sum.splits prod.splits)

text \<open>The launch parameters of an entry that binds, in terms of the entry's own values.\<close>

lemma runfile_setup_Inr:
  assumes "map_of kw ''dir'' = Some (PStr d)" "map_of kw ''start'' = Some (PStr st)" "dict_has kw ''tag''"
  shows "runfile_setup kw =
           Inr \<lparr>l_cwd = (if d = [] then ''.'' else d),
                l_argv = [sys_executable, ''-O'', ''-u'', st] @ star_args (dict_get kw ''args'' (PList [])),
                l_tag = ''['' @ d @ '']'', l_path = os_path_join d st\<rparr>"
  using assms
  by (simp add: runfile_setup_def bind_runfile_def dict_has_def dict_get_def runfile_params_def Let_def)

text \<open>
  C6: A runner run on its own from its start writes exactly its transcript
  when the arguments bind and its working directory exists: the opening notice,
  then for every line its child prints, in order, \<open>tag + " " + line.rstrip()\<close>
  and a line end, then the stop notice, whatever the child's exit status.
\<close>

lemma runner_run_transcript:
  assumes "runfile_setup kw = Inr l" "cwd_error (Some (l_cwd l)) w = None"
  shows "stdout (runner_run i (R_Start kw) w) = stdout w @ map (Pair (Runner i)) (transcript w kw)"
proof -
  have "cwd_error (Some (l_cwd l)) (rprint (Runner i) (opening_msg l) w) = None"
    using assms(2) by (simp add: cwd_error_def)
  with assms show ?thesis
    by (simp add: runner_run.simps[of i "R_Start kw"] runner_run_relay transcript_def Let_def)
qed



lemma runfile_tag_ignored_witness:
  "runfile_setup ex_entry =
     Inr \<lparr>l_cwd = ''Bot'', l_argv = [sys_executable, ''-O'', ''-u'', ''main.py''], l_tag = ''[Bot]'', l_path = ''Bot/main.py''\<rparr>
   \<and> dict_get ex_entry ''tag'' (PStr []) = PStr ''[Custom]''
   \<and> l_tag \<lparr>l_cwd = ''Bot'', l_argv = [sys_executable, ''-O'', ''-u'', ''main.py''], l_tag = ''[Bot]'', l_path = ''Bot/main.py''\<rparr> = ''[Bot]''"
  using runfile_tag_ignored [OF setup_ex_entry] setup_ex_entry by (simp add: dict_get_def)

lemma runner_run_transcript_witness:
  "stdout (runner_run 0 (R_Start ex_entry) ex_run_world) =
     map (Pair (Runner 0))
       [''[Loader][INFO] Opening file: `Bot/main.py`\<newline>'', ''[Bot] hello'', ''\<newline>'', ''[Bot] world'', ''\<newline>'',
        ''[Loader][WARNING] File Bot/main.py stopped\<newline>'']"
proof -
  have "cwd_error (Some ''Bot'') ex_run_world = None"
    by (simp add: cwd_error_def ex_run_world_def)
  from runner_run_transcript [where w = ex_run_world and i = 0, OF setup_ex_entry, simplified, OF this]
  show ?thesis
    by (simp add: transcript_def setup_ex_entry ex_run_world_def empty_world_def opening_msg_def stopped_msg_def
        cli_defs relay_writes_def pipe_lines_def markup_tag_def tag_start_def drop_lf_def
        read_lines.simps readline_def rstrip_def is_space_def)
qed


text \<open>
  C19: The configuration entries \<open>runfile\<close> accepts. The keyword binding and
  the path computation succeed exactly when the entry has the keys \<open>dir\<close>,
  \<open>start\<close> and \<open>tag\<close> and its \<open>dir\<close> and \<open>start\<close> are strings; otherwise
  the runner raises \<open>TypeError\<close>, and no other exception.
\<close>

theorem runfile_setup_typing:
  "((\<exists>l. runfile_setup kw = Inr l) \<longleftrightarrow>
     dict_has kw ''tag'' \<and> (\<exists>d. map_of kw ''dir'' = Some (PStr d)) \<and> (\<exists>st. map_of kw ''start'' = Some (PStr st)))
   \<and> (\<forall>e. runfile_setup kw = Inl e \<longrightarrow> (\<exists>m. e = TypeError m))"
proof
  show "(\<exists>l. runfile_setup kw = Inr l) \<longleftrightarrow>
     dict_has kw ''tag'' \<and> (\<exists>d. map_of kw ''dir'' = Some (PStr d)) \<and> (\<exists>st. map_of kw ''start'' = Some (PStr st))"
    by (auto simp: runfile_setup_def bind_runfile_def dict_has_def dict_get_def Let_def
        split: option.splits sum.splits pyval.splits if_splits)
  show "\<forall>e. runfile_setup kw = Inl e \<longrightarrow> (\<exists>m. e = TypeError m)"
    by (blast dest: runfile_setup_TypeError)
qed

text \<open>
  C20: A failed spawn is contained in its runner. When the working directory of
  an entry is missing or not a directory, the runner prints its opening notice,
  its thread ends with the \<open>OSError\<close> reported on standard error, and no child
  is started; nothing else of the world changes.
\<close>

theorem spawn_failure_contained:
  assumes "runfile_setup kw = Inr l" "cwd_error (Some (l_cwd l)) w = Some e"
  shows "runner_step i (R_Start kw) w =
           Some (R_Done, w\<lparr>stdout := stdout w @ [(Runner i, render_markup (opening_msg l) @ ''\<newline>'')],
                            stderr := stderr w @ [(Runner i, e)]\<rparr>)"
  using assms by (simp add: Let_def) (simp add: rprint_def)

theorem runfile_setup_typing_witness:
  "(\<exists>l. runfile_setup ex_entry = Inr l) \<and> \<not> (\<exists>l. runfile_setup [(''dir'', PStr ''Bot''), (''start'', PStr ''main.py'')] = Inr l)
   \<and> runfile_setup [(''dir'', PStr ''Bot''), (''start'', PStr ''main.py'')]
       = Inl (TypeError (''runfile() missing 1 required positional argument: '' @ sq ''tag''))"
proof -
  have e: "runfile_setup [(''dir'', PStr ''Bot''), (''start'', PStr ''main.py'')]
       = Inl (TypeError (''runfile() missing 1 required positional argument: '' @ sq ''tag''))"
    by (simp add: runfile_setup_def bind_runfile_def dict_has_def missing_args_msg_def show_nat.simps hex_digit_def)
  from runfile_setup_typing [of ex_entry] runfile_setup_typing [of "[(''dir'', PStr ''Bot''), (''start'', PStr ''main.py'')]"] e
  show ?thesis by (simp add: dict_has_def)
qed

theorem spawn_failure_contained_witness:
  "runner_step 0 (R_Start ex_entry) empty_world =
     Some (R_Done, empty_world\<lparr>stdout := [(Runner 0, ''[Loader][INFO] Opening file: `Bot/main.py`\<newline>'')],
                                stderr := [(Runner 0, FileNotFoundError ''Bot'')]\<rparr>)"
proof -
  note r = spawn_failure_contained [where i = 0 and w = empty_world and e = "FileNotFoundError ''Bot''", OF setup_ex_entry]
  have c: "cwd_error (Some (l_cwd \<lparr>l_cwd = ''Bot'', l_argv = [sys_executable, ''-O'', ''-u'', ''main.py''], l_tag = ''[Bot]'',
      l_path = ''Bot/main.py''\<rparr>)) empty_world = Some (FileNotFoundError ''Bot'')"
    by (simp add: cwd_error_def empty_world_def)
  show ?thesis unfolding r [OF c]
    by (simp add: empty_world_def opening_msg_def cli_defs markup_tag_def tag_start_def)
qed


text \<open>
  C23: A successful launch. When the arguments bind and the working directory
  \<open>dir or "."\<close> is a directory, the runner's first step prints the opening notice,
  starts exactly one child with the argument vector
  \<open>[sys.executable, "-O", "-u", start, *args]\<close> in that directory, and goes on to
  relay the lines of that child's output, which the child produces in the
  environment \<open>env\<close> of lines 7--8: the supervisor's own with \<open>FORCE_COLOR=1\<close>.
\<close>

theorem runner_launch:
  assumes "map_of kw ''dir'' = Some (PStr d)" "map_of kw ''start'' = Some (PStr st)" "dict_has kw ''tag''"
    "cwd_error (Some (if d = [] then ''.'' else d)) w = None"
  shows "runner_step i (R_Start kw) w =
           Some (R_Relay (''['' @ d @ '']'') (os_path_join d st)
                   (pipe_lines (fst (programs w (if d = [] then ''.'' else d)
                      ([sys_executable, ''-O'', ''-u'', st] @ star_args (dict_get kw ''args'' (PList [])))
                      (child_env (os_environ w))))),
                 w\<lparr>stdout := stdout w @ [(Runner i, render_markup (cli_loader @ cli_info @ '' Opening file: `''
                                                @ os_path_join d st @ ''`'') @ ''\<newline>'')],
                   procs := procs w @ [(Some (if d = [] then ''.'' else d),
                                        [sys_executable, ''-O'', ''-u'', st] @ star_args (dict_get kw ''args'' (PList [])))]\<rparr>)"
  using runfile_setup_Inr [OF assms(1-3)] assms(4) by (simp add: Let_def rprint_def opening_msg_def cwd_error_def)

theorem runner_launch_witness:
  "procs (snd (the (runner_step 0 (R_Start (hd bot_info)) (empty_world\<lparr>fs := [''Taiga'' \<mapsto> Dir empty_wdir]\<rparr>))))
     = [(Some ''Taiga'', [sys_executable, ''-O'', ''-u'', ''main.py'', ''-e'', ''.env.prod''])]"
proof -
  have h: "map_of (hd bot_info) ''dir'' = Some (PStr ''Taiga'')" "map_of (hd bot_info) ''start'' = Some (PStr ''main.py'')"
    "dict_has (hd bot_info) ''tag''"
    "cwd_error (Some (if ''Taiga'' = [] then ''.'' else ''Taiga'')) (empty_world\<lparr>fs := [''Taiga'' \<mapsto> Dir empty_wdir]\<rparr>) = None"
    by (simp_all add: bot_info_def dict_has_def cwd_error_def)
  show ?thesis unfolding runner_launch [OF h, of 0]
    by (simp add: empty_world_def bot_info_def dict_get_def)
qed

text \<open>
  C32: The runner's notices reach \<open>rich\<close> unescaped (lines 73 and 91). For
  every entry whose directory is a bracketed word that \<open>rich\<close> reads as a
  style, such as \<open>[beta]\<close> or \<open>[old-bots]\<close>, and whose relative script path has
  no bracket, the first and the last line the runner writes name the script as
  \<open>/start\<close>: the directory vanishes from \<open>os.path.join(dir, start)\<close>.
\<close>

theorem runner_notice_markup_injection:
  assumes "map_of kw ''dir'' = Some (PStr (CHR ''['' # c # v @ '']''))" "tag_start c" "c \<noteq> CHR ''/''" "CHR ''['' \<notin> set v"
    "CHR '']'' \<notin> set v" "map_of kw ''start'' = Some (PStr st)" "dict_has kw ''tag''" "st \<noteq> []"
    "hd st \<noteq> CHR ''/''" "CHR ''['' \<notin> set st"
  shows "hd (transcript w kw) = ''[Loader][INFO] Opening file: `/'' @ st @ ''`\<newline>''
       \<and> last (transcript w kw) = ''[Loader][WARNING] File /'' @ st @ '' stopped\<newline>''"
proof -
  have j: "os_path_join (CHR ''['' # c # v @ '']'') st = CHR ''['' # c # v @ CHR '']'' # ''/'' @ st"
    using assms(8,9) by (cases st) (simp_all add: os_path_join_def)
  have s: "render_markup (CHR ''['' # c # v @ CHR '']'' # ''/'' @ st @ t) = ''/'' @ st @ render_markup t" for t
    using render_markup_style [OF assms(2) assms(4,5), of "''/'' @ st @ t"] assms(10) by (simp add: render_markup_append_plain)
  have o: "render_markup ('' Opening file: `'' @ CHR ''['' # c # v @ CHR '']'' # ''/'' @ st @ ''`'') = '' Opening file: `/'' @ st @ ''`''"
    using s [of "''`''"] by (simp add: render_markup_append_plain)
  have p: "render_markup ('' File '' @ CHR ''['' # c # v @ CHR '']'' # ''/'' @ st @ '' stopped'') = '' File /'' @ st @ '' stopped''"
    using s [of "'' stopped''"] by (simp add: render_markup_append_plain)
  show ?thesis
    using runfile_setup_Inr [OF assms(1,6,7)] j o p
    by (simp add: transcript_def relay_writes_def opening_msg_def stopped_msg_def render_markup_labels)
qed

theorem runner_notice_markup_injection_witness:
  "hd (transcript empty_world [(''dir'', PStr ''[beta]''), (''start'', PStr ''main.py''), (''tag'', PStr ''[B]'')])
     = ''[Loader][INFO] Opening file: `/main.py`\<newline>''"
proof -
  have h: "map_of [(''dir'', PStr ''[beta]''), (''start'', PStr ''main.py''), (''tag'', PStr ''[B]'')] ''dir''
             = Some (PStr (CHR ''['' # CHR ''b'' # ''eta'' @ '']''))"
    "tag_start (CHR ''b'')" "CHR ''b'' \<noteq> CHR ''/''" "CHR ''['' \<notin> set ''eta''" "CHR '']'' \<notin> set ''eta''"
    "map_of [(''dir'', PStr ''[beta]''), (''start'', PStr ''main.py''), (''tag'', PStr ''[B]'')] ''start'' = Some (PStr ''main.py'')"
    "dict_has [(''dir'', PStr ''[beta]''), (''start'', PStr ''main.py''), (''tag'', PStr ''[B]'')] ''tag''"
    "''main.py'' \<noteq> []" "hd ''main.py'' \<noteq> CHR ''/''" "CHR ''['' \<notin> set ''main.py''"
    by (simp_all add: tag_start_def dict_has_def)
  from runner_notice_markup_injection [OF h, of empty_world] show ?thesis by simp
qed

text \<open>
  C34: The children's colour setting is forced (lines 7--8 and 82). What a
  runner writes, the output of its child included, is the same whatever the
  supervisor's own environment says about \<open>FORCE_COLOR\<close>: the child always
  sees \<open>FORCE_COLOR=1\<close> and every other variable as the supervisor has it.
\<close>

theorem transcript_force_color:
  "transcript (w\<lparr>os_environ := (os_environ w)(''FORCE_COLOR'' := v)\<rparr>) kw = transcript w kw"
proof -
  have "child_env ((os_environ w)(''FORCE_COLOR'' := v)) = child_env (os_environ w)"
    by (simp add: child_env_def)
  then show ?thesis by (simp add: transcript_def split: sum.splits)
qed

end
