(* ===== verification/Supervisor.thy ===== *)
theory Supervisor
  imports Runner
begin

text \<open>
  The supervisor \<open>main()\<close> of \<open>src/loader.py\<close> (lines 95--123) and the
  concurrent system it creates: the main thread as a step function over its
  program point, the runner threads of theory \<open>Runner\<close>, and the inductive
  step relation \<open>sys_step\<close> that interleaves them over a shared world, with the
  reachable states from the start. An executable scheduler \<open>run_sched\<close>
  computes concrete runs; it takes exactly the steps of \<open>sys_step\<close>.
\<close>

section \<open>The main thread\<close>

text \<open>
  Line 99: \<open>requests.get("https://api.ipify.org").text\<close>; without network
  it raises \<open>ConnectionError\<close>, which nothing catches.
\<close>

definition ip_get :: "(world, string) pyio" where
  "ip_get w = (if online w then (Inr (public_ip w), w) else (Inl ConnectionError, w))"

text \<open>Lines 100--107: the address, the number of entries and one line per entry.\<close>

definition listing_msg :: "pydict \<Rightarrow> string" where
  "listing_msg kw =
     cli_loader @ cli_info @ ''   -  '' @ py_str (dict_get kw ''tag'' (PStr ''[Unknown]'')) @
     '' - '' @ py_str (dict_get kw ''dir'' (PStr ''No Directory''))"

definition main_prelude :: "pydict list \<Rightarrow> (world, unit) pyio" where
  "main_prelude cfg =
     py_bind ip_get (\<lambda>ip.
       py_then (py_modify (rprint_args Main [cli_loader @ cli_info @ '' Server IP:'', ip]))
         (py_then (py_rprint Main (cli_loader @ cli_info @ '' Loading '' @ show_nat (length cfg) @ '' bot(s)''))
           (py_modify (\<lambda>w. fold (\<lambda>kw. rprint Main (listing_msg kw)) cfg w))))"

text \<open>
  Lines 112--115: an entry with a \<open>github\<close> key is synchronized with
  \<open>github(kwargs["dir"], kwargs["github"], kwargs.get("github_branch", "master"))\<close>;
  a missing key raises \<open>KeyError\<close>. The first statement of \<open>github\<close> is
  \<open>os.path.exists(dir)\<close> (line 31), whose \<open>os.stat\<close> raises \<open>TypeError\<close> for a
  list; it is taken here, so that \<open>github\<close> receives the directory as a
  string. The URL and the branch are passed on as they are: \<open>github\<close> formats
  them into its messages and raises \<open>TypeError\<close> only at the first command
  that needs one of them as an argument.
\<close>

definition sync_entry :: "pydict \<Rightarrow> (world, unit) pyio" where
  "sync_entry kw =
     (if dict_has kw ''github'' then
        py_bind (py_lift (dict_index kw ''dir'')) (\<lambda>d.
          py_bind (py_lift (dict_index kw ''github'')) (\<lambda>u.
            py_bind (py_lift (stat_path d)) (\<lambda>dir.
              github dir u (dict_get kw ''github_branch'' (PStr ''master'')))))
      else py_return ())"

text \<open>
  Where the main thread is: before the IP check; in the dispatch loop of
  lines 111--117 with the entries still to dispatch; joining thread \<open>j\<close>
  (lines 119--120); or returned (exit status 0) or ended by an uncaught
  exception (status 1, the interpreter still waits for the runner threads,
  which are not daemons).
\<close>

datatype mstate =
    M_Start
  | M_Dispatch "pydict list"
  | M_Join nat
  | M_Exit int

text \<open>
  The system: the main thread, the runner threads in the order they were
  started, each with the dictionary it was started with (\<open>Thread(kwargs=...)\<close>),
  and the world they share.
\<close>

record sys =
  main :: mstate
  threads :: "(pydict \<times> rstate) list"
  sys_world :: world

definition final_msg :: string where
  "final_msg = cli_loader @ cli_warning @ '' All files have exited, quitting.''"

text \<open>An exception leaving a thread is reported on standard error.\<close>

definition uncaught :: "py_exc \<Rightarrow> world \<Rightarrow> world" where
  "uncaught e w = w\<lparr>stderr := stderr w @ [(Main, e)]\<rparr>"

text \<open>
  One step of the main thread: the IP check and the listing (no runner exists
  yet, so they form one step); the synchronization of one entry followed by the
  start of its runner; the end of the dispatch loop; the join of thread \<open>j\<close>,
  enabled only once it is done; the final notice. \<open>None\<close>: the main thread
  is blocked or has ended.
\<close>

fun main_step :: "pydict list \<Rightarrow> sys \<Rightarrow> sys option" where
  "main_step cfg s =
     (case main s of
        M_Start \<Rightarrow>
          Some (case main_prelude cfg (sys_world s) of
                  (Inl e, w) \<Rightarrow> s\<lparr>main := M_Exit 1, sys_world := uncaught e w\<rparr>
                | (Inr _, w) \<Rightarrow> s\<lparr>main := M_Dispatch cfg, sys_world := w\<rparr>)
      | M_Dispatch [] \<Rightarrow> Some (s\<lparr>main := M_Join 0\<rparr>)
      | M_Dispatch (kw # rest) \<Rightarrow>
          Some (case sync_entry kw (sys_world s) of
                  (Inl e, w) \<Rightarrow> s\<lparr>main := M_Exit 1, sys_world := uncaught e w\<rparr>
                | (Inr _, w) \<Rightarrow> s\<lparr>main := M_Dispatch rest, threads := threads s @ [(kw, R_Start kw)], sys_world := w\<rparr>)
      | M_Join j \<Rightarrow>
          (if j < length (threads s) then
             (if snd (threads s ! j) = R_Done then Some (s\<lparr>main := M_Join (Suc j)\<rparr>) else None)
           else Some (s\<lparr>main := M_Exit 0, sys_world := rprint Main final_msg (sys_world s)\<rparr>))
      | M_Exit c \<Rightarrow> None)"

text \<open>
  The system takes a step of the main thread or of any runner: the threads
  interleave at the granularity of their writes to the console.
\<close>

inductive sys_step :: "pydict list \<Rightarrow> sys \<Rightarrow> sys \<Rightarrow> bool" for cfg where
  main_sys_step: "main_step cfg s = Some s' \<Longrightarrow> sys_step cfg s s'"
| runner_sys_step: "i < length (threads s) \<Longrightarrow> threads s ! i = (kw, st) \<Longrightarrow> runner_step i st (sys_world s) = Some (st', w')
    \<Longrightarrow> sys_step cfg s (s\<lparr>threads := (threads s)[i := (kw, st')], sys_world := w'\<rparr>)"

text \<open>The supervisor starts with its main thread and empty logs.\<close>

definition sys0 :: "world \<Rightarrow> sys" where
  "sys0 w = \<lparr>main = M_Start, threads = [], sys_world = w\<lparr>stdout := [], stderr := [], procs := []\<rparr>\<rparr>"

inductive reachable :: "pydict list \<Rightarrow> world \<Rightarrow> sys \<Rightarrow> bool" for cfg w0 where
  reach_init: "reachable cfg w0 (sys0 w0)"
| reach_step: "reachable cfg w0 s \<Longrightarrow> sys_step cfg s s' \<Longrightarrow> reachable cfg w0 s'"

text \<open>The process exits when the main thread has ended and every runner is done.\<close>

definition finished :: "sys \<Rightarrow> bool" where
  "finished s \<longleftrightarrow> (case main s of M_Exit c \<Rightarrow> True | _ \<Rightarrow> False) \<and> (\<forall>t\<in>set (threads s). snd t = R_Done)"

section \<open>An executable scheduler\<close>

text \<open>
  A schedule names the thread that takes the next step; \<open>run_sched\<close> runs a
  schedule and fails when a scheduled thread cannot step.
\<close>

datatype sched = SMain | SRunner nat

fun sys_next :: "pydict list \<Rightarrow> sched \<Rightarrow> sys \<Rightarrow> sys option" where
  "sys_next cfg SMain s = main_step cfg s"
| "sys_next cfg (SRunner i) s =
     (if i < length (threads s) then
        (case threads s ! i of (kw, st) \<Rightarrow>
           map_option (\<lambda>(st', w'). s\<lparr>threads := (threads s)[i := (kw, st')], sys_world := w'\<rparr>)
             (runner_step i st (sys_world s)))
      else None)"

fun run_sched :: "pydict list \<Rightarrow> sched list \<Rightarrow> sys \<Rightarrow> sys option" where
  "run_sched cfg [] s = Some s"
| "run_sched cfg (x # xs) s = (case sys_next cfg x s of None \<Rightarrow> None | Some s' \<Rightarrow> run_sched cfg xs s')"

section \<open>The exceptions that reach standard error\<close>

text \<open>
  What each thread may report: the main thread a \<open>ConnectionError\<close> of the IP
  check, a \<open>KeyError\<close> for a missing \<open>dir\<close> or \<open>github\<close>, the \<open>TypeError\<close> of
  a list used as the directory, URL or branch, a \<open>CalledProcessError\<close> with a nonzero status of a git
  command other than the pull, or an \<open>OSError\<close>; a runner a \<open>TypeError\<close> of
  \<open>runfile\<close> or the \<open>OSError\<close> of its spawn; a git child nothing.
\<close>

fun reported_exc :: "src \<Rightarrow> py_exc \<Rightarrow> bool" where
  "reported_exc Main (KeyError k) \<longleftrightarrow> k = ''dir'' \<or> k = ''github''"
| "reported_exc Main (TypeError m) \<longleftrightarrow>
     m = ''stat: path should be string, bytes, os.PathLike or integer, not list'' \<or> m = fsencode_msg"
| "reported_exc Main (CalledProcessError argv rc) \<longleftrightarrow> rc \<noteq> 0 \<and> take 2 argv \<noteq> [''git'', ''pull'']"
| "reported_exc Main _ \<longleftrightarrow> True"
| "reported_exc (Runner i) (TypeError m) \<longleftrightarrow> True"
| "reported_exc (Runner i) (FileNotFoundError d) \<longleftrightarrow> True"
| "reported_exc (Runner i) (NotADirectoryError d) \<longleftrightarrow> True"
| "reported_exc (Runner i) _ \<longleftrightarrow> False"
| "reported_exc GitChild _ \<longleftrightarrow> False"

text \<open>
  A process the synchronization of entry \<open>kw\<close> may start: a git command, run
  without a working directory (the clone) or in the entry's \<open>dir\<close>.
\<close>

definition entry_proc :: "pydict \<Rightarrow> string option \<times> string list \<Rightarrow> bool" where
  "entry_proc kw p \<longleftrightarrow> take 1 (snd p) = [''git'']
     \<and> (fst p = None \<or> (case map_of kw ''dir'' of Some (PStr d) \<Rightarrow> fst p = Some d | _ \<Rightarrow> False))"

section \<open>Basic facts\<close>

inductive_cases sys_stepE: "sys_step cfg s s'"

lemma frames_main_prelude [simp]: "frames main_writes (main_prelude cfg)"
proof -
  have "frames main_writes ip_get" by (simp add: frames_def ip_get_def main_writes_def)
  moreover have "main_writes w (rprint_args Main xs w)" for w xs
    by (auto simp: main_writes_def rprint_args_def env_of_def)
  moreover have "main_writes w (fold (\<lambda>kw. rprint Main (listing_msg kw)) kws w)" for w kws
  proof (induction kws arbitrary: w)
    case (Cons kw kws)
    then show ?case using transp_main_writes main_writes_rprint by (metis fold_simps(2) transpD)
  qed (simp add: reflpD)
  ultimately show ?thesis by (simp add: main_prelude_def)
qed

lemma raises_only_main_prelude: "raises_only (\<lambda>e. e = ConnectionError) (main_prelude cfg)"
proof -
  have "raises_only (\<lambda>e. e = ConnectionError) ip_get" by (simp add: raises_only_def ip_get_def)
  then show ?thesis unfolding main_prelude_def by (intro raises_intros)
qed

lemma raises_only_sync_entry: "raises_only (reported_exc Main) (sync_entry kw)"
  unfolding sync_entry_def
  by (intro raises_intros raises_only_mono [OF raises_only_github])
    (auto simp: dict_index_def split: option.splits)

lemma frames_sync_entry_procs: "frames (procs_within (entry_proc kw)) (sync_entry kw)"
  unfolding sync_entry_def
  by (intro frames_if frames_bind_lift frames_return reflp_procs_within)
    (auto intro!: frames_mono [OF frames_github_procs] elim!: procs_within_mono
      simp: entry_proc_def dict_index_def split: option.splits)

lemma main_prelude_procs: "procs (snd (main_prelude cfg w)) = procs w"
  by (simp add: main_prelude_def ip_get_def py_bind_def py_then_def py_modify_def py_rprint_def rprint_args_def
      fold_rprint_procs)

lemma frames_sync_entry [simp]: "frames main_writes (sync_entry kw)"
  by (simp add: sync_entry_def)

lemma main_writes_uncaught: "main_writes w w' \<Longrightarrow> main_effect w (uncaught e w')"
  by (auto simp: main_writes_def main_effect_def uncaught_def env_of_def)

lemma main_step_cases:
  assumes "main_step cfg s = Some s'"
  shows "main_effect (sys_world s) (sys_world s') \<and>
         (threads s' = threads s \<or> (\<exists>kw. threads s' = threads s @ [(kw, R_Start kw)]))"
proof -
  note mp = framesD [OF frames_main_prelude] and se = framesD [OF frames_sync_entry]
  show ?thesis
  proof (cases "main s")
    case M_Start
    with assms show ?thesis
      by (auto simp: main_writes_uncaught main_writes_effect dest: mp split: prod.splits sum.splits)
  next
    case (M_Dispatch rest)
    with assms show ?thesis
      by (cases rest) (auto simp: main_writes_uncaught main_writes_effect dest: se split: prod.splits sum.splits)
  next
    case (M_Join j)
    with assms show ?thesis by (auto simp: main_writes_effect reflpD split: if_splits)
  next
    case (M_Exit c)
    with assms show ?thesis by simp
  qed
qed

lemma sys_next_step: "sys_next cfg x s = Some s' \<Longrightarrow> sys_step cfg s s'"
proof (cases x)
  case SMain
  then show "sys_next cfg x s = Some s' \<Longrightarrow> sys_step cfg s s'" by (simp add: main_sys_step)
next
  case (SRunner i)
  then show "sys_next cfg x s = Some s' \<Longrightarrow> sys_step cfg s s'"
    by (auto split: if_splits prod.splits intro: runner_sys_step)
qed

lemma run_sched_reachable:
  "run_sched cfg xs s = Some s' \<Longrightarrow> reachable cfg w0 s \<Longrightarrow> reachable cfg w0 s'"
proof (induction xs arbitrary: s)
  case (Cons x xs)
  then obtain s1 where n: "sys_next cfg x s = Some s1" and r: "run_sched cfg xs s1 = Some s'"
    by (auto split: option.splits)
  from n have "sys_step cfg s s1" by (rule sys_next_step)
  with Cons.prems(2) have "reachable cfg w0 s1" by (rule reach_step)
  with Cons.IH r show ?case by blast
qed simp

lemma run_sched_relpowp:
  "run_sched cfg xs s = Some s' \<Longrightarrow> (sys_step cfg ^^ length xs) s s'"
proof (induction xs arbitrary: s)
  case (Cons x xs)
  then obtain s1 where n: "sys_next cfg x s = Some s1" and r: "run_sched cfg xs s1 = Some s'"
    by (auto split: option.splits)
  from n have "sys_step cfg s s1" by (rule sys_next_step)
  from this Cons.IH [OF r] have "(sys_step cfg ^^ Suc (length xs)) s s'" by (rule relpowp_Suc_I2)
  then show ?case by simp
qed simp

text \<open>
  C24: The start of \<open>main\<close> (lines 96--107). With the network reachable, the
  IP check succeeds and the main thread prints, in order, the server address,
  the number of configured entries, and one line per entry with its tag and
  directory (or \<open>[Unknown]\<close> and \<open>No Directory\<close>), the \<open>rich\<close> labels rendered
  as \<open>[Loader][INFO]\<close>.
\<close>

theorem main_prelude_output:
  assumes "online w"
  shows "fst (main_prelude cfg w) = Inr ()
       \<and> stdout (snd (main_prelude cfg w)) = stdout w @
           [(Main, ''[Loader][INFO] Server IP: '' @ render_markup (public_ip w) @ ''\<newline>''),
            (Main, ''[Loader][INFO] Loading '' @ show_nat (length cfg) @ '' bot(s)\<newline>'')] @
           map (\<lambda>kw. (Main, ''[Loader][INFO]   -  '' @ render_markup (py_str (dict_get kw ''tag'' (PStr ''[Unknown]'')) @
                     '' - '' @ py_str (dict_get kw ''dir'' (PStr ''No Directory''))) @ ''\<newline>'')) cfg"
proof -
  have n: "CHR ''['' \<notin> set (show_nat n)" for n
    by (rule show_nat_no_bracket)
  show ?thesis
    using assms
    by (simp add: main_prelude_def ip_get_def py_bind_def py_then_def py_modify_def py_rprint_def rprint_args_def
        rprint_def fold_rprint_stdout listing_msg_def render_markup_labels render_markup_plain n)
qed

theorem main_prelude_output_witness:
  "online (empty_world\<lparr>online := True, public_ip := ''203.0.113.7''\<rparr>)
   \<and> stdout (snd (main_prelude bot_info (empty_world\<lparr>online := True, public_ip := ''203.0.113.7''\<rparr>))) =
     [(Main, ''[Loader][INFO] Server IP: 203.0.113.7\<newline>''), (Main, ''[Loader][INFO] Loading 1 bot(s)\<newline>''),
      (Main, ''[Loader][INFO]   -  [Taiga] - Taiga\<newline>'')]"
proof -
  have o: "online (empty_world\<lparr>online := True, public_ip := ''203.0.113.7''\<rparr>)" by simp
  from main_prelude_output [OF o, of bot_info] o show ?thesis
    by (simp add: empty_world_def bot_info_def dict_get_def show_nat.simps hex_digit_def markup_tag_def tag_start_def)
qed



text \<open>
  C25: Configuration values reach \<open>rich\<close> unescaped (line 106). For every
  entry whose tag is a bracketed word that \<open>rich\<close> reads as a style (such as
  \<open>[bot]\<close> or \<open>[#ff0000]\<close>), the listing line of that entry shows no tag at all:
  the tag is consumed as markup and the line reads \<open>[Loader][INFO]   -   - dir\<close>.
\<close>

theorem listing_markup_injection:
  assumes "online w" "kw \<in> set cfg" "map_of kw ''tag'' = Some (PStr (CHR ''['' # c # v @ '']''))" "tag_start c" "c \<noteq> CHR ''/''"
    "CHR ''['' \<notin> set v" "CHR '']'' \<notin> set v" "map_of kw ''dir'' = Some (PStr d)" "CHR ''['' \<notin> set d"
  shows "(Main, ''[Loader][INFO]   -   - '' @ d @ ''\<newline>'') \<in> set (stdout (snd (main_prelude cfg w)))"
proof -
  have o: "stdout (snd (main_prelude cfg w)) = stdout w @
             [(Main, render_markup (cli_loader @ cli_info @ '' Server IP:'') @ '' '' @ render_markup (public_ip w) @ ''\<newline>''),
              (Main, render_markup (cli_loader @ cli_info @ '' Loading '' @ show_nat (length cfg) @ '' bot(s)'') @ ''\<newline>'')] @
             map (\<lambda>kw. (Main, render_markup (listing_msg kw) @ ''\<newline>'')) cfg"
    using assms(1) by (simp add: main_prelude_def ip_get_def py_bind_def py_then_def py_modify_def py_rprint_def
        rprint_args_def rprint_def fold_rprint_stdout)
  have t: "render_markup (CHR ''['' # c # v @ CHR '']'' # '' - '' @ d) = '' - '' @ d"
    using render_markup_style [OF assms(4) assms(6,7), of "'' - '' @ d"] assms(9) by (simp add: render_markup_plain)
  have m: "listing_msg kw = cli_loader @ cli_info @ ''   -  '' @ CHR ''['' # c # v @ CHR '']'' # '' - '' @ d"
    using assms(3,8) by (simp add: listing_msg_def dict_get_def)
  have "render_markup (listing_msg kw) = ''[Loader][INFO]   -   - '' @ d"
    unfolding m render_markup_labels using t by (simp add: render_markup_append_plain)
  with o assms(2) show ?thesis by force
qed

theorem listing_markup_injection_witness:
  "(Main, ''[Loader][INFO]   -   - bot\<newline>'')
     \<in> set (stdout (snd (main_prelude [[(''dir'', PStr ''bot''), (''start'', PStr ''main.py''), (''tag'', PStr ''[bot]'')]]
                (empty_world\<lparr>online := True\<rparr>))))"
proof -
  have h: "online (empty_world\<lparr>online := True\<rparr>)"
    "[(''dir'', PStr ''bot''), (''start'', PStr ''main.py''), (''tag'', PStr ''[bot]'')]
       \<in> set [[(''dir'', PStr ''bot''), (''start'', PStr ''main.py''), (''tag'', PStr ''[bot]'')]]"
    "map_of [(''dir'', PStr ''bot''), (''start'', PStr ''main.py''), (''tag'', PStr ''[bot]'')] ''tag''
       = Some (PStr (CHR ''['' # CHR ''b'' # ''ot'' @ '']''))"
    "tag_start (CHR ''b'')" "CHR ''b'' \<noteq> CHR ''/''" "CHR ''['' \<notin> set ''ot''" "CHR '']'' \<notin> set ''ot''"
    "map_of [(''dir'', PStr ''bot''), (''start'', PStr ''main.py''), (''tag'', PStr ''[bot]'')] ''dir'' = Some (PStr ''bot'')"
    "CHR ''['' \<notin> set ''bot''"
    by (simp_all add: tag_start_def)
  from listing_markup_injection [OF h] show ?thesis by simp
qed

end
