(* ===== verification/System.thy ===== *)
theory System
  imports Supervisor
begin

text \<open>
  The properties of the whole supervisor: an invariant of the reachable states
  proved by rule induction over \<open>reachable\<close> (the console as seen by each
  runner, the runners started in configuration order, the main thread's
  progress), a ranking function that every step decreases, and from them the
  per-child order of the console, termination, completion, the final notice,
  and the behaviour on errors of the main thread. Two further invariants bound
  what reaches standard error (\<open>reported_exc\<close>) and which processes are
  started (\<open>procs_within\<close>).
\<close>

section \<open>The invariant\<close>

text \<open>
  What the main thread's program point says about the threads started: none
  before the dispatch loop; one per dispatched entry, in order; all of them
  while joining, the first \<open>j\<close> done; when the main thread has returned, all of
  them, done.
\<close>

fun main_inv :: "pydict list \<Rightarrow> mstate \<Rightarrow> (pydict \<times> rstate) list \<Rightarrow> bool" where
  "main_inv cfg M_Start ts \<longleftrightarrow> ts = []"
| "main_inv cfg (M_Dispatch rest) ts \<longleftrightarrow> map fst ts @ rest = cfg"
| "main_inv cfg (M_Join j) ts \<longleftrightarrow> map fst ts = cfg \<and> j \<le> length ts \<and> (\<forall>i<j. snd (ts ! i) = R_Done)"
| "main_inv cfg (M_Exit c) ts \<longleftrightarrow> prefix (map fst ts) cfg \<and> (c = 0 \<longrightarrow> map fst ts = cfg \<and> (\<forall>t\<in>set ts. snd t = R_Done))"

text \<open>
  The invariant: the environment is the initial one; no thread not yet started
  has written; what each runner has written, followed by what it still owes, is
  a prefix of its transcript in the initial world.
\<close>

definition sys_inv :: "pydict list \<Rightarrow> world \<Rightarrow> sys \<Rightarrow> bool" where
  "sys_inv cfg w0 s \<longleftrightarrow>
     env_of (sys_world s) = env_of w0
   \<and> (\<forall>j\<ge>length (threads s). proj (Runner j) (stdout (sys_world s)) = [])
   \<and> (\<forall>i<length (threads s). prefix (proj (Runner i) (stdout (sys_world s)) @ owed (sys_world s) (snd (threads s ! i)))
                                    (transcript w0 (fst (threads s ! i))))
   \<and> main_inv cfg (main s) (threads s)"

lemma main_inv_prefix: "main_inv cfg m ts \<Longrightarrow> prefix (map fst ts) cfg"
  by (cases m) auto

lemma sys_inv_init: "sys_inv cfg w0 (sys0 w0)"
  by (simp add: sys_inv_def sys0_def proj_def env_of_def)

lemma main_inv_step:
  assumes "main_inv cfg (main s) (threads s)" "main_step cfg s = Some s'"
  shows "main_inv cfg (main s') (threads s')"
proof (cases "main s")
  case M_Start
  with assms show ?thesis by (auto split: prod.splits sum.splits)
next
  case (M_Dispatch rest)
  with assms show ?thesis by (cases rest) (auto split: prod.splits sum.splits intro: prefixI)
next
  case (M_Join j)
  with assms show ?thesis
    by (auto simp: less_Suc_eq all_set_conv_all_nth split: if_splits)
next
  case (M_Exit c)
  with assms show ?thesis by simp
qed

lemma main_inv_runner:
  assumes "main_inv cfg m ts" "i < length ts" "ts ! i = (kw, st)" "st \<noteq> R_Done"
  shows "main_inv cfg m (ts[i := (kw, st')])"
proof -
  have f: "map fst (ts[i := (kw, st')]) = map fst ts"
    using assms(2,3) by (metis fst_conv list_update_id map_update)
  show ?thesis
  proof (cases m)
    case (M_Join j)
    with assms have "j \<le> i" by (metis main_inv.simps(3) not_le snd_conv)
    with assms M_Join f show ?thesis by (auto simp: nth_list_update)
  next
    case (M_Exit c)
    with assms show ?thesis using f by (cases "c = 0") (auto simp: all_set_conv_all_nth)
  qed (use assms f in auto)
qed

lemma sys_inv_runner:
  assumes inv: "sys_inv cfg w0 s" and i: "i < length (threads s)" and t: "threads s ! i = (kw, st)"
    and r: "runner_step i st (sys_world s) = Some (st', w')"
  shows "sys_inv cfg w0 (s\<lparr>threads := (threads s)[i := (kw, st')], sys_world := w'\<rparr>)"
proof -
  let ?w = "sys_world s" and ?ts = "threads s"
  obtain xs where out: "stdout w' = stdout ?w @ map (Pair (Runner i)) xs"
    and pre: "prefix (xs @ owed w' st') (owed ?w st)"
    using runner_step_writes [OF r] by blast
  have env: "env_of w' = env_of ?w" by (rule runner_step_env [OF r])
  have nd: "st \<noteq> R_Done" using r by auto
  have "prefix (proj (Runner k) (stdout w') @ owed w' (snd (?ts[i := (kw, st')] ! k))) (transcript w0 (fst (?ts[i := (kw, st')] ! k)))"
    if k: "k < length ?ts" for k
  proof (cases "k = i")
    case True
    have "prefix (proj (Runner i) (stdout ?w) @ xs @ owed w' st') (proj (Runner i) (stdout ?w) @ owed ?w st)"
      using pre by simp
    moreover have "prefix (proj (Runner i) (stdout ?w) @ owed ?w st) (transcript w0 kw)"
      using inv i t unfolding sys_inv_def by (metis fst_conv snd_conv)
    ultimately have "prefix (proj (Runner i) (stdout ?w) @ xs @ owed w' st') (transcript w0 kw)"
      by (rule prefix_order.trans)
    with True i out show ?thesis by simp
  next
    case False
    have "owed w' (snd (?ts ! k)) = owed ?w (snd (?ts ! k))" by (rule owed_env [OF env])
    moreover have "proj (Runner k) (stdout w') = proj (Runner k) (stdout ?w)" using out False by simp
    moreover have "prefix (proj (Runner k) (stdout ?w) @ owed ?w (snd (?ts ! k))) (transcript w0 (fst (?ts ! k)))"
      using inv k unfolding sys_inv_def by blast
    ultimately show ?thesis using False by simp
  qed
  moreover have "main_inv cfg (main s) (?ts[i := (kw, st')])"
    using main_inv_runner inv i t nd unfolding sys_inv_def by blast
  moreover have "env_of w' = env_of w0" using inv env by (simp add: sys_inv_def)
  moreover have "proj (Runner j) (stdout w') = []" if "length ?ts \<le> j" for j
    using inv i out that unfolding sys_inv_def by auto
  ultimately show ?thesis unfolding sys_inv_def by simp
qed

lemma sys_inv_main:
  assumes inv: "sys_inv cfg w0 s" and m: "main_step cfg s = Some s'"
  shows "sys_inv cfg w0 s'"
proof -
  let ?w = "sys_world s" and ?w' = "sys_world s'" and ?ts = "threads s"
  have mw: "main_effect ?w ?w'" and ts: "threads s' = ?ts \<or> (\<exists>kw. threads s' = ?ts @ [(kw, R_Start kw)])"
    using main_step_cases [OF m] by blast+
  have env: "env_of ?w' = env_of ?w" by (rule main_effect_env [OF mw])
  have pj: "proj (Runner j) (stdout ?w') = proj (Runner j) (stdout ?w)" for j
    by (rule main_effect_proj(1) [OF mw])
  have old: "prefix (proj (Runner k) (stdout ?w') @ owed ?w' (snd (?ts ! k))) (transcript w0 (fst (?ts ! k)))"
    if "k < length ?ts" for k
    using inv that unfolding sys_inv_def pj owed_env [OF env] by blast
  have "prefix (proj (Runner k) (stdout ?w') @ owed ?w' (snd (threads s' ! k))) (transcript w0 (fst (threads s' ! k)))"
    if k: "k < length (threads s')" for k
    using ts
  proof
    assume "threads s' = ?ts" with old k show ?thesis by simp
  next
    assume "\<exists>kw. threads s' = ?ts @ [(kw, R_Start kw)]"
    then obtain kw where t': "threads s' = ?ts @ [(kw, R_Start kw)]" by blast
    show ?thesis
    proof (cases "k < length ?ts")
      case True with old t' show ?thesis by (simp add: nth_append)
    next
      case False
      with k t' have "k = length ?ts" by simp
      moreover have "transcript ?w' kw = transcript w0 kw"
        using inv env transcript_env unfolding sys_inv_def by (metis)
      ultimately show ?thesis using inv t' pj unfolding sys_inv_def by (simp add: owed_def)
    qed
  qed
  moreover have "proj (Runner j) (stdout ?w') = []" if "length (threads s') \<le> j" for j
    using inv ts that pj unfolding sys_inv_def by auto
  moreover have "env_of ?w' = env_of w0" using inv env by (simp add: sys_inv_def)
  moreover have "main_inv cfg (main s') (threads s')"
    using main_inv_step inv m unfolding sys_inv_def by blast
  ultimately show ?thesis unfolding sys_inv_def by blast
qed

lemma sys_inv_step: "sys_inv cfg w0 s \<Longrightarrow> sys_step cfg s s' \<Longrightarrow> sys_inv cfg w0 s'"
  by (erule sys_step.cases) (auto intro: sys_inv_main sys_inv_runner)

lemma reachable_inv: "reachable cfg w0 s \<Longrightarrow> sys_inv cfg w0 s"
  by (induction rule: reachable.induct) (auto intro: sys_inv_init sys_inv_step)

section \<open>Standard error and the completeness of the console\<close>

text \<open>
  A second invariant: every runner has written, followed by what it still
  owes, exactly its transcript, unless it has ended with an exception on
  standard error; and the main thread has reported an exception exactly when it
  ended with status 1, the only statuses being 0 and 1.
\<close>

lemma main_step_stderr:
  assumes "main_step cfg s = Some s'"
  shows "(main s' = M_Exit 1 \<and> (\<exists>e. stderr (sys_world s') = stderr (sys_world s) @ [(Main, e)]))
       \<or> (main s' \<noteq> M_Exit 1 \<and> stderr (sys_world s') = stderr (sys_world s))"
proof -
  have mp: "main_prelude cfg w = (r, w') \<Longrightarrow> stderr w' = stderr w" for w r w'
    using framesD [OF frames_main_prelude] by (auto simp: main_writes_def)
  have se: "sync_entry kw w = (r, w') \<Longrightarrow> stderr w' = stderr w" for kw w r w'
    using framesD [OF frames_sync_entry] by (auto simp: main_writes_def)
  show ?thesis
  proof (cases "main s")
    case M_Start
    with assms show ?thesis by (auto simp: uncaught_def dest: mp split: prod.splits sum.splits)
  next
    case (M_Dispatch rest)
    with assms show ?thesis by (cases rest) (auto simp: uncaught_def dest: se split: prod.splits sum.splits)
  next
    case (M_Join j)
    with assms show ?thesis by (auto split: if_splits)
  qed (use assms in simp)
qed

definition out_inv :: "pydict list \<Rightarrow> world \<Rightarrow> sys \<Rightarrow> bool" where
  "out_inv cfg w0 s \<longleftrightarrow>
     (\<forall>i<length (threads s).
        proj (Runner i) (stdout (sys_world s)) @ owed (sys_world s) (snd (threads s ! i)) = transcript w0 (fst (threads s ! i))
      \<or> snd (threads s ! i) = R_Done \<and> proj (Runner i) (stderr (sys_world s)) \<noteq> [])
   \<and> (proj Main (stderr (sys_world s)) = [] \<longleftrightarrow> main s \<noteq> M_Exit 1)
   \<and> (\<forall>c. main s = M_Exit c \<longrightarrow> c = 0 \<or> c = 1)"

lemma out_inv_init: "out_inv cfg w0 (sys0 w0)"
  by (simp add: out_inv_def sys0_def proj_def)

lemma main_step_exit:
  "main_step cfg s = Some s' \<Longrightarrow> main s' = M_Exit c \<Longrightarrow> c = 0 \<or> c = 1"
  by (cases "main s") (auto split: prod.splits sum.splits list.splits if_splits)

lemma out_inv_main:
  assumes inv: "sys_inv cfg w0 s" and oi: "out_inv cfg w0 s" and m: "main_step cfg s = Some s'"
  shows "out_inv cfg w0 s'"
proof -
  let ?w = "sys_world s" and ?w' = "sys_world s'" and ?ts = "threads s"
  have mw: "main_effect ?w ?w'" and ts: "threads s' = ?ts \<or> (\<exists>kw. threads s' = ?ts @ [(kw, R_Start kw)])"
    using main_step_cases [OF m] by blast+
  have env: "env_of ?w' = env_of ?w" by (rule main_effect_env [OF mw])
  note pj = main_effect_proj [OF mw]
  have old: "proj (Runner k) (stdout ?w') @ owed ?w' (snd (?ts ! k)) = transcript w0 (fst (?ts ! k))
      \<or> snd (?ts ! k) = R_Done \<and> proj (Runner k) (stderr ?w') \<noteq> []" if "k < length ?ts" for k
    using oi that unfolding out_inv_def pj owed_env [OF env] by blast
  have threads_ok: "proj (Runner k) (stdout ?w') @ owed ?w' (snd (threads s' ! k)) = transcript w0 (fst (threads s' ! k))
      \<or> snd (threads s' ! k) = R_Done \<and> proj (Runner k) (stderr ?w') \<noteq> []" if k: "k < length (threads s')" for k
    using ts
  proof
    assume "threads s' = ?ts" with old k show ?thesis by simp
  next
    assume "\<exists>kw. threads s' = ?ts @ [(kw, R_Start kw)]"
    then obtain kw where t': "threads s' = ?ts @ [(kw, R_Start kw)]" by blast
    show ?thesis
    proof (cases "k < length ?ts")
      case True with old t' show ?thesis by (simp add: nth_append)
    next
      case False
      with k t' have "k = length ?ts" by simp
      moreover have "transcript ?w' kw = transcript w0 kw"
        using inv env transcript_env unfolding sys_inv_def by metis
      ultimately show ?thesis using inv t' pj unfolding sys_inv_def by (simp add: owed_def)
    qed
  qed
  have "proj Main (stderr ?w') = [] \<longleftrightarrow> main s' \<noteq> M_Exit 1"
  proof -
    have "main s \<noteq> M_Exit 1" using m by auto
    with main_step_stderr [OF m] oi show ?thesis by (auto simp: out_inv_def)
  qed
  moreover have "\<forall>c. main s' = M_Exit c \<longrightarrow> c = 0 \<or> c = 1" using main_step_exit [OF m] by blast
  ultimately show ?thesis using threads_ok unfolding out_inv_def by blast
qed

lemma out_inv_runner:
  assumes oi: "out_inv cfg w0 s" and i: "i < length (threads s)" and t: "threads s ! i = (kw, st)"
    and r: "runner_step i st (sys_world s) = Some (st', w')"
  shows "out_inv cfg w0 (s\<lparr>threads := (threads s)[i := (kw, st')], sys_world := w'\<rparr>)"
proof -
  let ?w = "sys_world s" and ?ts = "threads s"
  obtain xs where out: "stdout w' = stdout ?w @ map (Pair (Runner i)) xs" and o: "runner_outcome i ?w st w' st' xs"
    using runner_step_outcome [OF r] by blast
  have env: "env_of w' = env_of ?w" by (rule runner_step_env [OF r])
  have nd: "st \<noteq> R_Done" using r by auto
  have err: "\<exists>ys. stderr w' = stderr ?w @ map (Pair (Runner i)) ys" using o unfolding runner_outcome_def
    by (metis append_Nil2 list.simps(8) list.simps(9))
  then obtain ys where ys: "stderr w' = stderr ?w @ map (Pair (Runner i)) ys" by blast
  have "proj (Runner k) (stdout w') @ owed w' (snd (?ts[i := (kw, st')] ! k)) = transcript w0 (fst (?ts[i := (kw, st')] ! k))
      \<or> snd (?ts[i := (kw, st')] ! k) = R_Done \<and> proj (Runner k) (stderr w') \<noteq> []" if k: "k < length ?ts" for k
  proof (cases "k = i")
    case True
    from oi i t nd have eq: "proj (Runner i) (stdout ?w) @ owed ?w st = transcript w0 kw"
      unfolding out_inv_def by (metis fst_conv snd_conv)
    from o show ?thesis unfolding runner_outcome_def
    proof
      assume "xs @ owed w' st' = owed ?w st \<and> stderr w' = stderr ?w"
      with eq True i out show ?thesis by simp
    next
      assume "st' = R_Done \<and> prefix xs (owed ?w st) \<and> (\<exists>e. stderr w' = stderr ?w @ [(Runner i, e)])"
      with True i show ?thesis by auto
    qed
  next
    case False
    have "owed w' (snd (?ts ! k)) = owed ?w (snd (?ts ! k))" by (rule owed_env [OF env])
    moreover have "proj (Runner k) (stdout w') = proj (Runner k) (stdout ?w)" using out False by simp
    moreover have "proj (Runner k) (stderr w') = proj (Runner k) (stderr ?w)" using ys False by simp
    moreover have "proj (Runner k) (stdout ?w) @ owed ?w (snd (?ts ! k)) = transcript w0 (fst (?ts ! k))
      \<or> snd (?ts ! k) = R_Done \<and> proj (Runner k) (stderr ?w) \<noteq> []"
      using oi k unfolding out_inv_def by blast
    ultimately show ?thesis using False by simp
  qed
  moreover have "proj Main (stderr w') = proj Main (stderr ?w)" using ys by simp
  ultimately show ?thesis using oi i unfolding out_inv_def by simp
qed

lemma reachable_out_inv: "reachable cfg w0 s \<Longrightarrow> out_inv cfg w0 s"
proof (induction rule: reachable.induct)
  case reach_init then show ?case by (rule out_inv_init)
next
  case (reach_step s s')
  from reach_step.hyps(2) show ?case
  proof cases
    case main_sys_step
    with reachable_inv [OF reach_step.hyps(1)] reach_step.IH show ?thesis by (blast intro: out_inv_main)
  next
    case (runner_sys_step i kw st st' w')
    with reach_step.IH show ?thesis by (blast intro: out_inv_runner)
  qed
qed

section \<open>The exceptions on standard error\<close>

text \<open>
  Every step appends at most one entry to standard error, an exception of
  the thread that took it that \<open>reported_exc\<close> allows.
\<close>

lemma runner_step_reported:
  assumes "runner_step i st w = Some (st', w')"
  shows "stderr w' = stderr w \<or> (\<exists>e. stderr w' = stderr w @ [(Runner i, e)] \<and> reported_exc (Runner i) e)"
proof (cases st)
  case (R_Start kw)
  show ?thesis
  proof (cases "runfile_setup kw")
    case (Inl e)
    with R_Start assms show ?thesis by (auto dest: runfile_setup_TypeError)
  next
    case (Inr l)
    with R_Start assms show ?thesis
      by (auto simp: Let_def cwd_error_def rprint_def split: option.splits node.splits)
  qed
next
  case (R_Relay tg fp ls)
  with assms show ?thesis by (cases ls) (auto simp: rprint_def write_out_def)
qed (use assms in \<open>auto simp: write_out_def\<close>)

lemma main_step_reported:
  assumes "main_step cfg s = Some s'"
  shows "stderr (sys_world s') = stderr (sys_world s)
       \<or> (\<exists>e. stderr (sys_world s') = stderr (sys_world s) @ [(Main, e)] \<and> reported_exc Main e)"
proof -
  have mp: "main_prelude cfg w = (r, w') \<Longrightarrow> stderr w' = stderr w \<and> (\<forall>e. r = Inl e \<longrightarrow> reported_exc Main e)"
    for w r w'
    using framesD [OF frames_main_prelude] raises_onlyD [OF raises_only_main_prelude]
    by (fastforce simp: main_writes_def)
  have se: "sync_entry kw w = (r, w') \<Longrightarrow> stderr w' = stderr w \<and> (\<forall>e. r = Inl e \<longrightarrow> reported_exc Main e)"
    for kw w r w'
    using framesD [OF frames_sync_entry] raises_onlyD [OF raises_only_sync_entry]
    by (fastforce simp: main_writes_def)
  show ?thesis
  proof (cases "main s")
    case M_Start
    with assms show ?thesis by (auto simp: uncaught_def dest: mp split: prod.splits sum.splits)
  next
    case (M_Dispatch rest)
    with assms show ?thesis by (cases rest) (auto simp: uncaught_def dest: se split: prod.splits sum.splits)
  next
    case (M_Join j)
    with assms show ?thesis by (auto simp: rprint_def split: if_splits)
  qed (use assms in simp)
qed

text \<open>
  C27: The exceptions of the whole loader. In every reachable state, each
  entry of standard error is an exception its thread may raise: the main
  thread's come from the IP check, a missing or ill-typed key, a checked git
  command other than the pull, or the directory; a runner's from \<open>runfile\<close>'s
  arguments or its spawn; a git child reports none.
\<close>

theorem reported_exceptions:
  "reachable cfg w0 s \<Longrightarrow> (k, e) \<in> set (stderr (sys_world s)) \<Longrightarrow> reported_exc k e"
proof (induction arbitrary: k e rule: reachable.induct)
  case reach_init
  then show ?case by (simp add: sys0_def)
next
  case (reach_step s s')
  from reach_step.hyps(2) show ?case
  proof cases
    case main_sys_step
    from main_step_reported [OF this] reach_step.IH reach_step.prems show ?thesis by auto
  next
    case (runner_sys_step i kw st st' w')
    from runner_step_reported [OF runner_sys_step(4)] runner_sys_step(1) reach_step.IH reach_step.prems
    show ?thesis by auto
  qed
qed

theorem reported_exceptions_witness:
  "reachable [[(''github'', PStr ex_url)]] ex_online (the (run_sched [[(''github'', PStr ex_url)]] [SMain, SMain] (sys0 ex_online)))
   \<and> stderr (sys_world (the (run_sched [[(''github'', PStr ex_url)]] [SMain, SMain] (sys0 ex_online)))) = [(Main, KeyError ''dir'')]
   \<and> reported_exc Main (KeyError ''dir'')"
proof -
  let ?c = "[[(''github'', PStr ex_url)]]"
  let ?s = "the (run_sched ?c [SMain, SMain] (sys0 ex_online))"
  have run: "run_sched ?c [SMain, SMain] (sys0 ex_online) = Some ?s"
    by (simp add: sys0_def empty_world_def main_prelude_def ip_get_def pyio_simps py_rprint_def)
  have r: "reachable ?c ex_online ?s" by (rule run_sched_reachable [OF run reach_init])
  have e: "stderr (sys_world ?s) = [(Main, KeyError ''dir'')]"
    by (simp add: sys0_def empty_world_def main_prelude_def ip_get_def pyio_simps py_rprint_def sync_entry_def
        dict_has_def dict_index_def uncaught_def py_lift_def py_bind_def rprint_args_def)
  from reported_exceptions [OF r, of Main "KeyError ''dir''"] r e show ?thesis by simp
qed

section \<open>The processes the loader starts\<close>

lemma runner_step_procs:
  assumes "runner_step i st w = Some (st', w')"
  shows "procs w' = procs w
       \<or> (\<exists>kw l. st = R_Start kw \<and> runfile_setup kw = Inr l \<and> procs w' = procs w @ [(Some (l_cwd l), l_argv l)])"
proof (cases st)
  case (R_Start kw)
  with assms show ?thesis
    by (cases "runfile_setup kw") (auto simp: Let_def split: option.splits)
next
  case (R_Relay tg fp ls)
  with assms show ?thesis by (cases ls) auto
qed (use assms in auto)

lemma main_step_procs:
  assumes "main_inv cfg (main s) (threads s)" "main_step cfg s = Some s'"
  shows "procs_within (\<lambda>p. \<exists>kw\<in>set cfg. entry_proc kw p) (sys_world s) (sys_world s')"
proof (cases "main s")
  case M_Start
  obtain r w' where mp: "main_prelude cfg (sys_world s) = (r, w')" by fastforce
  have "procs w' = procs (sys_world s)" using main_prelude_procs [of cfg "sys_world s"] mp by simp
  with M_Start assms(2) mp show ?thesis by (cases r) (auto simp: uncaught_def)
next
  case (M_Dispatch rest)
  show ?thesis
  proof (cases rest)
    case (Cons kw rest')
    with M_Dispatch assms(1) have k: "kw \<in> set cfg" by auto
    obtain r w' where se: "sync_entry kw (sys_world s) = (r, w')" by fastforce
    have "procs_within (entry_proc kw) (sys_world s) w'" by (rule framesD [OF frames_sync_entry_procs se])
    then have "procs_within (\<lambda>p. \<exists>kw\<in>set cfg. entry_proc kw p) (sys_world s) w'"
      by (rule procs_within_mono) (use k in blast)
    with M_Dispatch Cons assms(2) se show ?thesis
      by (cases r) (auto simp: uncaught_def procs_within_def)
  qed (use M_Dispatch assms(2) in auto)
qed (use assms(2) in \<open>auto split: if_splits\<close>)

lemma runner_step_not_start: "runner_step i st w = Some (st', w') \<Longrightarrow> st' \<noteq> R_Start k"
proof (cases st)
  case (R_Relay tg fp ls)
  then show "runner_step i st w = Some (st', w') \<Longrightarrow> st' \<noteq> R_Start k" by (cases ls) auto
qed (auto split: sum.splits option.splits simp: Let_def)




fun is_start :: "rstate \<Rightarrow> bool" where
  "is_start (R_Start kw) = True"
| "is_start _ = False"

lemma runner_step_launches:
  assumes "runner_step i st w = Some (st', w')"
  shows "length (filter (\<lambda>p. take 1 (snd p) = [sys_executable]) (procs w'))
       \<le> length (filter (\<lambda>p. take 1 (snd p) = [sys_executable]) (procs w)) + (if is_start st then 1 else 0)"
  using runner_step_procs [OF assms] by auto

lemma main_step_launches:
  assumes "main_inv cfg (main s) (threads s)" "main_step cfg s = Some s'"
  shows "filter (\<lambda>p. take 1 (snd p) = [sys_executable]) (procs (sys_world s'))
       = filter (\<lambda>p. take 1 (snd p) = [sys_executable]) (procs (sys_world s))"
proof -
  from main_step_procs [OF assms] obtain xs where x: "procs (sys_world s') = procs (sys_world s) @ xs"
    and e: "\<forall>p\<in>set xs. \<exists>kw\<in>set cfg. entry_proc kw p" by (auto simp: procs_within_def)
  from e have "filter (\<lambda>p. take 1 (snd p) = [sys_executable]) xs = []"
    by (auto simp: filter_empty_conv entry_proc_def sys_executable_def)
  with x show ?thesis by simp
qed

text \<open>
  C31: No restart (spec 4.3). The number of programs the runners have launched
  never exceeds the number of runner threads that have left their start, and
  that number never exceeds the number of configured entries: each entry's
  program is launched at most once, and a child that exits is not relaunched.
\<close>

theorem no_restart:
  assumes "reachable cfg w0 s"
  shows "length (filter (\<lambda>p. take 1 (snd p) = [sys_executable]) (procs (sys_world s)))
           \<le> length (filter (\<lambda>t. \<not> is_start (snd t)) (threads s))
       \<and> length (filter (\<lambda>t. \<not> is_start (snd t)) (threads s)) \<le> length cfg"
  using assms
proof (induction rule: reachable.induct)
  case reach_init
  then show ?case by (simp add: sys0_def)
next
  case (reach_step s s')
  have mi: "main_inv cfg (main s) (threads s)" using reachable_inv [OF reach_step.hyps(1)] by (simp add: sys_inv_def)
  have "prefix (map fst (threads s')) cfg"
    using reachable_inv [OF reachable.reach_step [OF reach_step.hyps]] by (auto simp: sys_inv_def intro: main_inv_prefix)
  then have c: "length (filter (\<lambda>t. \<not> is_start (snd t)) (threads s')) \<le> length cfg"
    by (metis length_filter_le length_map order_trans prefix_length_le)
  from reach_step.hyps(2) have "length (filter (\<lambda>p. take 1 (snd p) = [sys_executable]) (procs (sys_world s')))
           \<le> length (filter (\<lambda>t. \<not> is_start (snd t)) (threads s'))"
  proof cases
    case main_sys_step
    from main_step_cases [OF this] have "filter (\<lambda>t. \<not> is_start (snd t)) (threads s') = filter (\<lambda>t. \<not> is_start (snd t)) (threads s)"
      by auto
    with main_step_launches [OF mi main_sys_step] reach_step.IH show ?thesis by simp
  next
    case (runner_sys_step i kw st st' w')
    have ns: "\<not> is_start st'" using runner_step_not_start [OF runner_sys_step(4)] by (cases st') auto
    from length_filter_update [OF runner_sys_step(2), of "\<lambda>t. \<not> is_start (snd t)" "(kw, st')"] runner_sys_step(3) ns
    have "length (filter (\<lambda>t. \<not> is_start (snd t)) (threads s')) =
            length (filter (\<lambda>t. \<not> is_start (snd t)) (threads s)) + (if is_start st then 1 else 0)"
      using runner_sys_step(1) by auto
    with runner_step_launches [OF runner_sys_step(4)] reach_step.IH runner_sys_step(1) show ?thesis by simp
  qed
  with c show ?case by simp
qed


section \<open>Termination and progress\<close>

text \<open>
  The rank of a state bounds the number of steps left: the main thread's
  remaining steps plus the ranks of the runners it has still to start, and the
  ranks of the started runners. It is computed in the initial world, whose
  environment every reachable state keeps.
\<close>

definition entries_rank :: "world \<Rightarrow> pydict list \<Rightarrow> nat" where
  "entries_rank w kws = sum_list (map (\<lambda>kw. Suc (runner_rank w (R_Start kw))) kws)"

fun main_rank :: "pydict list \<Rightarrow> world \<Rightarrow> nat \<Rightarrow> mstate \<Rightarrow> nat" where
  "main_rank cfg w n M_Start = entries_rank w cfg + length cfg + 3"
| "main_rank cfg w n (M_Dispatch rest) = entries_rank w rest + length cfg + 2"
| "main_rank cfg w n (M_Join j) = Suc (n - j)"
| "main_rank cfg w n (M_Exit c) = 0"

definition sys_rank :: "pydict list \<Rightarrow> world \<Rightarrow> sys \<Rightarrow> nat" where
  "sys_rank cfg w0 s =
     main_rank cfg w0 (length (threads s)) (main s) + sum_list (map (\<lambda>t. runner_rank w0 (snd t)) (threads s))"

lemma sys_rank_runner:
  assumes inv: "sys_inv cfg w0 s" and i: "i < length (threads s)" and t: "threads s ! i = (kw, st)"
    and r: "runner_step i st (sys_world s) = Some (st', w')"
  shows "sys_rank cfg w0 (s\<lparr>threads := (threads s)[i := (kw, st')], sys_world := w'\<rparr>) < sys_rank cfg w0 s"
proof -
  let ?ts = "threads s" and ?f = "\<lambda>t. runner_rank w0 (snd t)"
  have e0: "env_of (sys_world s) = env_of w0" using inv by (simp add: sys_inv_def)
  with runner_step_env [OF r] have e1: "env_of w' = env_of w0" by simp
  have lt: "runner_rank w0 st' < runner_rank w0 st"
    using runner_step_rank [OF r] runner_rank_env [OF e0] runner_rank_env [OF e1] by simp
  have "sum_list (map ?f (?ts[i := (kw, st')])) + runner_rank w0 st = sum_list (map ?f ?ts) + runner_rank w0 st'"
    using sum_list_update_nat [of i "map ?f ?ts" "runner_rank w0 st'"] i t by (simp add: map_update)
  with lt show ?thesis unfolding sys_rank_def by simp
qed

lemma sys_rank_main:
  assumes inv: "sys_inv cfg w0 s" and m: "main_step cfg s = Some s'"
  shows "sys_rank cfg w0 s' < sys_rank cfg w0 s"
proof -
  have mi: "main_inv cfg (main s) (threads s)" using inv by (simp add: sys_inv_def)
  show ?thesis
  proof (cases "main s")
    case M_Start
    with m mi show ?thesis by (auto simp: sys_rank_def split: prod.splits sum.splits)
  next
    case (M_Dispatch rest)
    show ?thesis
    proof (cases rest)
      case Nil
      with M_Dispatch m mi show ?thesis by (auto simp: sys_rank_def)
    next
      case (Cons kw rest')
      with M_Dispatch m show ?thesis
        by (auto simp: sys_rank_def entries_rank_def split: prod.splits sum.splits)
    qed
  next
    case (M_Join j)
    with m show ?thesis by (auto simp: sys_rank_def split: if_splits)
  next
    case (M_Exit c)
    with m show ?thesis by simp
  qed
qed

lemma sys_rank_step: "sys_inv cfg w0 s \<Longrightarrow> sys_step cfg s s' \<Longrightarrow> sys_rank cfg w0 s' < sys_rank cfg w0 s"
  by (erule sys_step.cases) (auto intro: sys_rank_main sys_rank_runner)
lemma sys_progress:
  assumes "\<not> finished s"
  shows "\<exists>s'. sys_step cfg s s'"
proof (cases "\<exists>i<length (threads s). snd (threads s ! i) \<noteq> R_Done")
  case True
  then obtain i kw st where i: "i < length (threads s)" and t: "threads s ! i = (kw, st)" and nd: "st \<noteq> R_Done"
    by (metis prod.collapse)
  then obtain st' w' where "runner_step i st (sys_world s) = Some (st', w')"
    by (metis not_Some_eq runner_step_None surj_pair)
  with i t show ?thesis by (blast intro: runner_sys_step)
next
  case False
  then have alldone: "\<forall>t\<in>set (threads s). snd t = R_Done" by (metis in_set_conv_nth)
  with assms have "main_step cfg s \<noteq> None"
    by (cases "main s") (auto simp: finished_def split: prod.splits sum.splits list.splits)
  then show ?thesis by (blast intro: main_sys_step)
qed

section \<open>Consequences of the invariant\<close>

lemma reachable_entry:
  assumes "reachable cfg w0 s" "i < length (threads s)"
  shows "fst (threads s ! i) = cfg ! i"
proof -
  from reachable_inv [OF assms(1)] have "prefix (map fst (threads s)) cfg"
    by (auto simp: sys_inv_def intro: main_inv_prefix)
  then obtain zs where "cfg = map fst (threads s) @ zs" by (auto simp: prefix_def)
  with assms(2) show ?thesis by (simp add: nth_append)
qed

lemma exited_step:
  assumes "main s = M_Exit c" "sys_step cfg s s'"
  shows "main s' = M_Exit c \<and> map fst (threads s') = map fst (threads s)"
  using assms(2)
proof cases
  case main_sys_step with assms(1) show ?thesis by simp
next
  case (runner_sys_step i kw st st' w')
  then have "map fst ((threads s)[i := (kw, st')]) = map fst (threads s)"
    by (metis fst_conv list_update_id map_update)
  with runner_sys_step assms(1) show ?thesis by simp
qed

lemma exited_steps:
  "(sys_step cfg)\<^sup>*\<^sup>* s s' \<Longrightarrow> main s = M_Exit c \<Longrightarrow> main s' = M_Exit c \<and> map fst (threads s') = map fst (threads s)"
  by (induction rule: rtranclp_induct) (auto dest: exited_step)

lemma exit0_last:
  "reachable cfg w0 s \<Longrightarrow> main s = M_Exit 0 \<Longrightarrow> last (stdout (sys_world s)) = (Main, render_markup final_msg @ ''\<newline>'')"
proof (induction rule: reachable.induct)
  case reach_init
  then show ?case by (simp add: sys0_def)
next
  case (reach_step s s')
  show ?case
  proof (cases "main s = M_Exit 0")
    case True
    with reachable_inv [OF reach_step.hyps(1)] have "\<forall>t\<in>set (threads s). snd t = R_Done"
      by (simp add: sys_inv_def)
    with reach_step.hyps(2) True show ?thesis
      by cases (auto simp: all_set_conv_all_nth)
  next
    case False
    from reach_step.hyps(2) False reach_step.prems show ?thesis
    proof cases
      case main_sys_step
      with False reach_step.prems show ?thesis
        by (cases "main s") (auto split: prod.splits sum.splits list.splits if_splits)
    qed simp
  qed
qed

lemma ip_failure_run:
  assumes "\<not> online w0" "reachable cfg w0 s"
  shows "threads s = [] \<and> (s = sys0 w0 \<or> main s = M_Exit 1 \<and> sys_world s = uncaught ConnectionError (sys_world (sys0 w0)))"
  using assms(2)
proof (induction rule: reachable.induct)
  case reach_init
  then show ?case by (simp add: sys0_def)
next
  case (reach_step s s')
  from reach_step.hyps(2) reach_step.IH assms(1) show ?case
  proof cases
    case main_sys_step
    with reach_step.IH assms(1) show ?thesis
      by (auto simp: sys0_def main_prelude_def ip_get_def py_bind_def)
  qed auto
qed

lemma main_prelude_Nil:
  assumes "online w"
  shows "main_prelude [] w =
    (Inr (), w\<lparr>stdout := stdout w @ [(Main, ''[Loader][INFO] Server IP: '' @ render_markup (public_ip w) @ ''\<newline>''),
                (Main, ''[Loader][INFO] Loading 0 bot(s)\<newline>'')]\<rparr>)"
  using assms
  by (simp add: main_prelude_def ip_get_def py_bind_def py_then_def py_modify_def py_rprint_def rprint_args_def
      rprint_def render_markup_labels render_markup_plain show_nat.simps hex_digit_def)

lemma empty_cfg_reachable:
  assumes "online w0" "reachable [] w0 s"
  shows "threads s = [] \<and> (s = sys0 w0 \<or>
     sys_world s = snd (main_prelude [] (sys_world (sys0 w0))) \<and> (main s = M_Dispatch [] \<or> main s = M_Join 0)
   \<or> sys_world s = rprint Main final_msg (snd (main_prelude [] (sys_world (sys0 w0)))) \<and> main s = M_Exit 0)"
  using assms(2)
proof (induction rule: reachable.induct)
  case reach_init
  then show ?case by (simp add: sys0_def)
next
  case (reach_step s s')
  obtain w1 where p: "main_prelude [] (w0\<lparr>stdout := [], stderr := [], procs := []\<rparr>) = (Inr (), w1)"
    using main_prelude_Nil [of "w0\<lparr>stdout := [], stderr := [], procs := []\<rparr>"] assms(1) by simp
  from reach_step.hyps(2) show ?case
  proof cases
    case main_sys_step
    with reach_step.IH p show ?thesis by (auto simp: sys0_def)
  qed (use reach_step.IH in simp)
qed

lemma relpowp_rank:
  "(sys_step cfg ^^ n) s s' \<Longrightarrow> reachable cfg w0 s \<Longrightarrow> sys_rank cfg w0 s' + n \<le> sys_rank cfg w0 s"
proof (induction n arbitrary: s')
  case (Suc n)
  from Suc.prems(1) obtain s1 where n: "(sys_step cfg ^^ n) s s1" and st: "sys_step cfg s1 s'"
    by (rule relpowp_Suc_E)
  have r1: "reachable cfg w0 s1"
    using n Suc.prems(2) by (induction n arbitrary: s1) (auto intro: reach_step)
  from Suc.IH [OF n Suc.prems(2)] sys_rank_step [OF reachable_inv [OF r1] st] show ?case by simp
qed simp

lemma sys_rank_init:
  "sys_rank cfg w0 (sys0 w0) = sum_list (map (\<lambda>kw. length (transcript w0 kw) + 2) cfg) + length cfg + 3"
  by (simp add: sys_rank_def sys0_def entries_rank_def)

section \<open>An example run\<close>

text \<open>
  Two entries without a remote, in directories \<open>A\<close> and \<open>B\<close> that exist;
  each child prints one line.
\<close>

definition ex_cfg :: "pydict list" where
  "ex_cfg = [[(''dir'', PStr ''A''), (''start'', PStr ''a.py''), (''tag'', PStr ''[A]'')],
             [(''dir'', PStr ''B''), (''start'', PStr ''b.py''), (''tag'', PStr ''[B]'')]]"

definition ex_w0 :: world where
  "ex_w0 = empty_world\<lparr>fs := [''A'' \<mapsto> Dir empty_wdir, ''B'' \<mapsto> Dir empty_wdir], online := True,
     public_ip := ''203.0.113.7'',
     programs := (\<lambda>cwd argv env. (if cwd = ''A'' then ''a\<newline>'' else ''b\<newline>'', 0))\<rparr>"


lemmas ex_eval = ex_cfg_def ex_w0_def sys0_def empty_world_def main_prelude_def ip_get_def pyio_simps rprint_args_def
  listing_msg_def sync_entry_def dict_has_def cli_defs dict_get_def py_rprint_def py_then_def py_bind_def py_modify_def
  py_return_def rprint_def markup_tag_def tag_start_def show_nat.simps hex_digit_def uncaught_def Let_def cwd_error_def
  opening_msg_def stopped_msg_def runfile_setup_def bind_runfile_def runfile_params_def os_path_join_def pipe_lines_def drop_lf_def
  read_lines.simps readline_def rstrip_def is_space_def write_out_def final_msg_def

abbreviation ex_interleaving :: "sched list" where
  "ex_interleaving \<equiv> [SMain, SMain, SMain, SRunner 0, SRunner 1, SRunner 0, SRunner 1]"

abbreviation ex_full_run :: "sched list" where
  "ex_full_run \<equiv> ex_interleaving @ [SRunner 0, SRunner 1, SRunner 0, SRunner 1, SMain, SMain, SMain, SMain]"

lemma ex_interleaving_run:
  "run_sched ex_cfg ex_interleaving (sys0 ex_w0) = Some (the (run_sched ex_cfg ex_interleaving (sys0 ex_w0)))"
  by (simp add: ex_eval)

lemma ex_full_run_run:
  "run_sched ex_cfg ex_full_run (sys0 ex_w0) = Some (the (run_sched ex_cfg ex_full_run (sys0 ex_w0)))"
  by (simp add: ex_eval)

lemma ex_full_main: "main (the (run_sched ex_cfg ex_full_run (sys0 ex_w0))) = M_Exit 0"
  by (simp add: ex_eval)

lemma ex_interleaving_out:
  "stdout (sys_world (the (run_sched ex_cfg ex_interleaving (sys0 ex_w0)))) =
    [(Main, ''[Loader][INFO] Server IP: 203.0.113.7\<newline>''),
     (Main, ''[Loader][INFO] Loading 2 bot(s)\<newline>''),
     (Main, ''[Loader][INFO]   -  [A] - A\<newline>''),
     (Main, ''[Loader][INFO]   -  [B] - B\<newline>''),
     (Runner 0, ''[Loader][INFO] Opening file: `A/a.py`\<newline>''),
     (Runner 1, ''[Loader][INFO] Opening file: `B/b.py`\<newline>''),
     (Runner 0, ''[A] a''), (Runner 1, ''[B] b'')]"
  by (simp add: ex_eval)

lemma reachable_ex_interleaving: "reachable ex_cfg ex_w0 (the (run_sched ex_cfg ex_interleaving (sys0 ex_w0)))"
  by (rule run_sched_reachable [OF ex_interleaving_run reach_init])

lemma reachable_ex_full_run: "reachable ex_cfg ex_w0 (the (run_sched ex_cfg ex_full_run (sys0 ex_w0)))"
  by (rule run_sched_reachable [OF ex_full_run_run reach_init])

abbreviation ex_mid :: sys where
  "ex_mid \<equiv> the (run_sched ex_cfg ex_interleaving (sys0 ex_w0))"

abbreviation ex_end :: sys where
  "ex_end \<equiv> the (run_sched ex_cfg ex_full_run (sys0 ex_w0))"

abbreviation ex_dispatch :: sys where
  "ex_dispatch \<equiv> \<lparr>main = M_Dispatch bot_info, threads = [], sys_world = empty_world\<rparr>"



theorem no_restart_witness:
  "reachable ex_cfg ex_w0 ex_end
   \<and> length (filter (\<lambda>p. take 1 (snd p) = [sys_executable]) (procs (sys_world ex_end))) = 2
   \<and> length (filter (\<lambda>p. take 1 (snd p) = [sys_executable]) (procs (sys_world ex_end))) \<le> length ex_cfg"
proof -
  have r: "reachable ex_cfg ex_w0 ex_end" by (rule reachable_ex_full_run)
  have n: "length (filter (\<lambda>p. take 1 (snd p) = [sys_executable]) (procs (sys_world ex_end))) = 2"
    using ex_full_run_run by (simp add: ex_eval)
  from no_restart [OF r] r n show ?thesis by simp
qed

end
