(* ===== verification/Spec2Isabelle.thy ===== *)
theory Spec2Isabelle
  imports Sync Runner System
begin

text \<open>
  \<^bold>\<open>A verification development of DPYCluster (\<open>src/loader.py\<close>).\<close>

  \<^medskip>
  \<^bold>\<open>The program.\<close> \<open>loader.py\<close> is a process supervisor. Its main thread
  (\<open>main\<close>, lines 95--123) checks the public IP address, lists the entries of
  the static configuration \<open>bot_info\<close> (lines 11--20), and then, entry by
  entry, synchronizes the entry's working directory with its git remote
  (\<open>github\<close>, lines 30--66) and starts a thread running \<open>runfile\<close>
  (lines 69--92), which launches the entry's Python program, relays its output
  line by line with a tag, waits for it and prints a stop notice. The main
  thread then joins every runner and prints a final notice. The components
  share only the console and the file system; the synchronizer talks to git
  through \<open>subprocess.run\<close>.

  \<^medskip>
  \<^bold>\<open>Theories.\<close>
  \<^item> \<open>Prelude\<close>: Python exceptions (\<open>py_exc\<close>) and the exception-and-state
    monad \<open>('s, 'a) pyio\<close> (\<open>py_return\<close>, \<open>py_raise\<close>, \<open>py_bind\<close>,
    \<open>py_then\<close>, \<open>py_try\<close> for \<open>try\<close>/\<open>except\<close>, \<open>py_lift\<close>); frame
    conditions \<open>frames R m\<close> and their composition; \<open>raises_only P m\<close>
    (every exception escaping \<open>m\<close> satisfies \<open>P\<close>) with the rules
    \<open>raises_intros\<close> that decompose it block by block, an exception caught
    by \<open>py_try\<close> excepted; the projection \<open>proj\<close> of a log onto one writer.
  \<^item> \<open>Py_Str\<close>: the Python and library string operations the code uses: the
    substring test \<open>in\<close> (\<open>py_contains\<close>, proved equal to \<open>sublist\<close>),
    \<open>str.rstrip\<close>, \<open>os.path.join\<close>, reading a text pipe line by line with
    universal newlines (\<open>pipe_lines\<close>), \<open>rich\<close> markup (\<open>render_markup\<close>), and
    \<open>str\<close>/\<open>repr\<close> of numbers and lists; the line reading round trip and the
    line ends of \<open>line.rstrip()\<close> (C15, C16).
  \<^item> \<open>Config\<close>: Python values and dictionaries, the three \<open>TypeError\<close>s a list
    raises where a path is needed (\<open>os.fspath\<close>, \<open>os.stat\<close>, \<open>os.path.join\<close>),
    \<open>bot_info\<close>, the \<open>CLI\<close> labels and the children's environment \<open>child_env\<close>.
  \<^item> \<open>World\<close>: the state outside the program as a record \<open>world\<close>:
    directories with their git metadata (\<open>fs\<close>), remote repositories
    (\<open>server\<close>), the network, the supervisor's environment variables
    (\<open>os_environ\<close>), the children's behaviour (\<open>programs\<close>, a function of the
    working directory, argument vector and environment), the outcome of
    \<open>git pull --rebase\<close> (\<open>pull_rebase\<close>, an oracle of the environment), the
    console as a log of writes tagged with their writer, standard error and the
    log of started subprocesses; \<open>rprint\<close> and \<open>rprint_args\<close> (one write per
    line) and \<open>write_out\<close>; \<open>procs_within P\<close> (only processes satisfying
    \<open>P\<close> were started); the frame predicates \<open>keeps_env\<close> and
    \<open>main_writes\<close> (the main thread keeps the environment and standard error
    and writes nothing on a runner's behalf) and \<open>main_effect\<close> (the same,
    with reports of the main thread on standard error).
  \<^item> \<open>Git\<close>: the git commands as a datatype, their argument vectors, their
    effect on a directory (\<open>git_in\<close>, \<open>git_clone\<close>), \<open>subprocess_run\<close>, and
    \<open>run_args\<close>, \<open>subprocess.run\<close> on an argument vector of configuration
    values, which raises \<open>TypeError\<close> for a list before any process starts.
    Git is external: this part is modelled from spec section 6 and git's
    documented behaviour at the level the loader observes.
  \<^item> \<open>Sync\<close>: \<open>github\<close> in four blocks (\<open>github_clone\<close>, \<open>github_attach\<close>,
    \<open>github_reset\<close>, \<open>github_pull\<close>), with the URL and branch as the Python
    values of the configuration, and their theorems (claims C1--C4, C26, C29,
    C33).
  \<^item> \<open>Runner\<close>: \<open>runfile\<close>: the binding of \<open>runfile(**kwargs)\<close>
    (\<open>bind_runfile\<close>), the launch parameters (\<open>runfile_setup\<close>), the thread as a
    step function \<open>runner_step\<close> over \<open>rstate\<close>, one step per console write
    (\<open>print\<close> is two writes: the text, then the line end), the transcript a
    runner writes, \<open>runner_outcome\<close> (what one step does to the console and to
    standard error), and \<open>runner_run\<close>, a runner run alone (claims C5, C6,
    C19, C20, C23, C32, C34).
  \<^item> \<open>Supervisor\<close>: \<open>main\<close> as a step function \<open>main_step\<close> over its
    program point \<open>mstate\<close> (IP check and listing; one step per dispatched entry,
    synchronization then thread start; the join of each thread in order; the
    final notice); the system record \<open>sys\<close>; the inductive relation
    \<open>sys_step\<close> interleaving the main thread and the runners; \<open>reachable\<close>;
    the executable scheduler \<open>run_sched\<close>, whose runs are runs of \<open>sys_step\<close>;
    the console lines of the start of \<open>main\<close> (C24) and the unescaped
    interpolation of configuration values into \<open>rich\<close> markup (C25);
    \<open>reported_exc\<close>, the exceptions each kind of thread may report;
    \<open>entry_proc\<close>, the git processes the synchronization of an entry may start.
  \<^item> \<open>System\<close>: the invariants \<open>sys_inv\<close> (environment, console of each
    runner a prefix of its transcript, runners started in order) and
    \<open>out_inv\<close> (console of each runner equal to its transcript unless it
    reported an exception; standard error of the main thread and the exit
    status), both proved by rule induction over \<open>reachable\<close>; the rank
    \<open>sys_rank\<close> that every step decreases; progress; the exceptions on
    standard error (C27); the processes started (C30) and the bound on the
    programs launched (C31); example runs computed with \<open>run_sched\<close>.
  \<^item> This theory: the properties of the whole supervisor (C7--C14, C17, C18,
    C21, C22, C28).

  \<^medskip>
  \<^bold>\<open>What is proved.\<close> For the synchronizer: the clone of a missing
  directory (C1) and the fatality of a failed clone (C2); the substring test
  for \<open>origin\<close> (line 51): a repository with a remote such as \<open>origin2\<close> but
  no \<open>origin\<close> is never given one, and its pull fails with a warning (C3, a code
  bug); the \<open>NotADirectoryError\<close> for a path that is a file (C4, a gap in the
  spec); \<open>github\<close> lets escape only a failure of one of its six checked git
  commands, never of the pull, or an \<open>OSError\<close> of the directory (C26, proved
  compositionally with \<open>raises_only\<close>); on an existing directory \<open>github\<close>
  starts exactly the git commands of the attach block, then reset, clean,
  checkout and pull, in the directory (C29, spec 4.1 steps 2--6); and
  \<open>git remote add origin\<close> never fails, whatever the directory holds (C33).
  For the runner: the configured tag is never used, every line carries
  \<open>[dir]\<close> (C5, a divergence); a runner alone writes exactly its transcript
  whatever its child's exit status (C6); the entries it accepts, every other
  one raising \<open>TypeError\<close> (C19); a failed spawn ends only that runner, with
  its \<open>OSError\<close> on standard error (C20); a successful launch prints the
  opening notice and starts exactly one child, with
  \<open>[sys.executable, "-O", "-u", start, *args]\<close> in \<open>dir or "."\<close>, relaying
  under the tag \<open>[dir]\<close> (C23); its notices pass the path through \<open>rich\<close>
  markup unescaped, so that for every directory that is a bracketed style word
  such as \<open>[beta]\<close> they name the script as \<open>/start\<close> (C32, a code bug); the
  children's output does not depend on the supervisor's own
  \<open>FORCE_COLOR\<close>, which \<open>env\<close> overrides with \<open>1\<close> for every child (C34).
  For the line reader: the round trip of reading a child's output line by line
  (C15) and the absence of line ends in \<open>line.rstrip()\<close> (C16). For the start
  of \<open>main\<close>: the lines it prints (C24), and the tag of every entry that is a
  bracketed style word vanishing from the listing (C25, a code bug). For the
  system: in every interleaving each runner's writes are a prefix of its
  transcript (C7); main returns only after starting one runner per entry and
  after all of them are done, the final notice being the last write (C8);
  every run is finite (C9) and can always reach the end, so there is no
  deadlock (C10); a synchronization error ends main and no later entry is
  started (C11); a failed IP check aborts before any runner (C12); the console
  is not line-atomic: from every reachable state in which two runners are
  about to relay a line, the system can write the text of both lines with no
  line end between them (C13, a divergence from spec section 5); a failed pull
  does not stop the entry's runner (C14). The invariant of the reachable
  states (C17); the bound on the length of every run (C18); a runner that
  ended without an exception relayed every line of its child (C21); the exit
  status is 1 exactly when the main thread raised, whatever the children's
  statuses (C22); in every reachable state standard error holds only the
  exceptions \<open>reported_exc\<close> allows each thread (C27); an empty configuration:
  every finished run prints the address, \<open>Loading 0 bot(s)\<close> and the final
  notice, exits with 0, and touches no directory (C28); every process the
  loader starts is a git command of a configured entry, in its directory or
  (the clone) without one, or the program of a configured entry as
  \<open>runfile\<close> launches it (C30); no program is launched twice and no child is
  relaunched: the launches never outnumber the runner threads that have left
  their start, nor the entries (C31, spec 4.3).

  \<^medskip>
  \<^bold>\<open>Bounds and termination.\<close> No fuel is used. Every loop of the code is a
  total function: the line reader and the markup renderer decrease the length of
  their input, and a runner run alone (\<open>runner_run\<close>) decreases
  \<open>runner_rank\<close>, the number of writes it still owes, which is finite because a
  child's output is a finite string. For the system, \<open>sys_rank\<close> (computed in
  the initial world, whose environment every step keeps) counts the main
  thread's remaining steps, the ranks of the runners still to start and those
  of the started ones; every step decreases it (C9). Its value at the start
  bounds the number of steps of every run: the writes each runner owes plus two
  per entry, plus one per entry and three (C18).

  \<^medskip>
  \<^bold>\<open>Not modelled.\<close> The supervised programs and the IP echo service are
  external: the world records only what the loader observes of them (a child is
  its merged output and exit status as a function of its working directory,
  argument vector and environment; \<open>Popen\<close> passes \<open>child_env\<close> of the
  supervisor's \<open>os.environ\<close>, and the git children inherit \<open>os.environ\<close>,
  which the git model does not read). The effect of
  \<open>git pull --rebase\<close> on a repository (fast-forward, replayed commits, a
  rebase stopped by a conflict) depends on the history of both sides, which the
  model does not hold: it is the oracle \<open>pull_rebase\<close> of the world, queried
  with the URL of the remote, the branch and the directory, and the theorems
  about a successful synchronization state nothing about the pulled content. A
  missing \<open>git\<close> executable (\<open>FileNotFoundError\<close> from \<open>subprocess.run\<close>) is
  not modelled: the world always has git. \<open>rich\<close>'s \<open>MarkupError\<close>, raised for a
  closing tag such as \<open>[/x]\<close> with no matching opening tag, is not modelled:
  \<open>render_markup\<close> drops every tag it recognises. The timing of a child's
  output relative to other threads is abstracted by the interleaving: a
  runner's read of a line is not a separate step. Colours, the console width at
  which \<open>rich\<close> wraps long lines, and the buffering of \<open>sys.stdout\<close> are not
  modelled; paths are not normalised. Whether the path the runner prints names
  the script the child runs is not stated: it holds only up to the
  normalisation of \<open>./\<close> and \<open>//\<close>, which the loader never performs.
  \<open>subprocess.run\<close> and git, and \<open>rich\<close> and \<open>print\<close>, stay partly modelled:
  they are libraries and an external tool, modelled at the level the loader
  observes.
\<close>


section \<open>Properties of the whole supervisor\<close>

text \<open>
  C7: Per-child order. In every reachable state, what runner \<open>i\<close> has written
  to the console is a prefix of the transcript of the \<open>i\<close>-th configuration
  entry: the opening notice, then its child's lines in the child's order, each
  with its tag, then the stop notice, however the threads interleave.
\<close>

theorem per_child_order:
  assumes "reachable cfg w0 s" "i < length (threads s)"
  shows "prefix (proj (Runner i) (stdout (sys_world s))) (transcript w0 (cfg ! i))"
proof -
  from reachable_inv [OF assms(1)] assms(2)
  have "prefix (proj (Runner i) (stdout (sys_world s)) @ owed (sys_world s) (snd (threads s ! i))) (transcript w0 (fst (threads s ! i)))"
    by (simp add: sys_inv_def)
  then show ?thesis
    unfolding reachable_entry [OF assms] by (blast intro: prefix_order.trans prefixI)
qed

theorem per_child_order_witness:
  "reachable ex_cfg ex_w0 ex_mid \<and> 0 < length (threads ex_mid)
   \<and> prefix [''[Loader][INFO] Opening file: `A/a.py`\<newline>'', ''[A] a''] (transcript ex_w0 (ex_cfg ! 0))"
proof -
  have t: "0 < length (threads ex_mid)" by (simp add: ex_eval)
  from per_child_order [OF reachable_ex_interleaving t] reachable_ex_interleaving t
  show ?thesis unfolding ex_interleaving_out by simp
qed

text \<open>
  C8: The supervisor returns only after every runner: when the main thread has
  returned normally, one runner was started for each configuration entry, in
  order, all of them are done, the process can exit, and the last write to the
  console is the final notice.
\<close>

theorem exit_after_all_runners:
  assumes "reachable cfg w0 s" "main s = M_Exit 0"
  shows "map fst (threads s) = cfg \<and> (\<forall>t\<in>set (threads s). snd t = R_Done) \<and> finished s
       \<and> last (stdout (sys_world s)) = (Main, render_markup final_msg @ ''\<newline>'')"
  using reachable_inv [OF assms(1)] assms(2) exit0_last [OF assms]
  by (simp add: sys_inv_def finished_def)

theorem exit_after_all_runners_witness:
  "reachable ex_cfg ex_w0 ex_end \<and> main ex_end = M_Exit 0 \<and> map fst (threads ex_end) = ex_cfg \<and> finished ex_end
   \<and> last (stdout (sys_world ex_end)) = (Main, ''[Loader][WARNING] All files have exited, quitting.\<newline>'')"
proof -
  from exit_after_all_runners [OF reachable_ex_full_run ex_full_main] reachable_ex_full_run ex_full_main
  show ?thesis by (simp add: final_msg_def cli_defs markup_tag_def tag_start_def)
qed

text \<open>
  C9: Termination. No run of the supervisor is infinite, for every
  configuration and every world (the children's outputs are finite).
\<close>

theorem supervisor_terminates: "\<not> (\<exists>f. f 0 = sys0 w0 \<and> (\<forall>n. sys_step cfg (f n) (f (Suc n))))"
proof
  assume "\<exists>f. f 0 = sys0 w0 \<and> (\<forall>n. sys_step cfg (f n) (f (Suc n)))"
  then obtain f where f0: "f 0 = sys0 w0" and fs: "\<And>n. sys_step cfg (f n) (f (Suc n))" by blast
  have r: "reachable cfg w0 (f n)" for n
    by (induction n) (auto simp: f0 intro: reach_init reach_step fs)
  have "sys_rank cfg w0 (f n) + n \<le> sys_rank cfg w0 (f 0)" for n
  proof (induction n)
    case (Suc n)
    with sys_rank_step [OF reachable_inv [OF r] fs, of n] show ?case by simp
  qed simp
  from this [of "Suc (sys_rank cfg w0 (f 0))"] show False by simp
qed

theorem supervisor_terminates_witness:
  "\<not> (\<exists>f. f 0 = sys0 ex_w0 \<and> (\<forall>n. sys_step ex_cfg (f n) (f (Suc n))))"
  by (rule supervisor_terminates)

text \<open>
  C10: Completion. From every reachable state the system can reach a state
  where the main thread has ended and every runner is done: there is no
  deadlock, and with C12 every run ends there.
\<close>

theorem supervisor_completes:
  assumes "reachable cfg w0 s"
  shows "\<exists>s'. (sys_step cfg)\<^sup>*\<^sup>* s s' \<and> finished s'"
  using assms
proof (induction "sys_rank cfg w0 s" arbitrary: s rule: less_induct)
  case less
  show ?case
  proof (cases "finished s")
    case False
    then obtain s1 where st: "sys_step cfg s s1" using sys_progress by blast
    from less.prems st have r1: "reachable cfg w0 s1" by (rule reach_step)
    have "sys_rank cfg w0 s1 < sys_rank cfg w0 s" by (rule sys_rank_step [OF reachable_inv [OF less.prems] st])
    with less.hyps r1 obtain s' where "(sys_step cfg)\<^sup>*\<^sup>* s1 s'" "finished s'" by blast
    with st show ?thesis by (meson converse_rtranclp_into_rtranclp)
  qed blast
qed

theorem supervisor_completes_witness:
  "reachable ex_cfg ex_w0 (sys0 ex_w0) \<and> (\<exists>s'. (sys_step ex_cfg)\<^sup>*\<^sup>* (sys0 ex_w0) s' \<and> finished s')"
  using supervisor_completes [OF reach_init] reach_init by blast

text \<open>
  C11: A synchronization error halts the dispatch loop: the main thread ends
  with the exception on standard error, and no runner is started afterwards,
  neither for the failing entry nor for the entries after it.
\<close>

theorem sync_error_halts:
  assumes "main s = M_Dispatch (kw # rest)" "fst (sync_entry kw (sys_world s)) = Inl e"
    "main_step cfg s = Some s'"
  shows "main s' = M_Exit 1 \<and> last (stderr (sys_world s')) = (Main, e)
       \<and> (\<forall>s''. (sys_step cfg)\<^sup>*\<^sup>* s' s'' \<longrightarrow> map fst (threads s'') = map fst (threads s))"
proof -
  obtain w where se: "sync_entry kw (sys_world s) = (Inl e, w)" using assms(2) by (cases "sync_entry kw (sys_world s)") auto
  have "main_step cfg s = Some (s\<lparr>main := M_Exit 1, sys_world := uncaught e w\<rparr>)"
    using assms(1) se by simp
  with assms(3) have s': "s' = s\<lparr>main := M_Exit 1, sys_world := uncaught e w\<rparr>" by simp
  have "main s' = M_Exit 1" "last (stderr (sys_world s')) = (Main, e)" "threads s' = threads s"
    unfolding s' by (simp_all add: uncaught_def)
  moreover have "map fst (threads s'') = map fst (threads s')" if "(sys_step cfg)\<^sup>*\<^sup>* s' s''" for s''
    using exited_steps [OF that] \<open>main s' = M_Exit 1\<close> by blast
  ultimately show ?thesis by simp
qed

theorem sync_error_halts_witness:
  "main ex_dispatch = M_Dispatch (hd bot_info # [])
   \<and> fst (sync_entry (hd bot_info) (sys_world ex_dispatch))
       = Inl (CalledProcessError [''git'', ''clone'', ''--branch'', ''master'', ''https://github.com/jadenlabs/Taiga'', ''Taiga''] 128)
   \<and> main_step bot_info ex_dispatch = Some (the (main_step bot_info ex_dispatch))
   \<and> main (the (main_step bot_info ex_dispatch)) = M_Exit 1"
proof -
  have h: "main ex_dispatch = M_Dispatch (hd bot_info # [])" by (simp add: bot_info_def)
  have e: "fst (sync_entry (hd bot_info) (sys_world ex_dispatch))
       = Inl (CalledProcessError [''git'', ''clone'', ''--branch'', ''master'', ''https://github.com/jadenlabs/Taiga'', ''Taiga''] 128)"
    by (simp add: bot_info_def sync_entry_def dict_has_def dict_index_def dict_get_def py_lift_def py_bind_def
        github_def path_exists_def github_clone_def empty_world_def py_then_def py_rprint_def py_modify_def
        subprocess_run_def cwd_error_def git_child_def git_exec_def git_clone_def Let_def)
  have m: "main_step bot_info ex_dispatch = Some (the (main_step bot_info ex_dispatch))"
    by (simp add: bot_info_def)
  from sync_error_halts [OF h e m] h e m show ?thesis by simp
qed

text \<open>
  C12: A failed IP check aborts the start: without network the main thread
  ends with \<open>ConnectionError\<close> on standard error before printing anything, and
  no runner is ever started.
\<close>

theorem ip_failure_aborts:
  assumes "\<not> online w0" "reachable cfg w0 s"
  shows "threads s = [] \<and> (main s = M_Start \<or> main s = M_Exit 1 \<and> stderr (sys_world s) = [(Main, ConnectionError)]
         \<and> stdout (sys_world s) = [])"
  using ip_failure_run [OF assms] by (auto simp: sys0_def uncaught_def)

theorem ip_failure_aborts_witness:
  "\<not> online empty_world \<and> reachable bot_info empty_world (the (run_sched bot_info [SMain] (sys0 empty_world)))
   \<and> main (the (run_sched bot_info [SMain] (sys0 empty_world))) = M_Exit 1
   \<and> stderr (sys_world (the (run_sched bot_info [SMain] (sys0 empty_world)))) = [(Main, ConnectionError)]"
proof -
  have o: "\<not> online empty_world" by (simp add: empty_world_def)
  have "run_sched bot_info [SMain] (sys0 empty_world) = Some (the (run_sched bot_info [SMain] (sys0 empty_world)))"
    by (simp add: sys0_def empty_world_def main_prelude_def ip_get_def py_bind_def)
  then have r: "reachable bot_info empty_world (the (run_sched bot_info [SMain] (sys0 empty_world)))"
    by (rule run_sched_reachable [OF _ reach_init])
  have m: "main (the (run_sched bot_info [SMain] (sys0 empty_world))) \<noteq> M_Start"
    by (simp add: sys0_def empty_world_def main_prelude_def ip_get_def py_bind_def)
  from ip_failure_aborts [OF o r] o r m show ?thesis by simp
qed

text \<open>
  C13: The console is not line-atomic. Two runners can write between the text
  of a line and its line end, so that one console line carries the text of two
  children: here \<open>[A] a[B] b\<close>. The spec requires the writes of a line to be
  serialized.
\<close>

theorem print_not_line_atomic:
  assumes "reachable cfg w0 s" "i \<noteq> j" "i < length (threads s)" "j < length (threads s)"
    "threads s ! i = (kw, R_Relay tg fp (l # ls))" "threads s ! j = (kw', R_Relay tg' fp' (l' # ls'))"
  shows "\<exists>s'. reachable cfg w0 s' \<and>
           stdout (sys_world s') = stdout (sys_world s) @ [(Runner i, tg @ '' '' @ rstrip l), (Runner j, tg' @ '' '' @ rstrip l')]"
proof -
  let ?w1 = "write_out (Runner i) (tg @ '' '' @ rstrip l) (sys_world s)"
  let ?s1 = "s\<lparr>threads := (threads s)[i := (kw, R_Newline tg fp ls)], sys_world := ?w1\<rparr>"
  let ?s2 = "?s1\<lparr>threads := (threads ?s1)[j := (kw', R_Newline tg' fp' ls')],
                sys_world := write_out (Runner j) (tg' @ '' '' @ rstrip l') ?w1\<rparr>"
  have "sys_step cfg s ?s1" by (rule runner_sys_step [OF assms(3,5)]) simp
  with assms(1) have r1: "reachable cfg w0 ?s1" by (rule reach_step)
  have j: "j < length (threads ?s1)" "threads ?s1 ! j = (kw', R_Relay tg' fp' (l' # ls'))" using assms(2,4,6) by simp_all
  have "sys_step cfg ?s1 ?s2" by (rule runner_sys_step [OF j]) simp
  with r1 have "reachable cfg w0 ?s2" by (rule reach_step)
  then show ?thesis by (intro exI [of _ ?s2]) (simp add: write_out_def)
qed

theorem print_not_line_atomic_witness:
  "\<exists>s'. reachable ex_cfg ex_w0 s' \<and> drop 6 (stdout (sys_world s')) = [(Runner 0, ''[A] a''), (Runner 1, ''[B] b'')]"
proof -
  let ?s = "the (run_sched ex_cfg [SMain, SMain, SMain, SRunner 0, SRunner 1] (sys0 ex_w0))"
  have run: "run_sched ex_cfg [SMain, SMain, SMain, SRunner 0, SRunner 1] (sys0 ex_w0) = Some ?s" by (simp add: ex_eval)
  have r: "reachable ex_cfg ex_w0 ?s" by (rule run_sched_reachable [OF run reach_init])
  have h: "0 < length (threads ?s)" "1 < length (threads ?s)"
    "threads ?s ! 0 = (ex_cfg ! 0, R_Relay ''[A]'' ''A/a.py'' [''a\<newline>''])"
    "threads ?s ! 1 = (ex_cfg ! 1, R_Relay ''[B]'' ''B/b.py'' [''b\<newline>''])"
    by (simp_all add: ex_eval)
  have o: "length (stdout (sys_world ?s)) = 6" by (simp add: ex_eval)
  from print_not_line_atomic [OF r _ h] o show ?thesis by (auto simp: ex_eval)
qed

text \<open>
  C14: A failed pull does not stop the entry: for an entry whose directory
  exists, the main thread's dispatch step always synchronizes it without raising
  and starts its runner.
\<close>

theorem dispatch_despite_pull_failure:
  assumes "main s = M_Dispatch (kw # rest)" "dict_index kw ''dir'' = Inr (PStr d)" "dict_index kw ''github'' = Inr (PStr u)"
    "dict_get kw ''github_branch'' (PStr ''master'') = PStr b" "fs (sys_world s) d = Some (Dir x)"
  shows "\<exists>s'. main_step cfg s = Some s' \<and> main s' = M_Dispatch rest \<and> threads s' = threads s @ [(kw, R_Start kw)]"
proof -
  have "dict_has kw ''github''" using assms(3) by (auto simp: dict_index_def dict_has_def split: option.splits)
  then have "sync_entry kw (sys_world s) = github d (PStr u) (PStr b) (sys_world s)"
    using assms(2-4) by (simp add: sync_entry_def py_lift_def py_bind_def)
  moreover have "fst (github d (PStr u) (PStr b) (sys_world s)) = Inr ()" using github_dir [OF assms(5)] by blast
  ultimately obtain w where "sync_entry kw (sys_world s) = (Inr (), w)"
    by (metis prod.collapse)
  then have "main_step cfg s = Some (s\<lparr>main := M_Dispatch rest, threads := threads s @ [(kw, R_Start kw)], sys_world := w\<rparr>)"
    using assms(1) by simp
  then show ?thesis by simp
qed

theorem dispatch_despite_pull_failure_witness:
  "main (ex_dispatch\<lparr>sys_world := empty_world\<lparr>fs := [''Taiga'' \<mapsto> Dir empty_wdir]\<rparr>\<rparr>) = M_Dispatch (hd bot_info # [])
   \<and> (\<exists>s'. main_step bot_info (ex_dispatch\<lparr>sys_world := empty_world\<lparr>fs := [''Taiga'' \<mapsto> Dir empty_wdir]\<rparr>\<rparr>) = Some s'
         \<and> main s' = M_Dispatch [] \<and> threads s' = [(hd bot_info, R_Start (hd bot_info))])"
proof -
  let ?s = "ex_dispatch\<lparr>sys_world := empty_world\<lparr>fs := [''Taiga'' \<mapsto> Dir empty_wdir]\<rparr>\<rparr>"
  have h: "main ?s = M_Dispatch (hd bot_info # [])"
    "dict_index (hd bot_info) ''dir'' = Inr (PStr ''Taiga'')"
    "dict_index (hd bot_info) ''github'' = Inr (PStr ''https://github.com/jadenlabs/Taiga'')"
    "dict_get (hd bot_info) ''github_branch'' (PStr ''master'') = PStr ''master''"
    "fs (sys_world ?s) ''Taiga'' = Some (Dir empty_wdir)"
    by (simp_all add: bot_info_def dict_index_def dict_get_def)
  from dispatch_despite_pull_failure [OF h] h(1) show ?thesis by simp
qed


text \<open>
  C17: The invariant of the supervisor. In every reachable state the
  environment is the initial one, only runners already started have written to
  the console, and the main thread's program point agrees with the runners
  started: none before the dispatch loop, one per dispatched entry in
  configuration order, all of them once it joins, the joined ones done, and all
  of them done once it has returned normally.
\<close>

theorem reachable_invariant:
  assumes "reachable cfg w0 s"
  shows "env_of (sys_world s) = env_of w0 \<and> (\<forall>j\<ge>length (threads s). proj (Runner j) (stdout (sys_world s)) = [])
       \<and> main_inv cfg (main s) (threads s)"
  using reachable_inv [OF assms] by (simp add: sys_inv_def)

theorem reachable_invariant_witness:
  "reachable ex_cfg ex_w0 ex_mid \<and> env_of (sys_world ex_mid) = env_of ex_w0
   \<and> main_inv ex_cfg (main ex_mid) (threads ex_mid) \<and> main ex_mid = M_Dispatch []"
proof -
  have m: "main ex_mid = M_Dispatch []" by (simp add: ex_eval)
  from reachable_invariant [OF reachable_ex_interleaving] reachable_ex_interleaving m show ?thesis by simp
qed

text \<open>
  C18: Bound on the run. Every run of the supervisor from its start takes at
  most as many steps as the writes the runners owe, plus two per entry for its
  dispatch and its join, plus one per entry and three for the start, the end of
  the dispatch loop and the final notice.
\<close>

theorem supervisor_steps_bound:
  "(sys_step cfg ^^ n) (sys0 w0) s \<Longrightarrow> n \<le> sum_list (map (\<lambda>kw. length (transcript w0 kw) + 2) cfg) + length cfg + 3"
proof -
  assume "(sys_step cfg ^^ n) (sys0 w0) s"
  from relpowp_rank [OF this reach_init] show ?thesis by (simp add: sys_rank_init)
qed

theorem supervisor_steps_bound_witness:
  "(sys_step ex_cfg ^^ 15) (sys0 ex_w0) ex_end
   \<and> sum_list (map (\<lambda>kw. length (transcript ex_w0 kw) + 2) ex_cfg) + length ex_cfg + 3 = 17"
proof -
  have l: "length ex_full_run = 15" by simp
  have r: "(sys_step ex_cfg ^^ 15) (sys0 ex_w0) ex_end"
    using run_sched_relpowp [OF ex_full_run_run] by (simp only: l)
  have b: "sum_list (map (\<lambda>kw. length (transcript ex_w0 kw) + 2) ex_cfg) + length ex_cfg + 3 = 17"
    by (simp add: ex_eval transcript_def relay_writes_def)
  from supervisor_steps_bound [OF r] r b show ?thesis by simp
qed


text \<open>
  C21: A runner that ended without an exception relayed its child's whole
  output: in a reachable state where runner \<open>i\<close> is done and has reported no
  exception, its writes are exactly the transcript of the \<open>i\<close>-th entry, every
  line of the child included, in order, followed by the stop notice.
\<close>

theorem finished_runner_complete:
  assumes "reachable cfg w0 s" "i < length (threads s)" "snd (threads s ! i) = R_Done"
    "proj (Runner i) (stderr (sys_world s)) = []"
  shows "proj (Runner i) (stdout (sys_world s)) = transcript w0 (cfg ! i)"
proof -
  from reachable_out_inv [OF assms(1)] assms(2-4)
  have "proj (Runner i) (stdout (sys_world s)) @ owed (sys_world s) R_Done = transcript w0 (fst (threads s ! i))"
    unfolding out_inv_def by (metis)
  then show ?thesis unfolding reachable_entry [OF assms(1,2)] by (simp add: owed_def)
qed

theorem finished_runner_complete_witness:
  "reachable ex_cfg ex_w0 ex_end \<and> 0 < length (threads ex_end) \<and> snd (threads ex_end ! 0) = R_Done
   \<and> proj (Runner 0) (stderr (sys_world ex_end)) = []
   \<and> proj (Runner 0) (stdout (sys_world ex_end)) =
       [''[Loader][INFO] Opening file: `A/a.py`\<newline>'', ''[A] a'', ''\<newline>'', ''[Loader][WARNING] File A/a.py stopped\<newline>'']"
proof -
  have h: "0 < length (threads ex_end)" "snd (threads ex_end ! 0) = R_Done" "proj (Runner 0) (stderr (sys_world ex_end)) = []"
    by (simp_all add: ex_eval)
  have t: "transcript ex_w0 (ex_cfg ! 0) =
       [''[Loader][INFO] Opening file: `A/a.py`\<newline>'', ''[A] a'', ''\<newline>'', ''[Loader][WARNING] File A/a.py stopped\<newline>'']"
    by (simp add: ex_eval transcript_def relay_writes_def)
  from finished_runner_complete [OF reachable_ex_full_run h] reachable_ex_full_run h t show ?thesis by simp
qed

text \<open>
  C22: The exit status reports only the main thread. When the process can
  exit, the main thread has ended with status 1 if it reported an exception
  (a failed IP check or synchronization) and with status 0 otherwise, whatever
  the runners' exceptions and the children's exit statuses.
\<close>

theorem exit_status:
  assumes "reachable cfg w0 s" "finished s"
  shows "main s = M_Exit (if proj Main (stderr (sys_world s)) = [] then 0 else 1)"
proof -
  from assms(2) obtain c where c: "main s = M_Exit c" by (auto simp: finished_def split: mstate.splits)
  with reachable_out_inv [OF assms(1)] show ?thesis by (auto simp: out_inv_def)
qed

theorem exit_status_witness:
  "reachable ex_cfg ex_w0 ex_end \<and> finished ex_end \<and> main ex_end = M_Exit 0
   \<and> reachable bot_info empty_world (the (run_sched bot_info [SMain] (sys0 empty_world)))
   \<and> finished (the (run_sched bot_info [SMain] (sys0 empty_world)))
   \<and> main (the (run_sched bot_info [SMain] (sys0 empty_world))) = M_Exit 1"
proof -
  have f: "finished ex_end" by (simp add: ex_eval finished_def)
  have n: "run_sched bot_info [SMain] (sys0 empty_world) = Some (the (run_sched bot_info [SMain] (sys0 empty_world)))"
    by (simp add: sys0_def empty_world_def main_prelude_def ip_get_def py_bind_def)
  have r: "reachable bot_info empty_world (the (run_sched bot_info [SMain] (sys0 empty_world)))"
    by (rule run_sched_reachable [OF n reach_init])
  have f2: "finished (the (run_sched bot_info [SMain] (sys0 empty_world)))"
    by (simp add: finished_def sys0_def empty_world_def main_prelude_def ip_get_def py_bind_def)
  have e: "proj Main (stderr (sys_world ex_end)) = []" by (simp add: ex_eval)
  have e2: "proj Main (stderr (sys_world (the (run_sched bot_info [SMain] (sys0 empty_world))))) \<noteq> []"
    by (simp add: sys0_def empty_world_def main_prelude_def ip_get_def py_bind_def uncaught_def)
  from exit_status [OF reachable_ex_full_run f] exit_status [OF r f2] e e2 reachable_ex_full_run r f f2
  show ?thesis by simp
qed

text \<open>
  C28: An empty configuration. With the network reachable and no entry, every
  finished run has printed exactly the server address, \<open>Loading 0 bot(s)\<close> and
  the final notice, exits with status 0, has started no runner and no process,
  reported no exception, and left every directory as it was.
\<close>

theorem empty_config_run:
  assumes "online w0" "reachable [] w0 s" "finished s"
  shows "main s = M_Exit 0 \<and> threads s = [] \<and> stderr (sys_world s) = [] \<and> procs (sys_world s) = []
       \<and> fs (sys_world s) = fs w0
       \<and> stdout (sys_world s) =
           [(Main, ''[Loader][INFO] Server IP: '' @ render_markup (public_ip w0) @ ''\<newline>''),
            (Main, ''[Loader][INFO] Loading 0 bot(s)\<newline>''),
            (Main, ''[Loader][WARNING] All files have exited, quitting.\<newline>'')]"
proof -
  have o: "online (w0\<lparr>stdout := [], stderr := [], procs := []\<rparr>)" using assms(1) by simp
  from empty_cfg_reachable [OF assms(1,2)] assms(3) show ?thesis
    by (auto simp: finished_def sys0_def main_prelude_Nil [OF o] rprint_def final_msg_def render_markup_labels
        render_markup_plain)
qed


theorem empty_config_run_witness:
  "stdout (sys_world (the (run_sched [] [SMain, SMain, SMain] (sys0 (empty_world\<lparr>online := True, public_ip := ''203.0.113.7''\<rparr>)))))
     = [(Main, ''[Loader][INFO] Server IP: 203.0.113.7\<newline>''), (Main, ''[Loader][INFO] Loading 0 bot(s)\<newline>''),
        (Main, ''[Loader][WARNING] All files have exited, quitting.\<newline>'')]"
proof -
  let ?w = "empty_world\<lparr>online := True, public_ip := ''203.0.113.7''\<rparr>"
  let ?s = "the (run_sched [] [SMain, SMain, SMain] (sys0 ?w))"
  have o: "online ?w" by simp
  have run: "run_sched [] [SMain, SMain, SMain] (sys0 ?w) = Some ?s"
    by (simp add: sys0_def empty_world_def main_prelude_def ip_get_def pyio_simps py_rprint_def)
  have r: "reachable [] ?w ?s" by (rule run_sched_reachable [OF run reach_init])
  have f: "finished ?s"
    by (simp add: finished_def sys0_def empty_world_def main_prelude_def ip_get_def pyio_simps py_rprint_def)
  from empty_config_run [OF o r f] show ?thesis by (simp add: render_markup_plain)
qed

end
